theory Spec2Isabelle
  imports Complex_Main "HOL-Library.Monad_Syntax"
begin

section \<open>The clustering core of cluster.c\<close>

text \<open>
  A shallow embedding of the routines of cluster.c (the sample clusterer and the
  prototype fitter).  Conventions of the embedding:

  \<^item> A \<open>FLOAT32\<close> value is a real number that binary32 represents.  In the routines
    that merge clusters, filter clusters, compute statistics, test independence, make
    and change prototypes and adjust buckets, every \<open>FLOAT32\<close> operation and every
    store into a \<open>FLOAT32\<close> rounds to the nearest binary32 value, ties to even (\<open>f32\<close>
    below), each operation on its own, as an SSE unit does it.  An operation that
    overflows gives an infinity in the code; the result is left unspecified here, and
    so is a quotient by zero.
  \<^item> \<open>FLOAT64\<close> arithmetic and the functions of the C library (\<open>sqrt\<close>, \<open>pow\<close>, \<open>exp\<close>,
    \<open>log\<close>) are exact.  The arithmetic of the histograms (the bucket tables, the bucket
    of a sample, the chi-squared statistic and its solver) and of the distance of the
    spatial index is exact as well.
  \<^item> \<open>INT32\<close>, \<open>UINT32\<close> and \<open>UINT16\<close> counters are unbounded integers or naturals;
    no routine below is run near the wrap-around of its counters.  The conversion of a
    \<open>FLOAT32\<close> to \<open>INT32\<close> is undefined in C outside the range of \<open>INT32\<close>: no result.
  \<^item> A C array is a list.  The arrays of a clusterer all have \<open>SampleSize\<close> entries
    (\<open>SampleSize * SampleSize\<close> for the covariance matrix, stored row by row).
  \<^item> A cluster tree is a datatype value: a sample (both sub-cluster pointers \<open>NULL\<close>) or
    an inner cluster with its two sub-clusters.
  \<^item> A routine that dereferences \<open>NULL\<close>, reads outside an array or calls \<open>DoError\<close>
    returns an \<open>error\<close>; a loop that need not terminate returns an \<open>option\<close>.
\<close>

subsection \<open>Data model (cluster.h and the private structs of cluster.c)\<close>

type_synonym FLOAT32 = real
type_synonym FLOAT64 = real

text \<open>
  Rounding to binary32.  \<open>round_even\<close> rounds a real to the nearest integer, a tie to
  the even one.  \<open>f32_exponent x\<close> is the exponent of the binade of \<open>x\<close>, the largest \<open>k\<close>
  from \<open>-126\<close> to \<open>127\<close> with \<open>2^k \<le> |x|\<close>, and \<open>-126\<close> for a subnormal \<open>x\<close>.  \<open>f32 x\<close> is the
  multiple of \<open>2^(k - 23)\<close> nearest to \<open>x\<close>; beyond the largest finite value the code has
  an infinity, which no real number stands for.
\<close>

definition round_even :: "real \<Rightarrow> int" where
  "round_even y =
     (let f = \<lfloor>y\<rfloor> in
      if y - of_int f < 1 / 2 then f
      else if y - of_int f > 1 / 2 then f + 1
      else if even f then f else f + 1)"

fun find_exponent :: "nat \<Rightarrow> real \<Rightarrow> int" where
  "find_exponent 0 a = - 126"
| "find_exponent (Suc n) a =
     (if 2 powi (int n - 125) \<le> a then int n - 125 else find_exponent n a)"

definition f32_exponent :: "real \<Rightarrow> int" where
  "f32_exponent x = find_exponent 253 \<bar>x\<bar>"

definition f32 :: "real \<Rightarrow> FLOAT32" where
  "f32 x =
     (let q = 2 powi (f32_exponent x - 23);
          r = of_int (round_even (x / q)) * q
      in if \<bar>r\<bar> < 2 powi 128 then r else undefined)"

definition MINVARIANCE :: real where
  "MINVARIANCE = 4 / 1000000"

definition MINBUCKETS :: nat where
  "MINBUCKETS = 5"

definition MINSAMPLESPERBUCKET :: nat where
  "MINSAMPLESPERBUCKET = 5"

definition MINSAMPLES :: nat where
  "MINSAMPLES = MINBUCKETS * MINSAMPLESPERBUCKET"

definition MINSAMPLESNEEDED :: int where
  "MINSAMPLESNEEDED = 1"

definition BUCKETTABLESIZE :: nat where
  "BUCKETTABLESIZE = 1024"

definition NORMALEXTENT :: real where
  "NORMALEXTENT = 3"

definition MAXBUCKETS :: nat where
  "MAXBUCKETS = 39"

text \<open>\<open>PARAM_DESC\<close>: the description of one dimension of the feature space.\<close>

record PARAM_DESC =
  Circular :: bool
  NonEssential :: bool
  Min_pd :: FLOAT32
  Max_pd :: FLOAT32
  Range_pd :: FLOAT32
  HalfRange :: FLOAT32
  MidRange :: FLOAT32

text \<open>
  \<open>CLUSTER\<close> (a \<open>SAMPLE\<close> is the same struct).  \<open>LeafCluster\<close> is a sample: \<open>Left\<close> and
  \<open>Right\<close> are \<open>NULL\<close>.  \<open>InnerCluster\<close> has both sub-clusters.
\<close>

datatype CLUSTER =
  LeafCluster (Clustered: bool) (Prototype: bool) (SampleCount: int) (CharID: int)
    (Mean: "FLOAT32 list")
| InnerCluster (Clustered: bool) (Prototype: bool) (SampleCount: int) (CharID: int)
    (Mean: "FLOAT32 list") (Left: CLUSTER) (Right: CLUSTER)

fun set_Clustered :: "bool \<Rightarrow> CLUSTER \<Rightarrow> CLUSTER" where
  "set_Clustered b (LeafCluster c p n k m) = LeafCluster b p n k m"
| "set_Clustered b (InnerCluster c p n k m l r) = InnerCluster b p n k m l r"

fun set_Prototype :: "bool \<Rightarrow> CLUSTER \<Rightarrow> CLUSTER" where
  "set_Prototype b (LeafCluster c p n k m) = LeafCluster c b n k m"
| "set_Prototype b (InnerCluster c p n k m l r) = InnerCluster c b n k m l r"

datatype PROTOSTYLE = spherical | elliptical | mixed | automatic

datatype DISTRIBUTION = normal | uniform | D_random

text \<open>\<open>FLOATUNION\<close>: one scalar for a spherical prototype, else one entry per dimension.\<close>

datatype FLOATUNION = Spherical FLOAT32 | Elliptical "FLOAT32 list"

record PROTOTYPE =
  Significant :: bool
  Style :: PROTOSTYLE
  NumSamples :: int
  Cluster :: "CLUSTER option"
  Distrib :: "DISTRIBUTION list option"
  Mean_p :: "FLOAT32 list"
  TotalMagnitude :: FLOAT32
  LogMagnitude :: FLOAT32
  Variance :: FLOATUNION
  Magnitude :: FLOATUNION
  Weight :: FLOATUNION

record CLUSTERCONFIG =
  ProtoStyle :: PROTOSTYLE
  MinSamples :: FLOAT32
  MaxIllegal :: FLOAT32
  Independence :: FLOAT32
  Confidence :: FLOAT64

record STATISTICS =
  AvgVariance :: FLOAT32
  CoVariance :: "FLOAT32 list"
  Min_st :: "FLOAT32 list"
  Max_st :: "FLOAT32 list"

record BUCKETS =
  Distribution :: DISTRIBUTION
  SampleCount_b :: nat
  Confidence_b :: FLOAT64
  ChiSquared_b :: FLOAT64
  NumberOfBuckets :: nat
  Bucket :: "nat list"
  Count :: "nat list"
  ExpectedCount :: "FLOAT32 list"

record CHISTRUCT =
  DegreesOfFreedom_chi :: nat
  Alpha :: FLOAT64
  ChiSquared :: FLOAT64

datatype error = ALREADYCLUSTERED | NULL_POINTER | OUT_OF_BOUNDS

subsection \<open>Merging two clusters\<close>

text \<open>
  The body of the loop of \<open>MergeClusters\<close> for one dimension: \<open>m1\<close> and \<open>m2\<close> are the
  means of the old clusters in that dimension, \<open>n1\<close> and \<open>n2\<close> their sample counts.
  \<open>MergeAverage\<close> is the expression \<open>(n1 * a + n2 * b) / n\<close> on \<open>FLOAT32\<close> operands: the
  counts are converted, and the two products, the sum and the quotient are rounded.
\<close>

definition MergeAverage :: "int \<Rightarrow> int \<Rightarrow> FLOAT32 \<Rightarrow> FLOAT32 \<Rightarrow> FLOAT32" where
  "MergeAverage n1 n2 a b =
     (if n1 + n2 = 0 then undefined
      else f32 (f32 (f32 (f32 (of_int n1) * a) + f32 (f32 (of_int n2) * b)) /
                f32 (of_int (n1 + n2))))"

definition MergeMean :: "PARAM_DESC \<Rightarrow> int \<Rightarrow> int \<Rightarrow> FLOAT32 \<Rightarrow> FLOAT32 \<Rightarrow> FLOAT32" where
  "MergeMean pd n1 n2 m1 m2 =
     (if Circular pd then
        if f32 (m2 - m1) > HalfRange pd then
          (let m = MergeAverage n1 n2 m1 (f32 (m2 - Range_pd pd))
           in if m < Min_pd pd then f32 (m + Range_pd pd) else m)
        else if f32 (m1 - m2) > HalfRange pd then
          (let m = MergeAverage n1 n2 (f32 (m1 - Range_pd pd)) m2
           in if m < Min_pd pd then f32 (m + Range_pd pd) else m)
        else MergeAverage n1 n2 m1 m2
      else MergeAverage n1 n2 m1 m2)"

text \<open>
  \<open>MergeClusters\<close> returns the new sample count; the new mean, written through the
  pointer \<open>m\<close> in the source, is the second component.
\<close>

definition MergeClusters ::
  "nat \<Rightarrow> PARAM_DESC list \<Rightarrow> int \<Rightarrow> int \<Rightarrow> FLOAT32 list \<Rightarrow> FLOAT32 list \<Rightarrow> int \<times> FLOAT32 list" where
  "MergeClusters N ParamDesc n1 n2 m1 m2 =
     (n1 + n2, map (\<lambda>i. MergeMean (ParamDesc ! i) n1 n2 (m1 ! i) (m2 ! i)) [0..<N])"

subsection \<open>The spatial index and the heap\<close>

text \<open>
  Modelled from the spec: the spatial index of kdtree.c, which is not among the
  sources (section 4.1 of the specification).  The index stores pointers to clusters;
  here \<open>Cells\<close> is the memory the clusters of one clusterer are allocated in, a pointer
  is an index into \<open>Cells\<close>, and \<open>Nodes\<close> lists the pointers currently stored in the
  index, in the order they were stored.  \<open>KeyDesc\<close> describes the dimensions.
\<close>

record KDTREE =
  KeyDesc :: "PARAM_DESC list"
  Cells :: "CLUSTER list"
  Nodes :: "nat list"

record TEMPCLUSTER =
  Cluster_t :: nat
  Neighbor :: "nat option"

definition MAX_FLOAT32 :: real where
  "MAX_FLOAT32 = 340282346638528859811704183484516925440"

text \<open>
  The descriptor copy made by \<open>MakeClusterer\<close> (and, modelled from the spec, by the
  index for its own copy): range, half range and mid range are derived from the bounds.
\<close>

definition DeriveParamDesc :: "PARAM_DESC \<Rightarrow> PARAM_DESC" where
  "DeriveParamDesc p =
     \<lparr>Circular = Circular p, NonEssential = NonEssential p,
      Min_pd = Min_pd p, Max_pd = Max_pd p,
      Range_pd = Max_pd p - Min_pd p,
      HalfRange = (Max_pd p - Min_pd p) / 2,
      MidRange = (Max_pd p + Min_pd p) / 2\<rparr>"

text \<open>Modelled from the spec: an empty index over the given dimensions.\<close>

definition MakeKDTree :: "nat \<Rightarrow> PARAM_DESC list \<Rightarrow> KDTREE" where
  "MakeKDTree SampleSize ParamDesc =
     \<lparr>KeyDesc = map (\<lambda>i. DeriveParamDesc (ParamDesc ! i)) [0..<SampleSize],
      Cells = [], Nodes = []\<rparr>"

text \<open>
  \<open>Emalloc\<close> of a cluster: the new cluster is placed in memory, its pointer returned.
\<close>

definition Emalloc_cluster :: "KDTREE \<Rightarrow> CLUSTER \<Rightarrow> nat \<times> KDTREE" where
  "Emalloc_cluster t c = (length (Cells t), t\<lparr>Cells := Cells t @ [c]\<rparr>)"

text \<open>Modelled from the spec: \<open>insert\<close> and \<open>delete\<close> of a payload pointer.\<close>

definition KDStore :: "KDTREE \<Rightarrow> nat \<Rightarrow> KDTREE" where
  "KDStore t p = t\<lparr>Nodes := Nodes t @ [p]\<rparr>"

definition KDDelete :: "KDTREE \<Rightarrow> nat \<Rightarrow> KDTREE" where
  "KDDelete t p = t\<lparr>Nodes := remove1 p (Nodes t)\<rparr>"

text \<open>
  Modelled from the spec: the distance of the index, squared Euclidean with the
  circular correction of section 4.1 in each dimension.
\<close>

definition kd_dim_distance :: "PARAM_DESC \<Rightarrow> FLOAT32 \<Rightarrow> FLOAT32 \<Rightarrow> FLOAT32" where
  "kd_dim_distance pd x y =
     (let d = x - y in
      if Circular pd \<and> \<bar>d\<bar> > HalfRange pd then Range_pd pd - \<bar>d\<bar> else d)"

definition kd_distance :: "PARAM_DESC list \<Rightarrow> FLOAT32 list \<Rightarrow> FLOAT32 list \<Rightarrow> FLOAT32" where
  "kd_distance pds x y =
     sum_list (map (\<lambda>i. (kd_dim_distance (pds ! i) (x ! i) (y ! i))\<^sup>2) [0..<length pds])"

text \<open>
  Modelled from the spec: \<open>k_nearest\<close>, at most \<open>k\<close> payloads within \<open>max_distance\<close> of
  the query, sorted by ascending distance (payloads at equal distance keep the order
  of \<open>Nodes\<close>).
\<close>

definition KDNearestNeighborSearch ::
  "KDTREE \<Rightarrow> FLOAT32 list \<Rightarrow> nat \<Rightarrow> FLOAT32 \<Rightarrow> (nat \<times> FLOAT32) list" where
  "KDNearestNeighborSearch t Query k MaxDistance =
     take k (sort_key snd
       (filter (\<lambda>e. snd e \<le> MaxDistance)
         (map (\<lambda>p. (p, kd_distance (KeyDesc t) Query (Mean (Cells t ! p)))) (Nodes t))))"

text \<open>
  Modelled from the spec: the root of the index, "the sole remaining node" after the
  merge loop.  An index without a node has no root to read: no result.
\<close>

definition RootOf :: "KDTREE \<Rightarrow> CLUSTER option" where
  "RootOf t = (case Nodes t of [] \<Rightarrow> None | p # _ \<Rightarrow> Some (Cells t ! p))"

text \<open>
  Modelled from the spec: the priority heap of section 4.2, a list of (key, payload)
  pairs.  \<open>GetTopOfHeap\<close> removes an entry with the smallest key, the first stored among
  equal keys; \<open>None\<close> is the \<open>EMPTY\<close> sentinel.
\<close>

type_synonym HEAP = "(FLOAT32 \<times> nat) list"

definition HeapStore :: "HEAP \<Rightarrow> FLOAT32 \<times> nat \<Rightarrow> HEAP" where
  "HeapStore h e = h @ [e]"

fun heap_top :: "FLOAT32 \<times> nat \<Rightarrow> HEAP \<Rightarrow> FLOAT32 \<times> nat" where
  "heap_top b [] = b"
| "heap_top b (e # h) = heap_top (if fst e < fst b then e else b) h"

definition GetTopOfHeap :: "HEAP \<Rightarrow> ((FLOAT32 \<times> nat) \<times> HEAP) option" where
  "GetTopOfHeap h =
     (case h of [] \<Rightarrow> None
      | e # h' \<Rightarrow> (let top = heap_top e h' in Some (top, remove1 top h)))"

subsection \<open>The clusterer: creation and sample insertion\<close>

record CLUSTERER =
  SampleSize :: nat
  ParamDesc :: "PARAM_DESC list"
  NumberOfSamples :: int
  KDTree :: "KDTREE option"
  Root :: "CLUSTER option"
  ProtoList :: "PROTOTYPE list"
  NumChar :: int

definition MakeClusterer :: "nat \<Rightarrow> PARAM_DESC list \<Rightarrow> CLUSTERER" where
  "MakeClusterer SampleSize' ParamDesc' =
     \<lparr>SampleSize = SampleSize',
      ParamDesc = map (\<lambda>i. DeriveParamDesc (ParamDesc' ! i)) [0..<SampleSize'],
      NumberOfSamples = 0,
      KDTree = Some (MakeKDTree SampleSize' ParamDesc'),
      Root = None,
      ProtoList = [],
      NumChar = 0\<rparr>"

text \<open>
  \<open>MakeSample\<close>.  \<open>DoError\<close> does not return into the routine: the call ends with the
  error, before anything is written.  \<open>KDStore\<close> on a \<open>NULL\<close> index is an invalid access,
  reached after the sample count has been incremented.  The result is the sample or
  the error, with the clusterer after the call.
\<close>

definition MakeSample ::
  "CLUSTERER \<Rightarrow> FLOAT32 list \<Rightarrow> int \<Rightarrow> (error + CLUSTER) \<times> CLUSTERER" where
  "MakeSample Clusterer Feature CharID' =
     (if Root Clusterer \<noteq> None then (Inl ALREADYCLUSTERED, Clusterer)
      else
        let Sample = LeafCluster False False 1 CharID'
                       (map (\<lambda>i. Feature ! i) [0..<SampleSize Clusterer]);
            c1 = Clusterer\<lparr>NumberOfSamples := NumberOfSamples Clusterer + 1\<rparr>
        in case KDTree c1 of
             None \<Rightarrow> (Inl NULL_POINTER, c1)
           | Some t \<Rightarrow>
               let (p, t1) = Emalloc_cluster t Sample;
                   t2 = KDStore t1 p
               in (Inr Sample,
                    c1\<lparr>KDTree := Some t2,
                      NumChar := (if CharID' \<ge> NumChar c1 then CharID' + 1
                                  else NumChar c1)\<rparr>))"

subsection \<open>Building the cluster tree\<close>

text \<open>
  \<open>FindNearestNeighbor\<close>: the two nearest payloads of the index are asked for, and the
  nearest one that is not the cluster itself is returned with its distance.
\<close>

fun FindNearestNeighbor_loop ::
  "nat \<Rightarrow> (nat \<times> FLOAT32) list \<Rightarrow> nat option \<times> FLOAT32 \<Rightarrow> nat option \<times> FLOAT32" where
  "FindNearestNeighbor_loop Cluster' [] best = best"
| "FindNearestNeighbor_loop Cluster' ((nb, d) # rest) (BestNeighbor, Distance) =
     FindNearestNeighbor_loop Cluster' rest
       (if d < Distance \<and> nb \<noteq> Cluster' then (Some nb, d) else (BestNeighbor, Distance))"

definition FindNearestNeighbor :: "KDTREE \<Rightarrow> nat \<Rightarrow> nat option \<times> FLOAT32" where
  "FindNearestNeighbor Tree Cluster' =
     FindNearestNeighbor_loop Cluster'
       (KDNearestNeighborSearch Tree (Mean (Cells Tree ! Cluster')) 2 MAX_FLOAT32)
       (None, MAX_FLOAT32)"

text \<open>
  \<open>MakeNewCluster\<close>, on the index of the clusterer: the two old clusters are marked
  as clustered and deleted from the index, the new cluster is allocated and stored.
  The pointer to the new cluster is returned with the new index.
\<close>

definition MakeNewCluster :: "CLUSTERER \<Rightarrow> KDTREE \<Rightarrow> nat \<Rightarrow> nat \<Rightarrow> nat \<times> KDTREE" where
  "MakeNewCluster Clusterer t l r =
     (let cells1 = (Cells t)[l := set_Clustered True (Cells t ! l)];
          cells2 = cells1[r := set_Clustered True (cells1 ! r)];
          t1 = KDDelete (KDDelete (t\<lparr>Cells := cells2\<rparr>) l) r;
          (n, m) = MergeClusters (SampleSize Clusterer) (ParamDesc Clusterer)
                     (SampleCount (cells2 ! l)) (SampleCount (cells2 ! r))
                     (Mean (cells2 ! l)) (Mean (cells2 ! r));
          (p, t2) = Emalloc_cluster t1
                      (InnerCluster False False n (- 1) m (cells2 ! l) (cells2 ! r))
      in (p, KDStore t2 p))"

text \<open>
  \<open>MakePotentialClusters\<close>, called by \<open>KDWalk\<close> once for each node of the index: the
  potential cluster of a node and its nearest neighbour is pushed on the heap.
\<close>

definition MakePotentialClusters ::
  "KDTREE \<Rightarrow> TEMPCLUSTER list \<times> HEAP \<Rightarrow> nat \<Rightarrow> TEMPCLUSTER list \<times> HEAP" where
  "MakePotentialClusters Tree st Cluster' =
     (let (TempCluster, Heap) = st;
          (nb, Key) = FindNearestNeighbor Tree Cluster'
      in if nb \<noteq> None
         then (TempCluster @ [\<lparr>Cluster_t = Cluster', Neighbor = nb\<rparr>],
               HeapStore Heap (Key, length TempCluster))
         else (TempCluster, Heap))"

text \<open>
  The loop of \<open>CreateClusterTree\<close> that turns potential clusters into clusters, best
  first.  The result is the index when the heap is empty; \<open>None\<close> when the loop does
  not end or reads through a \<open>NULL\<close> neighbour.
\<close>

partial_function (option) CreateClusterTree_loop ::
  "CLUSTERER \<Rightarrow> KDTREE \<Rightarrow> TEMPCLUSTER list \<Rightarrow> HEAP \<Rightarrow> KDTREE option" where
  "CreateClusterTree_loop Clusterer Tree TempCluster Heap =
     (case GetTopOfHeap Heap of
        None \<Rightarrow> Some Tree
      | Some (HeapEntry, Heap1) \<Rightarrow>
          (let d = snd HeapEntry; PotentialCluster = TempCluster ! d in
           if Clustered (Cells Tree ! Cluster_t PotentialCluster)
           then CreateClusterTree_loop Clusterer Tree TempCluster Heap1
           else
             (case Neighbor PotentialCluster of
                None \<Rightarrow> None
              | Some nb \<Rightarrow>
                  if Clustered (Cells Tree ! nb)
                  then
                    (let found = FindNearestNeighbor Tree (Cluster_t PotentialCluster);
                         TempCluster1 = TempCluster[d := PotentialCluster\<lparr>Neighbor := fst found\<rparr>]
                     in CreateClusterTree_loop Clusterer Tree TempCluster1
                          (if fst found \<noteq> None then HeapStore Heap1 (snd found, d) else Heap1))
                  else
                    (let made = MakeNewCluster Clusterer Tree (Cluster_t PotentialCluster) nb;
                         found = FindNearestNeighbor (snd made) (fst made);
                         TempCluster1 =
                           TempCluster[d := \<lparr>Cluster_t = fst made, Neighbor = fst found\<rparr>]
                     in CreateClusterTree_loop Clusterer (snd made) TempCluster1
                          (if fst found \<noteq> None then HeapStore Heap1 (snd found, d) else Heap1)))))"

text \<open>
  \<open>CreateClusterTree\<close>: the root of the tree is what is left in the index, which is
  then freed.
\<close>

definition CreateClusterTree :: "CLUSTERER \<Rightarrow> CLUSTERER option" where
  "CreateClusterTree Clusterer =
     (case KDTree Clusterer of
        None \<Rightarrow> None
      | Some Tree \<Rightarrow>
          (let st = fold (\<lambda>p st. MakePotentialClusters Tree st p) (Nodes Tree) ([], [])
           in case CreateClusterTree_loop Clusterer Tree (fst st) (snd st) of
                None \<Rightarrow> None
              | Some Tree1 \<Rightarrow>
                  (case RootOf Tree1 of
                     None \<Rightarrow> None
                   | Some r \<Rightarrow> Some (Clusterer\<lparr>Root := Some r, KDTree := None\<rparr>))))"

subsection \<open>Walking the samples of a cluster\<close>

text \<open>
  Modelled from the spec: \<open>InitSampleSearch\<close>, a macro of cluster.h, which is not among
  the sources (section 6): the search state is the list holding the cluster.
\<close>

definition InitSampleSearch :: "CLUSTER \<Rightarrow> CLUSTER list" where
  "InitSampleSearch Cluster' = [Cluster']"

text \<open>
  The loop of \<open>NextSample\<close>: as long as the cluster is not a leaf its right
  sub-cluster is pushed on the search state and the search goes on in the left one.
\<close>

fun NextSample_descend :: "CLUSTER \<Rightarrow> CLUSTER list \<Rightarrow> CLUSTER \<times> CLUSTER list" where
  "NextSample_descend (LeafCluster c p n k m) SearchState = (LeafCluster c p n k m, SearchState)"
| "NextSample_descend (InnerCluster c p n k m l r) SearchState =
     NextSample_descend l (r # SearchState)"

definition NextSample :: "CLUSTER list \<Rightarrow> CLUSTER option \<times> CLUSTER list" where
  "NextSample SearchState =
     (case SearchState of
        [] \<Rightarrow> (None, [])
      | Cluster' # rest \<Rightarrow>
          (let found = NextSample_descend Cluster' rest in (Some (fst found), snd found)))"

fun cluster_nodes :: "CLUSTER \<Rightarrow> nat" where
  "cluster_nodes (LeafCluster c p n k m) = 1"
| "cluster_nodes (InnerCluster c p n k m l r) = 1 + cluster_nodes l + cluster_nodes r"

lemma NextSample_descend_nodes:
  "sum_list (map cluster_nodes (snd (NextSample_descend c st))) <
     cluster_nodes c + sum_list (map cluster_nodes st)"
proof (induction c arbitrary: st)
  case (LeafCluster c p n k m)
  show ?case by simp
next
  case (InnerCluster c p n k m l r)
  from InnerCluster.IH(1) [of "r # st"] show ?case by simp
qed

lemma NextSample_nodes:
  assumes "NextSample ss = (Some s, st)"
  shows "sum_list (map cluster_nodes st) < sum_list (map cluster_nodes ss)"
proof (cases ss)
  case Nil
  with assms show ?thesis by (simp add: NextSample_def)
next
  case (Cons c rest)
  with assms have "st = snd (NextSample_descend c rest)"
    by (simp add: NextSample_def Let_def)
  then show ?thesis
    using NextSample_descend_nodes [of c rest] Cons by simp
qed

lemma cluster_nodes_pos: "0 < cluster_nodes c"
  by (cases c) simp_all

text \<open>
  The samples a loop \<open>while ((Sample = NextSample (&SearchState)) != NULL)\<close> visits, in
  the order it visits them.
\<close>

function SampleList :: "CLUSTER list \<Rightarrow> CLUSTER list" where
  "SampleList SearchState =
     (case NextSample SearchState of
        (None, rest) \<Rightarrow> []
      | (Some Sample, rest) \<Rightarrow> Sample # SampleList rest)"
  by pat_completeness auto
termination
  by (relation "measure (\<lambda>ss. sum_list (map cluster_nodes ss))")
     (auto dest: NextSample_nodes [OF sym])

declare SampleList.simps [simp del]

subsection \<open>The multi-character filter\<close>

text \<open>The values a \<open>BOOL8\<close> character flag takes.\<close>

definition FALSE :: nat where
  "FALSE = 0"

definition TRUE :: nat where
  "TRUE = 1"

definition ILLEGAL_CHAR :: nat where
  "ILLEGAL_CHAR = 2"

text \<open>
  The sample loop of \<open>MultipleCharSamples\<close>.  A \<open>CharID\<close> outside the flag array is an
  invalid access (\<open>None\<close>).  \<open>PercentIllegal\<close> is the \<open>FLOAT32\<close> quotient of the two counts,
  both converted to \<open>FLOAT32\<close>.  A positive count divided by zero is plus infinity, which
  exceeds \<open>MaxIllegal\<close>, and zero divided by zero compares false.
\<close>

fun MultipleCharSamples_loop ::
  "FLOAT32 \<Rightarrow> nat list \<Rightarrow> int \<Rightarrow> int \<Rightarrow> CLUSTER list \<Rightarrow> bool option" where
  "MultipleCharSamples_loop MaxIllegal' CharFlags NumCharInCluster NumIllegalInCluster [] =
     Some False"
| "MultipleCharSamples_loop MaxIllegal' CharFlags NumCharInCluster NumIllegalInCluster
     (Sample # rest) =
     (if CharID Sample < 0 \<or> int (length CharFlags) \<le> CharID Sample then None
      else
        let k = nat (CharID Sample) in
        if CharFlags ! k = FALSE
        then MultipleCharSamples_loop MaxIllegal' (CharFlags[k := TRUE])
               NumCharInCluster NumIllegalInCluster rest
        else
          let NumIllegalInCluster1 =
                (if CharFlags ! k = TRUE then NumIllegalInCluster + 1 else NumIllegalInCluster);
              CharFlags1 =
                (if CharFlags ! k = TRUE then CharFlags[k := ILLEGAL_CHAR] else CharFlags);
              NumCharInCluster1 = NumCharInCluster - 1
          in if (if NumCharInCluster1 = 0 then 0 < NumIllegalInCluster1
                 else f32 (f32 (of_int NumIllegalInCluster1) / f32 (of_int NumCharInCluster1))
                        > MaxIllegal')
             then Some True
             else MultipleCharSamples_loop MaxIllegal' CharFlags1
                    NumCharInCluster1 NumIllegalInCluster1 rest)"

text \<open>
  \<open>MultipleCharSamples\<close>.  The static flag array only grows: \<open>NumFlags\<close> is its size
  before the call, and the size after the call is returned with the result.
\<close>

definition MultipleCharSamples ::
  "int \<Rightarrow> CLUSTERER \<Rightarrow> CLUSTER \<Rightarrow> FLOAT32 \<Rightarrow> (bool \<times> int) option" where
  "MultipleCharSamples NumFlags' Clusterer Cluster' MaxIllegal' =
     (let NumFlags1 = (if NumChar Clusterer > NumFlags' then NumChar Clusterer else NumFlags');
          CharFlags = replicate (nat NumFlags1) FALSE
      in map_option (\<lambda>b. (b, NumFlags1))
           (MultipleCharSamples_loop MaxIllegal' CharFlags (SampleCount Cluster') 0
              (SampleList (InitSampleSearch Cluster'))))"

subsection \<open>Statistics of a cluster\<close>

text \<open>
  One entry of the array \<open>Distance\<close> of \<open>ComputeStatistics\<close>: the distance of a sample
  from the mean of the cluster in one dimension, wrapped in a circular dimension.  Each
  of the three assignments to \<open>Distance[i]\<close> rounds.
\<close>

definition SampleDistance :: "PARAM_DESC \<Rightarrow> FLOAT32 \<Rightarrow> FLOAT32 \<Rightarrow> FLOAT32" where
  "SampleDistance pd s c =
     (let d = f32 (s - c) in
      if Circular pd then
        (let d1 = (if d > HalfRange pd then f32 (d - Range_pd pd) else d)
         in if d1 < - HalfRange pd then f32 (d1 + Range_pd pd) else d1)
      else d)"

definition Distance_of :: "nat \<Rightarrow> PARAM_DESC list \<Rightarrow> CLUSTER \<Rightarrow> CLUSTER \<Rightarrow> FLOAT32 list" where
  "Distance_of N pds Cluster' Sample =
     map (\<lambda>i. SampleDistance (pds ! i) (Mean Sample ! i) (Mean Cluster' ! i)) [0..<N]"

text \<open>
  The body of the sample loop of \<open>ComputeStatistics\<close>: the ranges and the sums of
  products are updated with the distances of one sample.  Entry \<open>i * N + j\<close> of the
  covariance array belongs to the dimensions \<open>i\<close> and \<open>j\<close>.  The product of two distances
  is rounded, and so is the sum that is stored.
\<close>

definition ComputeStatistics_step :: "nat \<Rightarrow> FLOAT32 list \<Rightarrow> STATISTICS \<Rightarrow> STATISTICS" where
  "ComputeStatistics_step N Distance Statistics =
     Statistics
       \<lparr>CoVariance :=
          map (\<lambda>k. f32 (CoVariance Statistics ! k +
                         f32 (Distance ! (k div N) * Distance ! (k mod N))))
            [0..<N * N],
        Min_st :=
          map (\<lambda>i. if Distance ! i < Min_st Statistics ! i then Distance ! i
                    else Min_st Statistics ! i) [0..<N],
        Max_st :=
          map (\<lambda>i. if Distance ! i > Max_st Statistics ! i then Distance ! i
                    else Max_st Statistics ! i) [0..<N]\<rparr>"

text \<open>
  \<open>pow\<close> of the C library, on the arguments it is given here: a base that is not
  negative and an exponent that is not zero.
\<close>

definition pow :: "real \<Rightarrow> real \<Rightarrow> real" where
  "pow x y = x powr y"

text \<open>
  \<open>ComputeStatistics\<close>.  The sums are divided by the sample count less one, converted to
  \<open>FLOAT32\<close>, and each quotient is rounded; \<open>AvgVariance\<close> is a \<open>FLOAT32\<close>, so the running
  product of the diagonal is rounded at every factor, and the root that \<open>pow\<close> returns
  is rounded when it is stored.
\<close>

definition ComputeStatistics :: "nat \<Rightarrow> PARAM_DESC list \<Rightarrow> CLUSTER \<Rightarrow> STATISTICS" where
  "ComputeStatistics N pds Cluster' =
     (let init = \<lparr>AvgVariance = 1, CoVariance = replicate (N * N) 0,
                  Min_st = replicate N 0, Max_st = replicate N 0\<rparr>;
          summed = fold (\<lambda>Sample. ComputeStatistics_step N (Distance_of N pds Cluster' Sample))
                     (SampleList (InitSampleSearch Cluster')) init;
          SampleCountAdjustedForBias =
            (if SampleCount Cluster' > 1 then SampleCount Cluster' - 1 else 1);
          normalized = map (\<lambda>c. f32 (c / f32 (of_int SampleCountAdjustedForBias)))
                         (CoVariance summed);
          product = fold (\<lambda>i a. f32 (a * normalized ! (i * N + i))) [0..<N]
                      (AvgVariance summed)
      in summed\<lparr>CoVariance := normalized,
                AvgVariance := f32 (pow product (1 / of_nat N))\<rparr>)"

subsection \<open>Prototypes\<close>

text \<open>
  Modelled from the spec: the constant \<open>PI\<close> of const.h, which is not among the
  sources.
\<close>

definition PI :: real where
  "PI = pi"

text \<open>
  Reading and writing entry \<open>i\<close> of the \<open>Elliptical\<close> member of a \<open>FLOATUNION\<close>.  For a
  union that holds the \<open>Spherical\<close> scalar, or outside the array, the access is invalid.
\<close>

definition Elliptical_nth :: "FLOATUNION \<Rightarrow> nat \<Rightarrow> FLOAT32 option" where
  "Elliptical_nth u i =
     (case u of
        Spherical s \<Rightarrow> None
      | Elliptical v \<Rightarrow> if i < length v then Some (v ! i) else None)"

definition Elliptical_update :: "FLOATUNION \<Rightarrow> nat \<Rightarrow> FLOAT32 \<Rightarrow> FLOATUNION option" where
  "Elliptical_update u i x =
     (case u of
        Spherical s \<Rightarrow> None
      | Elliptical v \<Rightarrow> if i < length v then Some (Elliptical (v[i := x])) else None)"

text \<open>
  \<open>NewSimpleProto\<close>.  The magnitudes, the variance and the weight are not set here
  (every caller sets them); the model holds zeros there.
\<close>

definition NewSimpleProto :: "nat \<Rightarrow> CLUSTER \<Rightarrow> PROTOTYPE" where
  "NewSimpleProto N Cluster' =
     \<lparr>Significant = True, Style = spherical, NumSamples = SampleCount Cluster',
      Cluster = Some (set_Prototype True Cluster'), Distrib = None,
      Mean_p = map (\<lambda>i. Mean Cluster' ! i) [0..<N],
      TotalMagnitude = 0, LogMagnitude = 0,
      Variance = Spherical 0, Magnitude = Spherical 0, Weight = Spherical 0\<rparr>"

text \<open>
  \<open>NewSphericalProto\<close>.  \<open>MINVARIANCE\<close> is a \<open>double\<close> constant: the variance is compared
  with it as it is, and the value stored in its place is the constant rounded to
  \<open>FLOAT32\<close>.  The magnitudes, the weight and the logarithm are computed in \<open>double\<close> and
  rounded when they are stored.
\<close>

definition NewSphericalProto :: "nat \<Rightarrow> CLUSTER \<Rightarrow> STATISTICS \<Rightarrow> PROTOTYPE" where
  "NewSphericalProto N Cluster' Statistics =
     (let Proto = NewSimpleProto N Cluster';
          v = (if AvgVariance Statistics < MINVARIANCE then f32 MINVARIANCE
               else AvgVariance Statistics);
          mag = f32 (1 / sqrt (2 * PI * v));
          total = f32 (pow mag (of_nat N))
      in Proto\<lparr>Variance := Spherical v, Magnitude := Spherical mag,
               TotalMagnitude := total, Weight := Spherical (f32 (1 / v)),
               LogMagnitude := f32 (ln total)\<rparr>)"

text \<open>The variance of dimension \<open>i\<close> of an elliptical prototype: the diagonal entry, floored.\<close>

definition EllipticalVariance :: "nat \<Rightarrow> STATISTICS \<Rightarrow> nat \<Rightarrow> FLOAT32" where
  "EllipticalVariance N Statistics i =
     (if CoVariance Statistics ! (i * (N + 1)) < MINVARIANCE then f32 MINVARIANCE
      else CoVariance Statistics ! (i * (N + 1)))"

definition NewEllipticalProto :: "nat \<Rightarrow> CLUSTER \<Rightarrow> STATISTICS \<Rightarrow> PROTOTYPE" where
  "NewEllipticalProto N Cluster' Statistics =
     (let Proto = NewSimpleProto N Cluster';
          vs = map (EllipticalVariance N Statistics) [0..<N];
          mags = map (\<lambda>v. f32 (1 / sqrt (2 * PI * v))) vs;
          total = fold (\<lambda>m t. f32 (t * m)) mags 1
      in Proto\<lparr>Variance := Elliptical vs, Magnitude := Elliptical mags,
               Weight := Elliptical (map (\<lambda>v. f32 (1 / v)) vs),
               TotalMagnitude := total, LogMagnitude := f32 (ln total),
               Style := elliptical\<rparr>)"

definition NewMixedProto :: "nat \<Rightarrow> CLUSTER \<Rightarrow> STATISTICS \<Rightarrow> PROTOTYPE" where
  "NewMixedProto N Cluster' Statistics =
     (NewEllipticalProto N Cluster' Statistics)
       \<lparr>Distrib := Some (replicate N normal), Style := mixed\<rparr>"

definition MakeDegenerateProto ::
  "nat \<Rightarrow> CLUSTER \<Rightarrow> STATISTICS \<Rightarrow> PROTOSTYLE \<Rightarrow> int \<Rightarrow> PROTOTYPE option" where
  "MakeDegenerateProto N Cluster' Statistics Style' MinSamples' =
     (let MinSamples1 = (if MinSamples' < MINSAMPLESNEEDED then MINSAMPLESNEEDED
                         else MinSamples')
      in if SampleCount Cluster' < MinSamples1
         then Some
           ((case Style' of
               spherical \<Rightarrow> NewSphericalProto N Cluster' Statistics
             | elliptical \<Rightarrow> NewEllipticalProto N Cluster' Statistics
             | automatic \<Rightarrow> NewEllipticalProto N Cluster' Statistics
             | mixed \<Rightarrow> NewMixedProto N Cluster' Statistics)
            \<lparr>Significant := False\<rparr>)
         else None)"

text \<open>
  \<open>MakeDimRandom\<close> and \<open>MakeDimUniform\<close> change dimension \<open>i\<close> of a mixed prototype;
  \<open>None\<close> when the prototype has no distribution array, no per-dimension arrays or no
  cluster to read.  Sums and quotients of \<open>FLOAT32\<close> values are rounded; an expression
  with a \<open>double\<close> constant is computed in \<open>double\<close> and rounded when it is stored.
\<close>

definition MakeDimRandom :: "nat \<Rightarrow> PROTOTYPE \<Rightarrow> PARAM_DESC \<Rightarrow> PROTOTYPE option" where
  "MakeDimRandom i Proto pd =
     (case (Distrib Proto, Elliptical_update (Variance Proto) i (HalfRange pd),
            Elliptical_nth (Magnitude Proto) i,
            Elliptical_update (Magnitude Proto) i (f32 (1 / Range_pd pd))) of
        (Some ds, Some vs, Some old, Some mags) \<Rightarrow>
          if i < length ds \<and> i < length (Mean_p Proto) then
            (let total = f32 (f32 (TotalMagnitude Proto / old) * f32 (1 / Range_pd pd))
             in Some (Proto\<lparr>Distrib := Some (ds[i := D_random]),
                        Mean_p := (Mean_p Proto)[i := MidRange pd],
                        Variance := vs, Magnitude := mags,
                        TotalMagnitude := total, LogMagnitude := f32 (ln total)\<rparr>))
          else None
      | _ \<Rightarrow> None)"

definition MakeDimUniform :: "nat \<Rightarrow> PROTOTYPE \<Rightarrow> STATISTICS \<Rightarrow> PROTOTYPE option" where
  "MakeDimUniform i Proto Statistics =
     (let half = f32 (f32 (Max_st Statistics ! i - Min_st Statistics ! i) / 2);
          v = (if half < MINVARIANCE then f32 MINVARIANCE else half)
      in case (Distrib Proto, Cluster Proto, Elliptical_update (Variance Proto) i v,
               Elliptical_nth (Magnitude Proto) i,
               Elliptical_update (Magnitude Proto) i (f32 (1 / (2 * v)))) of
           (Some ds, Some c, Some vs, Some old, Some mags) \<Rightarrow>
             if i < length ds \<and> i < length (Mean_p Proto) then
               (let total = f32 (f32 (TotalMagnitude Proto / old) * f32 (1 / (2 * v)))
                in Some (Proto\<lparr>Distrib := Some (ds[i := uniform]),
                           Mean_p := (Mean_p Proto)
                             [i := f32 (Mean c ! i +
                                    f32 (f32 (Min_st Statistics ! i + Max_st Statistics ! i) / 2))],
                           Variance := vs, Magnitude := mags,
                           TotalMagnitude := total, LogMagnitude := f32 (ln total)\<rparr>))
             else None
         | _ \<Rightarrow> None)"

text \<open>
  \<open>StandardDeviation\<close>.  The square root is taken in \<open>double\<close> and cast to \<open>FLOAT32\<close>.
  A style outside the three cases of the switch falls through to \<open>return 0.0f\<close>.
\<close>

definition StandardDeviation :: "PROTOTYPE \<Rightarrow> nat \<Rightarrow> FLOAT32 option" where
  "StandardDeviation Proto Dimension =
     (case Style Proto of
        spherical \<Rightarrow>
          (case Variance Proto of Spherical v \<Rightarrow> Some (f32 (sqrt v)) | Elliptical vs \<Rightarrow> None)
      | elliptical \<Rightarrow>
          map_option (\<lambda>v. f32 (sqrt v)) (Elliptical_nth (Variance Proto) Dimension)
      | mixed \<Rightarrow>
          (case Distrib Proto of
             None \<Rightarrow> None
           | Some ds \<Rightarrow>
               if Dimension < length ds then
                 (case ds ! Dimension of
                    normal \<Rightarrow>
                      map_option (\<lambda>v. f32 (sqrt v))
                        (Elliptical_nth (Variance Proto) Dimension)
                  | uniform \<Rightarrow> Elliptical_nth (Variance Proto) Dimension
                  | D_random \<Rightarrow> Elliptical_nth (Variance Proto) Dimension)
               else None)
      | automatic \<Rightarrow> Some 0)"

subsection \<open>The independence test\<close>

text \<open>
  The correlation coefficient \<open>Independent\<close> computes for the dimensions \<open>i\<close> and \<open>j\<close>:
  \<open>VARii\<close> and \<open>VARjj\<close> point to the diagonal entries \<open>i * (N + 1)\<close> and \<open>j * (N + 1)\<close>,
  \<open>CoVariance\<close> to the entry \<open>i * N + j\<close>.  The two products and the quotient are
  \<open>FLOAT32\<close> operations; the square roots are taken in \<open>double\<close> and the result is rounded
  when it is stored.  A product of the diagonal entries that underflows to zero makes
  the quotient infinite or not a number.
\<close>

definition CorrelationCoeff :: "nat \<Rightarrow> FLOAT32 list \<Rightarrow> nat \<Rightarrow> nat \<Rightarrow> FLOAT32" where
  "CorrelationCoeff N CoVariance' i j =
     (let VARii = CoVariance' ! (i * (N + 1));
          VARjj = CoVariance' ! (j * (N + 1));
          c = CoVariance' ! (i * N + j)
      in if VARii = 0 \<or> VARjj = 0 then 0
         else if f32 (VARii * VARjj) = 0 then undefined
         else f32 (sqrt (sqrt (f32 (f32 (c * c) / f32 (VARii * VARjj))))))"

text \<open>The two loops of \<open>Independent\<close>; \<open>False\<close> is the early \<open>return (FALSE)\<close>.\<close>

fun Independent_inner ::
  "PARAM_DESC list \<Rightarrow> nat \<Rightarrow> FLOAT32 list \<Rightarrow> FLOAT32 \<Rightarrow> nat \<Rightarrow> nat list \<Rightarrow> bool" where
  "Independent_inner pds N CoVariance' Independence' i [] = True"
| "Independent_inner pds N CoVariance' Independence' i (j # js) =
     (if NonEssential (pds ! j) then Independent_inner pds N CoVariance' Independence' i js
      else if CorrelationCoeff N CoVariance' i j > Independence' then False
      else Independent_inner pds N CoVariance' Independence' i js)"

fun Independent_outer ::
  "PARAM_DESC list \<Rightarrow> nat \<Rightarrow> FLOAT32 list \<Rightarrow> FLOAT32 \<Rightarrow> nat list \<Rightarrow> bool" where
  "Independent_outer pds N CoVariance' Independence' [] = True"
| "Independent_outer pds N CoVariance' Independence' (i # is) =
     (if NonEssential (pds ! i) then Independent_outer pds N CoVariance' Independence' is
      else if Independent_inner pds N CoVariance' Independence' i [i + 1..<N]
      then Independent_outer pds N CoVariance' Independence' is
      else False)"

definition Independent :: "PARAM_DESC list \<Rightarrow> nat \<Rightarrow> FLOAT32 list \<Rightarrow> FLOAT32 \<Rightarrow> bool" where
  "Independent pds N CoVariance' Independence' =
     Independent_outer pds N CoVariance' Independence' [0..<N]"

subsection \<open>Histogram buckets\<close>

definition LOOKUPTABLESIZE :: nat where
  "LOOKUPTABLESIZE = 8"

definition MAXDEGREESOFFREEDOM :: nat where
  "MAXDEGREESOFFREEDOM = MAXBUCKETS"

definition CountTable :: "nat list" where
  "CountTable = [MINSAMPLES, 200, 400, 600, 800, 1000, 1500, 2000]"

definition BucketsTable :: "nat list" where
  "BucketsTable = [MINBUCKETS, 16, 20, 24, 27, 30, 35, MAXBUCKETS]"

text \<open>
  The loop of \<open>OptimumNumberOfBuckets\<close> over \<open>Last = 0, 1, ...\<close> with \<open>Next = Last + 1\<close>;
  the cast to \<open>UINT16\<close> drops the fraction of a value that is not negative.
\<close>

fun OptimumNumberOfBuckets_loop :: "nat \<Rightarrow> nat list \<Rightarrow> nat" where
  "OptimumNumberOfBuckets_loop SampleCount' [] = BucketsTable ! (LOOKUPTABLESIZE - 1)"
| "OptimumNumberOfBuckets_loop SampleCount' (Last # rest) =
     (let Next = Last + 1 in
      if SampleCount' \<le> CountTable ! Next then
        (let Slope = (real (BucketsTable ! Next) - real (BucketsTable ! Last)) /
                     (real (CountTable ! Next) - real (CountTable ! Last))
         in nat \<lfloor>real (BucketsTable ! Last) +
                   Slope * (real SampleCount' - real (CountTable ! Last))\<rfloor>)
      else OptimumNumberOfBuckets_loop SampleCount' rest)"

definition OptimumNumberOfBuckets :: "nat \<Rightarrow> nat" where
  "OptimumNumberOfBuckets SampleCount' =
     (if SampleCount' < CountTable ! 0 then BucketsTable ! 0
      else OptimumNumberOfBuckets_loop SampleCount' [0..<LOOKUPTABLESIZE - 1])"

definition DegreeOffsets :: "DISTRIBUTION \<Rightarrow> nat" where
  "DegreeOffsets d = (case d of normal \<Rightarrow> 3 | uniform \<Rightarrow> 3 | D_random \<Rightarrow> 1)"

text \<open>\<open>DegreesOfFreedom\<close>, in \<open>UINT16\<close> arithmetic.\<close>

definition DegreesOfFreedom :: "DISTRIBUTION \<Rightarrow> nat \<Rightarrow> nat" where
  "DegreesOfFreedom d HistogramBuckets =
     (let AdjustedNumBuckets = nat ((int HistogramBuckets - int (DegreeOffsets d)) mod 65536)
      in if odd AdjustedNumBuckets then (AdjustedNumBuckets + 1) mod 65536
         else AdjustedNumBuckets)"

subsection \<open>Chi-squared\<close>

definition Abs :: "real \<Rightarrow> real" where
  "Abs N = (if N < 0 then - N else N)"

definition ChiArea :: "CHISTRUCT \<Rightarrow> FLOAT64 \<Rightarrow> FLOAT64" where
  "ChiArea ChiParams x =
     (let series = fold (\<lambda>i (SeriesTotal, Denominator, PowerOfx).
                      (SeriesTotal + (PowerOfx * x) / (Denominator * (2 * real i)),
                       Denominator * (2 * real i), PowerOfx * x))
                    [1..<DegreesOfFreedom_chi ChiParams div 2] (1, 1, 1)
      in fst series * exp (- (1 / 2) * x) - Alpha ChiParams)"

definition INITIALDELTA :: real where
  "INITIALDELTA = 1 / 10"

definition DELTARATIO :: real where
  "DELTARATIO = 1 / 10"

definition CHIACCURACY :: real where
  "CHIACCURACY = 1 / 100"

definition MINALPHA :: real where
  "MINALPHA = 1 / 10 ^ 200"

text \<open>
  The loop of \<open>Solve\<close>; it need not terminate, and it has no result then.
\<close>

partial_function (option) Solve_loop ::
  "(FLOAT64 \<Rightarrow> FLOAT64) \<Rightarrow> FLOAT64 \<Rightarrow> FLOAT64 \<Rightarrow> FLOAT64 \<Rightarrow> FLOAT64 \<Rightarrow> FLOAT64 \<Rightarrow> FLOAT64
     \<Rightarrow> FLOAT64 option" where
  "Solve_loop Function Accuracy x f Delta LastPosX LastNegX =
     (if Abs (LastPosX - LastNegX) > Accuracy then
        (let LastNegX1 = (if f < 0 then x else LastNegX);
             LastPosX1 = (if f < 0 then LastPosX else x);
             Slope = (Function (x + Delta) - f) / Delta;
             xDelta = f / Slope;
             x1 = x - xDelta;
             NewDelta = Abs xDelta * DELTARATIO;
             Delta1 = (if NewDelta < Delta then NewDelta else Delta)
         in Solve_loop Function Accuracy x1 (Function x1) Delta1 LastPosX1 LastNegX1)
      else Some x)"

definition Solve :: "(FLOAT64 \<Rightarrow> FLOAT64) \<Rightarrow> FLOAT64 \<Rightarrow> FLOAT64 \<Rightarrow> FLOAT64 option" where
  "Solve Function InitialGuess Accuracy =
     Solve_loop Function Accuracy InitialGuess (Function InitialGuess) INITIALDELTA
       MAX_FLOAT32 (- MAX_FLOAT32)"

text \<open>
  \<open>ComputeChiSquared\<close>.  \<open>ChiWith\<close> is the static array of lists of values computed
  before, one list for each number of degrees of freedom up to
  \<open>MAXDEGREESOFFREEDOM\<close>; a new value is pushed on the front of its list.
\<close>

definition ComputeChiSquared ::
  "(nat \<Rightarrow> CHISTRUCT list) \<Rightarrow> nat \<Rightarrow> FLOAT64 \<Rightarrow> (FLOAT64 \<times> (nat \<Rightarrow> CHISTRUCT list)) option" where
  "ComputeChiSquared ChiWith' DegreesOfFreedom' Alpha' =
     (let Alpha1 = (if Alpha' < MINALPHA then MINALPHA else Alpha');
          Alpha2 = (if Alpha1 > 1 then 1 else Alpha1);
          dof = (if odd DegreesOfFreedom' then DegreesOfFreedom' + 1 else DegreesOfFreedom')
      in if dof > MAXDEGREESOFFREEDOM then None
         else
           (case find (\<lambda>c. Alpha c = Alpha2) (ChiWith' dof) of
              Some OldChiSquared \<Rightarrow> Some (ChiSquared OldChiSquared, ChiWith')
            | None \<Rightarrow>
                (let new = \<lparr>DegreesOfFreedom_chi = dof, Alpha = Alpha2, ChiSquared = 0\<rparr>
                 in case Solve (ChiArea new) (real dof) CHIACCURACY of
                      None \<Rightarrow> None
                    | Some x \<Rightarrow>
                        Some (x, ChiWith'(dof := new\<lparr>ChiSquared := x\<rparr> # ChiWith' dof)))))"

subsection \<open>Making buckets\<close>

definition SqrtOf2Pi :: real where
  "SqrtOf2Pi = 2506628275 / 1000000000"

definition NormalStdDev :: FLOAT64 where
  "NormalStdDev = real BUCKETTABLESIZE / (2 * NORMALEXTENT)"

definition NormalVariance :: FLOAT64 where
  "NormalVariance = (real BUCKETTABLESIZE * real BUCKETTABLESIZE) /
                    (4 * NORMALEXTENT * NORMALEXTENT)"

definition NormalMagnitude :: FLOAT64 where
  "NormalMagnitude = (2 * NORMALEXTENT) / (SqrtOf2Pi * real BUCKETTABLESIZE)"

definition NormalMean :: FLOAT64 where
  "NormalMean = real (BUCKETTABLESIZE div 2)"

definition NormalDensity :: "int \<Rightarrow> FLOAT64" where
  "NormalDensity x =
     (let Distance = of_int x - NormalMean
      in NormalMagnitude * exp (- (1 / 2) * Distance * Distance / NormalVariance))"

definition UniformDensity :: "int \<Rightarrow> FLOAT64" where
  "UniformDensity x =
     (if 0 \<le> x \<and> x \<le> int BUCKETTABLESIZE then 1 / real BUCKETTABLESIZE else 0)"

definition Integral :: "FLOAT64 \<Rightarrow> FLOAT64 \<Rightarrow> FLOAT64 \<Rightarrow> FLOAT64" where
  "Integral f1 f2 Dx = (f1 + f2) * Dx / 2"

definition DensityFunction :: "DISTRIBUTION \<Rightarrow> int \<Rightarrow> FLOAT64" where
  "DensityFunction d =
     (case d of normal \<Rightarrow> NormalDensity | uniform \<Rightarrow> UniformDensity
      | D_random \<Rightarrow> UniformDensity)"

text \<open>
  The macro \<open>Mirror\<close>, computed in \<open>int\<close>; the result is stored in a \<open>UINT16\<close>.
\<close>

definition Mirror :: "nat \<Rightarrow> nat \<Rightarrow> int" where
  "Mirror N R = int R - int N - 1"

definition to_UINT16 :: "int \<Rightarrow> nat" where
  "to_UINT16 x = nat (x mod 65536)"

text \<open>The local variables of the loop of \<open>MakeBuckets\<close> over the upper half of the table.\<close>

record MAKEBUCKETS_LOCALS =
  Probability :: FLOAT64
  NextBucketBoundary :: FLOAT64
  CurrentBucket :: nat
  LastProbDensity :: FLOAT64
  Bucket_l :: "nat list"
  ExpectedCount_l :: "FLOAT32 list"

definition MakeBuckets_step ::
  "DISTRIBUTION \<Rightarrow> nat \<Rightarrow> nat \<Rightarrow> FLOAT64 \<Rightarrow> nat \<Rightarrow> MAKEBUCKETS_LOCALS \<Rightarrow> MAKEBUCKETS_LOCALS" where
  "MakeBuckets_step d NumberOfBuckets' SampleCount' BucketProbability i v =
     (let ProbDensity = DensityFunction d (int i + 1);
          ProbabilityDelta = Integral (LastProbDensity v) ProbDensity 1;
          Probability1 = Probability v + ProbabilityDelta;
          crossed = (Probability1 > NextBucketBoundary v);
          CurrentBucket1 =
            (if crossed \<and> int (CurrentBucket v) < int NumberOfBuckets' - 1
             then CurrentBucket v + 1 else CurrentBucket v);
          NextBucketBoundary1 =
            (if crossed then NextBucketBoundary v + BucketProbability
             else NextBucketBoundary v)
      in \<lparr>Probability = Probability1,
          NextBucketBoundary = NextBucketBoundary1,
          CurrentBucket = CurrentBucket1,
          LastProbDensity = ProbDensity,
          Bucket_l = (Bucket_l v)[i := CurrentBucket1],
          ExpectedCount_l = (ExpectedCount_l v)
            [CurrentBucket1 := ExpectedCount_l v ! CurrentBucket1 +
                                 ProbabilityDelta * real SampleCount']\<rparr>)"

text \<open>
  The part of \<open>MakeBuckets\<close> that fills the mapping table and the expected counts: the
  upper half of the table, the leftover probability, the mirrored lower half of the
  table and the mirrored expected counts.
\<close>

definition MakeBuckets_fill :: "DISTRIBUTION \<Rightarrow> nat \<Rightarrow> nat \<Rightarrow> nat list \<times> FLOAT32 list" where
  "MakeBuckets_fill d NumberOfBuckets' SampleCount' =
     (let BucketProbability = 1 / real NumberOfBuckets';
          init = \<lparr>Probability = 0,
                  NextBucketBoundary =
                    (if odd NumberOfBuckets' then BucketProbability / 2
                     else BucketProbability),
                  CurrentBucket = NumberOfBuckets' div 2,
                  LastProbDensity = DensityFunction d (int (BUCKETTABLESIZE div 2)),
                  Bucket_l = replicate BUCKETTABLESIZE 0,
                  ExpectedCount_l = replicate NumberOfBuckets' 0\<rparr>;
          v = fold (MakeBuckets_step d NumberOfBuckets' SampleCount' BucketProbability)
                [BUCKETTABLESIZE div 2..<BUCKETTABLESIZE] init;
          e1 = (ExpectedCount_l v)
                 [CurrentBucket v := ExpectedCount_l v ! CurrentBucket v +
                                       (1 / 2 - Probability v) * real SampleCount'];
          b2 = map (\<lambda>i. if 2 * i < BUCKETTABLESIZE - 1
                         then to_UINT16 (Mirror (Bucket_l v ! (BUCKETTABLESIZE - 1 - i))
                                           NumberOfBuckets')
                         else Bucket_l v ! i) [0..<BUCKETTABLESIZE];
          e2 = map (\<lambda>i. if 2 * i + 1 \<le> NumberOfBuckets'
                         then e1 ! i + e1 ! (NumberOfBuckets' - 1 - i) else e1 ! i)
                 [0..<NumberOfBuckets']
      in (b2, e2))"

text \<open>
  The static state of cluster.c: the lists of old buckets, one for each distribution,
  the lists of chi-squared values, and the size of the flag array of
  \<open>MultipleCharSamples\<close>.
\<close>

record GLOBALS =
  OldBuckets :: "DISTRIBUTION \<Rightarrow> BUCKETS list"
  ChiWith :: "nat \<Rightarrow> CHISTRUCT list"
  NumFlags :: int

definition MakeBuckets ::
  "GLOBALS \<Rightarrow> DISTRIBUTION \<Rightarrow> nat \<Rightarrow> FLOAT64 \<Rightarrow> (BUCKETS \<times> GLOBALS) option" where
  "MakeBuckets g d SampleCount' Confidence' =
     (let NumberOfBuckets' = OptimumNumberOfBuckets SampleCount' in
      case ComputeChiSquared (ChiWith g) (DegreesOfFreedom d NumberOfBuckets') Confidence' of
        None \<Rightarrow> None
      | Some (chi, ChiWith1) \<Rightarrow>
          (let filled = MakeBuckets_fill d NumberOfBuckets' SampleCount'
           in Some (\<lparr>Distribution = d, SampleCount_b = SampleCount',
                      Confidence_b = Confidence', ChiSquared_b = chi,
                      NumberOfBuckets = NumberOfBuckets',
                      Bucket = fst filled,
                      Count = replicate NumberOfBuckets' 0,
                      ExpectedCount = snd filled\<rparr>,
                    g\<lparr>ChiWith := ChiWith1\<rparr>)))"

text \<open>
  \<open>AdjustBuckets\<close>.  The factor is a \<open>FLOAT64\<close>; each expected count is a \<open>FLOAT32\<close>, so
  the product is rounded when it is stored.
\<close>

definition AdjustBuckets :: "BUCKETS \<Rightarrow> nat \<Rightarrow> BUCKETS" where
  "AdjustBuckets Buckets NewSampleCount =
     (let AdjustFactor = (if SampleCount_b Buckets = 0 then undefined
                          else real NewSampleCount / real (SampleCount_b Buckets))
      in Buckets\<lparr>ExpectedCount :=
                    map (\<lambda>i. if i < NumberOfBuckets Buckets
                              then f32 (ExpectedCount Buckets ! i * AdjustFactor)
                              else ExpectedCount Buckets ! i)
                      [0..<length (ExpectedCount Buckets)],
                  SampleCount_b := NewSampleCount\<rparr>)"

text \<open>The loop that sets the first \<open>NumberOfBuckets\<close> counts to zero.\<close>

definition zero_counts :: "nat \<Rightarrow> nat list \<Rightarrow> nat list" where
  "zero_counts n cs = map (\<lambda>i. if i < n then 0 else cs ! i) [0..<length cs]"

definition InitBuckets :: "BUCKETS \<Rightarrow> BUCKETS" where
  "InitBuckets Buckets = Buckets\<lparr>Count := zero_counts (NumberOfBuckets Buckets) (Count Buckets)\<rparr>"

text \<open>
  \<open>GetBuckets\<close>: an old bucket structure with the wanted number of buckets is taken
  off its list (modelled from the spec: \<open>search\<close> finds the first match, \<open>delete_d\<close>
  removes that list node), adjusted and returned; else a new one is made.
\<close>

definition GetBuckets ::
  "GLOBALS \<Rightarrow> DISTRIBUTION \<Rightarrow> nat \<Rightarrow> FLOAT64 \<Rightarrow> (BUCKETS \<times> GLOBALS) option" where
  "GetBuckets g d SampleCount' Confidence' =
     (let NumberOfBuckets' = OptimumNumberOfBuckets SampleCount' in
      case find (\<lambda>b. NumberOfBuckets b = NumberOfBuckets') (OldBuckets g d) of
        Some Buckets \<Rightarrow>
          (let g1 = g\<lparr>OldBuckets := (OldBuckets g)(d := remove1 Buckets (OldBuckets g d))\<rparr>;
               b1 = (if SampleCount' \<noteq> SampleCount_b Buckets
                     then AdjustBuckets Buckets SampleCount' else Buckets)
           in if Confidence' \<noteq> Confidence_b b1 then
                (case ComputeChiSquared (ChiWith g1)
                        (DegreesOfFreedom d (NumberOfBuckets b1)) Confidence' of
                   None \<Rightarrow> None
                 | Some (chi, ChiWith1) \<Rightarrow>
                     Some (InitBuckets (b1\<lparr>Confidence_b := Confidence', ChiSquared_b := chi\<rparr>),
                           g1\<lparr>ChiWith := ChiWith1\<rparr>))
              else Some (InitBuckets b1, g1))
      | None \<Rightarrow> MakeBuckets g d SampleCount' Confidence')"

definition FreeBuckets :: "GLOBALS \<Rightarrow> BUCKETS \<Rightarrow> GLOBALS" where
  "FreeBuckets g Buckets =
     g\<lparr>OldBuckets := (OldBuckets g)
          (Distribution Buckets := Buckets # OldBuckets g (Distribution Buckets))\<rparr>"

subsection \<open>Filling buckets\<close>

text \<open>The wrap of a sample value around the mean in a circular dimension.\<close>

definition wrap_sample :: "PARAM_DESC \<Rightarrow> FLOAT32 \<Rightarrow> FLOAT32 \<Rightarrow> FLOAT32" where
  "wrap_sample pd x Mean' =
     (if Circular pd then
        (if x - Mean' > HalfRange pd then x - Range_pd pd
         else if x - Mean' < - HalfRange pd then x + Range_pd pd
         else x)
      else x)"

definition NormalBucket :: "PARAM_DESC \<Rightarrow> FLOAT32 \<Rightarrow> FLOAT32 \<Rightarrow> FLOAT32 \<Rightarrow> nat" where
  "NormalBucket pd x Mean' StdDev =
     (let X = ((wrap_sample pd x Mean' - Mean') / StdDev) * NormalStdDev + NormalMean
      in if X < 0 then 0
         else if X > real (BUCKETTABLESIZE - 1) then BUCKETTABLESIZE - 1
         else nat \<lfloor>X\<rfloor>)"

definition UniformBucket :: "PARAM_DESC \<Rightarrow> FLOAT32 \<Rightarrow> FLOAT32 \<Rightarrow> FLOAT32 \<Rightarrow> nat" where
  "UniformBucket pd x Mean' StdDev =
     (let X = (wrap_sample pd x Mean' - Mean') / (2 * StdDev) * real BUCKETTABLESIZE +
              real BUCKETTABLESIZE / 2
      in if X < 0 then 0
         else if X > real (BUCKETTABLESIZE - 1) then BUCKETTABLESIZE - 1
         else nat \<lfloor>X\<rfloor>)"

text \<open>\<open>Count[BucketID] += 1\<close>; outside the array the access is invalid.\<close>

definition Count_increment :: "nat list \<Rightarrow> nat \<Rightarrow> nat list option" where
  "Count_increment cs b = (if b < length cs then Some (cs[b := cs ! b + 1]) else None)"

text \<open>
  The sample loop of \<open>FillBuckets\<close> for a standard deviation of zero; \<open>i\<close> is the
  loop's counter.
\<close>

fun FillBuckets_pseudo ::
  "nat \<Rightarrow> nat \<Rightarrow> FLOAT32 \<Rightarrow> nat list \<Rightarrow> nat \<Rightarrow> CLUSTER list \<Rightarrow> nat list option" where
  "FillBuckets_pseudo NumberOfBuckets' Dim Mean' cs i [] = Some cs"
| "FillBuckets_pseudo NumberOfBuckets' Dim Mean' cs i (Sample # rest) =
     (let BucketID =
            (if Mean Sample ! Dim > Mean' then to_UINT16 (int NumberOfBuckets' - 1)
             else if Mean Sample ! Dim < Mean' then 0
             else i)
      in case Count_increment cs BucketID of
           None \<Rightarrow> None
         | Some cs1 \<Rightarrow>
             FillBuckets_pseudo NumberOfBuckets' Dim Mean' cs1
               (if i + 1 \<ge> NumberOfBuckets' then 0 else i + 1) rest)"

text \<open>The sample loop of \<open>FillBuckets\<close> for a standard deviation that is not zero.\<close>

fun FillBuckets_loop ::
  "BUCKETS \<Rightarrow> nat \<Rightarrow> PARAM_DESC \<Rightarrow> FLOAT32 \<Rightarrow> FLOAT32 \<Rightarrow> nat list \<Rightarrow> CLUSTER list
     \<Rightarrow> nat list option" where
  "FillBuckets_loop Buckets Dim pd Mean' StdDev cs [] = Some cs"
| "FillBuckets_loop Buckets Dim pd Mean' StdDev cs (Sample # rest) =
     (let BucketID =
            (case Distribution Buckets of
               normal \<Rightarrow> NormalBucket pd (Mean Sample ! Dim) Mean' StdDev
             | D_random \<Rightarrow> UniformBucket pd (Mean Sample ! Dim) Mean' StdDev
             | uniform \<Rightarrow> UniformBucket pd (Mean Sample ! Dim) Mean' StdDev)
      in if BucketID < length (Bucket Buckets) then
           (case Count_increment cs (Bucket Buckets ! BucketID) of
              None \<Rightarrow> None
            | Some cs1 \<Rightarrow> FillBuckets_loop Buckets Dim pd Mean' StdDev cs1 rest)
         else None)"

definition FillBuckets ::
  "BUCKETS \<Rightarrow> CLUSTER \<Rightarrow> nat \<Rightarrow> PARAM_DESC \<Rightarrow> FLOAT32 \<Rightarrow> FLOAT32 \<Rightarrow> BUCKETS option" where
  "FillBuckets Buckets Cluster' Dim pd Mean' StdDev =
     (let cs = zero_counts (NumberOfBuckets Buckets) (Count Buckets)
      in map_option (\<lambda>cs1. Buckets\<lparr>Count := cs1\<rparr>)
           (if StdDev = 0
            then FillBuckets_pseudo (NumberOfBuckets Buckets) Dim Mean' cs 0
                   (SampleList (InitSampleSearch Cluster'))
            else FillBuckets_loop Buckets Dim pd Mean' StdDev cs
                   (SampleList (InitSampleSearch Cluster'))))"

definition DistributionOK :: "BUCKETS \<Rightarrow> bool" where
  "DistributionOK Buckets =
     (let TotalDifference =
            fold (\<lambda>i t. t + (real (Count Buckets ! i) - ExpectedCount Buckets ! i) *
                           (real (Count Buckets ! i) - ExpectedCount Buckets ! i) /
                           ExpectedCount Buckets ! i)
              [0..<NumberOfBuckets Buckets] 0
      in \<not> TotalDifference > ChiSquared_b Buckets)"

subsection \<open>Fitting a prototype to a cluster\<close>

text \<open>
  The loop of \<open>MakeSphericalProto\<close> over the dimensions; the flag tells whether it
  ran to the end (\<open>i >= SampleSize\<close>) or broke off at a dimension that failed the test.
  The buckets are filled in place and come back with the result.
\<close>

fun MakeSphericalProto_loop ::
  "CLUSTERER \<Rightarrow> CLUSTER \<Rightarrow> STATISTICS \<Rightarrow> BUCKETS \<Rightarrow> nat list \<Rightarrow> (bool \<times> BUCKETS) option" where
  "MakeSphericalProto_loop Clusterer Cluster' Statistics Buckets [] = Some (True, Buckets)"
| "MakeSphericalProto_loop Clusterer Cluster' Statistics Buckets (i # rest) =
     (if NonEssential (ParamDesc Clusterer ! i)
      then MakeSphericalProto_loop Clusterer Cluster' Statistics Buckets rest
      else
        (case FillBuckets Buckets Cluster' i (ParamDesc Clusterer ! i) (Mean Cluster' ! i)
                (f32 (sqrt (AvgVariance Statistics))) of
           None \<Rightarrow> None
         | Some Buckets1 \<Rightarrow>
             if \<not> DistributionOK Buckets1 then Some (False, Buckets1)
             else MakeSphericalProto_loop Clusterer Cluster' Statistics Buckets1 rest))"

definition MakeSphericalProto ::
  "CLUSTERER \<Rightarrow> CLUSTER \<Rightarrow> STATISTICS \<Rightarrow> BUCKETS \<Rightarrow> (PROTOTYPE option \<times> BUCKETS) option" where
  "MakeSphericalProto Clusterer Cluster' Statistics Buckets =
     map_option
       (\<lambda>r. (if fst r then Some (NewSphericalProto (SampleSize Clusterer) Cluster' Statistics)
              else None, snd r))
       (MakeSphericalProto_loop Clusterer Cluster' Statistics Buckets
          [0..<SampleSize Clusterer])"

fun MakeEllipticalProto_loop ::
  "CLUSTERER \<Rightarrow> CLUSTER \<Rightarrow> STATISTICS \<Rightarrow> BUCKETS \<Rightarrow> nat list \<Rightarrow> (bool \<times> BUCKETS) option" where
  "MakeEllipticalProto_loop Clusterer Cluster' Statistics Buckets [] = Some (True, Buckets)"
| "MakeEllipticalProto_loop Clusterer Cluster' Statistics Buckets (i # rest) =
     (if NonEssential (ParamDesc Clusterer ! i)
      then MakeEllipticalProto_loop Clusterer Cluster' Statistics Buckets rest
      else
        (case FillBuckets Buckets Cluster' i (ParamDesc Clusterer ! i) (Mean Cluster' ! i)
                (f32 (sqrt (CoVariance Statistics ! (i * (SampleSize Clusterer + 1))))) of
           None \<Rightarrow> None
         | Some Buckets1 \<Rightarrow>
             if \<not> DistributionOK Buckets1 then Some (False, Buckets1)
             else MakeEllipticalProto_loop Clusterer Cluster' Statistics Buckets1 rest))"

definition MakeEllipticalProto ::
  "CLUSTERER \<Rightarrow> CLUSTER \<Rightarrow> STATISTICS \<Rightarrow> BUCKETS \<Rightarrow> (PROTOTYPE option \<times> BUCKETS) option" where
  "MakeEllipticalProto Clusterer Cluster' Statistics Buckets =
     map_option
       (\<lambda>r. (if fst r then Some (NewEllipticalProto (SampleSize Clusterer) Cluster' Statistics)
              else None, snd r))
       (MakeEllipticalProto_loop Clusterer Cluster' Statistics Buckets
          [0..<SampleSize Clusterer])"

text \<open>
  The conversions of a sample count to \<open>UINT32\<close> and of a float to \<open>INT32\<close>.  The second
  drops the fraction; outside the range of \<open>INT32\<close> it is undefined in C, and there is no
  result.
\<close>

definition to_UINT32 :: "int \<Rightarrow> nat" where
  "to_UINT32 x = nat (x mod 4294967296)"

definition to_INT32 :: "real \<Rightarrow> int option" where
  "to_INT32 x =
     (let t = (if x < 0 then \<lceil>x\<rceil> else \<lfloor>x\<rfloor>)
      in if - 2147483648 \<le> t \<and> t \<le> 2147483647 then Some t else None)"

text \<open>
  The local variables of \<open>MakeMixedProto\<close> that its loop changes, with the static
  state; the random and the uniform buckets are \<open>NULL\<close> until they are first needed.
\<close>

record MIXED_LOCALS =
  Proto_m :: PROTOTYPE
  NormalBuckets :: BUCKETS
  RandomBuckets :: "BUCKETS option"
  UniformBuckets :: "BUCKETS option"
  Globals_m :: GLOBALS

text \<open>
  The body of the loop of \<open>MakeMixedProto\<close> for an essential dimension \<open>i\<close>: normal,
  then random, then uniform.  The flag is false when all three tests failed
  (\<open>break\<close>).
\<close>

definition MakeMixedProto_dim ::
  "CLUSTERER \<Rightarrow> CLUSTER \<Rightarrow> STATISTICS \<Rightarrow> FLOAT64 \<Rightarrow> nat \<Rightarrow> MIXED_LOCALS
     \<Rightarrow> (bool \<times> MIXED_LOCALS) option" where
  "MakeMixedProto_dim Clusterer Cluster' Statistics Confidence' i v =
     (if \<not> i < length (Mean_p (Proto_m v)) then None else
      do {
        sd \<leftarrow> Elliptical_nth (Variance (Proto_m v)) i;
        nb \<leftarrow> FillBuckets (NormalBuckets v) Cluster' i (ParamDesc Clusterer ! i)
                (Mean_p (Proto_m v) ! i) (f32 (sqrt sd));
        if DistributionOK nb then Some (True, v\<lparr>NormalBuckets := nb\<rparr>)
        else do {
          (rb, g1) \<leftarrow> (case RandomBuckets v of
                          None \<Rightarrow> GetBuckets (Globals_m v) D_random
                                    (to_UINT32 (SampleCount Cluster')) Confidence'
                        | Some rb \<Rightarrow> Some (rb, Globals_m v));
          p1 \<leftarrow> MakeDimRandom i (Proto_m v) (ParamDesc Clusterer ! i);
          sd1 \<leftarrow> Elliptical_nth (Variance p1) i;
          rb1 \<leftarrow> FillBuckets rb Cluster' i (ParamDesc Clusterer ! i) (Mean_p p1 ! i) sd1;
          if DistributionOK rb1
          then Some (True, v\<lparr>Proto_m := p1, NormalBuckets := nb, RandomBuckets := Some rb1,
                              Globals_m := g1\<rparr>)
          else do {
            (ub, g2) \<leftarrow> (case UniformBuckets v of
                            None \<Rightarrow> GetBuckets g1 uniform
                                      (to_UINT32 (SampleCount Cluster')) Confidence'
                          | Some ub \<Rightarrow> Some (ub, g1));
            p2 \<leftarrow> MakeDimUniform i p1 Statistics;
            sd2 \<leftarrow> Elliptical_nth (Variance p2) i;
            ub1 \<leftarrow> FillBuckets ub Cluster' i (ParamDesc Clusterer ! i) (Mean_p p2 ! i) sd2;
            Some (DistributionOK ub1,
                  v\<lparr>Proto_m := p2, NormalBuckets := nb, RandomBuckets := Some rb1,
                    UniformBuckets := Some ub1, Globals_m := g2\<rparr>)
          }
        }
      })"

fun MakeMixedProto_loop ::
  "CLUSTERER \<Rightarrow> CLUSTER \<Rightarrow> STATISTICS \<Rightarrow> FLOAT64 \<Rightarrow> nat list \<Rightarrow> MIXED_LOCALS
     \<Rightarrow> (bool \<times> MIXED_LOCALS) option" where
  "MakeMixedProto_loop Clusterer Cluster' Statistics Confidence' [] v = Some (True, v)"
| "MakeMixedProto_loop Clusterer Cluster' Statistics Confidence' (i # rest) v =
     (if NonEssential (ParamDesc Clusterer ! i)
      then MakeMixedProto_loop Clusterer Cluster' Statistics Confidence' rest v
      else
        (case MakeMixedProto_dim Clusterer Cluster' Statistics Confidence' i v of
           None \<Rightarrow> None
         | Some (ok, v1) \<Rightarrow>
             if ok then MakeMixedProto_loop Clusterer Cluster' Statistics Confidence' rest v1
             else Some (False, v1)))"

text \<open>
  \<open>MakeMixedProto\<close>: the prototype is discarded when a dimension matched no
  distribution; the uniform and then the random buckets go back to their lists.
\<close>

definition MakeMixedProto ::
  "GLOBALS \<Rightarrow> CLUSTERER \<Rightarrow> CLUSTER \<Rightarrow> STATISTICS \<Rightarrow> BUCKETS \<Rightarrow> FLOAT64
     \<Rightarrow> (PROTOTYPE option \<times> BUCKETS \<times> GLOBALS) option" where
  "MakeMixedProto g Clusterer Cluster' Statistics NormalBuckets' Confidence' =
     do {
       (ok, v) \<leftarrow> MakeMixedProto_loop Clusterer Cluster' Statistics Confidence'
                     [0..<SampleSize Clusterer]
                     \<lparr>Proto_m = NewMixedProto (SampleSize Clusterer) Cluster' Statistics,
                      NormalBuckets = NormalBuckets', RandomBuckets = None,
                      UniformBuckets = None, Globals_m = g\<rparr>;
       let g1 = (case UniformBuckets v of None \<Rightarrow> Globals_m v
                 | Some ub \<Rightarrow> FreeBuckets (Globals_m v) ub);
           g2 = (case RandomBuckets v of None \<Rightarrow> g1 | Some rb \<Rightarrow> FreeBuckets g1 rb)
       in Some (if ok then Some (Proto_m v) else None, NormalBuckets v, g2)
     }"

text \<open>
  The \<open>switch\<close> of \<open>MakePrototype\<close> on the style asked for, with the buckets for the
  normal distribution.
\<close>

definition MakePrototype_fit ::
  "GLOBALS \<Rightarrow> CLUSTERER \<Rightarrow> CLUSTERCONFIG \<Rightarrow> CLUSTER \<Rightarrow> STATISTICS \<Rightarrow> BUCKETS
     \<Rightarrow> (PROTOTYPE option \<times> BUCKETS \<times> GLOBALS) option" where
  "MakePrototype_fit g Clusterer Config Cluster' Statistics Buckets =
     (case ProtoStyle Config of
        spherical \<Rightarrow>
          map_option (\<lambda>r. (fst r, snd r, g))
            (MakeSphericalProto Clusterer Cluster' Statistics Buckets)
      | elliptical \<Rightarrow>
          map_option (\<lambda>r. (fst r, snd r, g))
            (MakeEllipticalProto Clusterer Cluster' Statistics Buckets)
      | mixed \<Rightarrow> MakeMixedProto g Clusterer Cluster' Statistics Buckets (Confidence Config)
      | automatic \<Rightarrow>
          do {
            (p1, b1) \<leftarrow> MakeSphericalProto Clusterer Cluster' Statistics Buckets;
            if p1 \<noteq> None then Some (p1, b1, g)
            else do {
              (p2, b2) \<leftarrow> MakeEllipticalProto Clusterer Cluster' Statistics b1;
              if p2 \<noteq> None then Some (p2, b2, g)
              else MakeMixedProto g Clusterer Cluster' Statistics b2 (Confidence Config)
            }
          })"

text \<open>
  \<open>MakePrototype\<close>: the prototype (or \<open>NULL\<close>) with the static state after the call;
  no result when a routine it calls has none.  The threshold of the degenerate test is
  the \<open>FLOAT32\<close> product of \<open>MinSamples\<close> and the converted \<open>NumChar\<close>, cast to \<open>INT32\<close>.
\<close>

definition MakePrototype ::
  "GLOBALS \<Rightarrow> CLUSTERER \<Rightarrow> CLUSTERCONFIG \<Rightarrow> CLUSTER \<Rightarrow> (PROTOTYPE option \<times> GLOBALS) option" where
  "MakePrototype g Clusterer Config Cluster' =
     do {
       (multiple, flags) \<leftarrow> MultipleCharSamples (NumFlags g) Clusterer Cluster'
                               (MaxIllegal Config);
       let g1 = g\<lparr>NumFlags := flags\<rparr> in
       if multiple then Some (None, g1)
       else
         let Statistics = ComputeStatistics (SampleSize Clusterer) (ParamDesc Clusterer) Cluster'
         in do {
           MinSamples' \<leftarrow> to_INT32 (f32 (MinSamples Config * f32 (of_int (NumChar Clusterer))));
           case MakeDegenerateProto (SampleSize Clusterer) Cluster' Statistics
                   (ProtoStyle Config) MinSamples' of
              Some Proto \<Rightarrow> Some (Some Proto, g1)
            | None \<Rightarrow>
                if \<not> Independent (ParamDesc Clusterer) (SampleSize Clusterer)
                       (CoVariance Statistics) (Independence Config)
                then Some (None, g1)
                else do {
                  (Buckets, g2) \<leftarrow> GetBuckets g1 normal (to_UINT32 (SampleCount Cluster'))
                                      (Confidence Config);
                  (Proto, Buckets1, g3) \<leftarrow>
                    MakePrototype_fit g2 Clusterer Config Cluster' Statistics Buckets;
                  Some (Proto, FreeBuckets g3 Buckets1)
                }
         }
     }"

text \<open>
  The loop of \<open>ComputePrototypes\<close> over the stack of clusters.  A cluster without a
  prototype is split: its right and then its left sub-cluster are pushed.  Splitting a
  sample pushes two \<open>NULL\<close> pointers, and the next round reads through one: no result.
\<close>

function ComputePrototypes_loop ::
  "GLOBALS \<Rightarrow> CLUSTERER \<Rightarrow> CLUSTERCONFIG \<Rightarrow> CLUSTER list \<Rightarrow> PROTOTYPE list
     \<Rightarrow> (PROTOTYPE list \<times> GLOBALS) option" where
  "ComputePrototypes_loop g Clusterer Config [] ProtoList' = Some (ProtoList', g)"
| "ComputePrototypes_loop g Clusterer Config (Cluster' # ClusterStack) ProtoList' =
     (case MakePrototype g Clusterer Config Cluster' of
        None \<Rightarrow> None
      | Some (Some Prototype', g1) \<Rightarrow>
          ComputePrototypes_loop g1 Clusterer Config ClusterStack (Prototype' # ProtoList')
      | Some (None, g1) \<Rightarrow>
          (case Cluster' of
             LeafCluster c p n k m \<Rightarrow> None
           | InnerCluster c p n k m l r \<Rightarrow>
               ComputePrototypes_loop g1 Clusterer Config (l # r # ClusterStack) ProtoList'))"
  by pat_completeness auto
termination
  by (relation "measure (\<lambda>(g, Clusterer, Config, st, pl). sum_list (map cluster_nodes st))")
     (auto simp: cluster_nodes_pos)

definition ComputePrototypes ::
  "GLOBALS \<Rightarrow> CLUSTERER \<Rightarrow> CLUSTERCONFIG \<Rightarrow> (PROTOTYPE list \<times> GLOBALS) option" where
  "ComputePrototypes g Clusterer Config =
     ComputePrototypes_loop g Clusterer Config
       (case Root Clusterer of None \<Rightarrow> [] | Some r \<Rightarrow> [r]) (ProtoList Clusterer)"

text \<open>
  \<open>ClusterSamples\<close>: the tree is created when there is no root yet, the old prototype
  list is freed, and the prototypes are computed from the root.  The result is the new
  list, with the clusterer and the static state after the call.
\<close>

definition ClusterSamples ::
  "GLOBALS \<Rightarrow> CLUSTERER \<Rightarrow> CLUSTERCONFIG \<Rightarrow> (PROTOTYPE list \<times> CLUSTERER \<times> GLOBALS) option" where
  "ClusterSamples g Clusterer Config =
     do {
       c1 \<leftarrow> (if Root Clusterer = None then CreateClusterTree Clusterer else Some Clusterer);
       let c2 = c1\<lparr>ProtoList := []\<rparr>;
       (pl, g1) \<leftarrow> ComputePrototypes g c2 Config;
       Some (pl, c2\<lparr>ProtoList := pl\<rparr>, g1)
     }"

subsection \<open>The range of a circular dimension\<close>

text \<open>A mean lies in the range of its dimension: \<open>min \<le> mean < max\<close>.\<close>

definition mean_in_range :: "PARAM_DESC \<Rightarrow> real \<Rightarrow> bool" where
  "mean_in_range pd x \<longleftrightarrow> Min_pd pd \<le> x \<and> x < Max_pd pd"

text \<open>
  A circular dimension \<open>[0, 360)\<close>, and the clusterer over it that holds the two samples
  \<open>a\<close> and \<open>b\<close> with the character ids 0 and 1, with its index, used as concrete inputs
  below.
\<close>

definition angle_desc :: PARAM_DESC where
  "angle_desc = \<lparr>Circular = True, NonEssential = False, Min_pd = 0, Max_pd = 360,
                  Range_pd = 0, HalfRange = 0, MidRange = 0\<rparr>"

definition angle_index :: "real \<Rightarrow> real \<Rightarrow> KDTREE" where
  "angle_index a b =
     \<lparr>KeyDesc = [DeriveParamDesc angle_desc],
      Cells = [LeafCluster False False 1 0 [a], LeafCluster False False 1 1 [b]],
      Nodes = [0, 1]\<rparr>"

definition angle_clusterer :: "real \<Rightarrow> real \<Rightarrow> CLUSTERER" where
  "angle_clusterer a b =
     \<lparr>SampleSize = 1, ParamDesc = [DeriveParamDesc angle_desc], NumberOfSamples = 2,
      KDTree = Some (angle_index a b), Root = None, ProtoList = [], NumChar = 2\<rparr>"

subsection \<open>The multi-character filter as the specification states it\<close>

text \<open>The samples of a cluster, from left to right.\<close>

fun samples_of :: "CLUSTER \<Rightarrow> CLUSTER list" where
  "samples_of (LeafCluster c p n k m) = [LeafCluster c p n k m]"
| "samples_of (InnerCluster c p n k m l r) = samples_of l @ samples_of r"

datatype char_state = unseen | seen | illegal

text \<open>The state a \<open>BOOL8\<close> flag of the code stands for.\<close>

fun flag_state :: "nat \<Rightarrow> char_state" where
  "flag_state 0 = unseen"
| "flag_state (Suc 0) = seen"
| "flag_state (Suc (Suc n)) = illegal"

text \<open>
  The walk of section 4.5 over the character ids of the samples, as it is written:
  an unseen id becomes seen; a seen id becomes illegal, \<open>illegal_count\<close> goes up,
  \<open>char_count\<close> goes down and the ratio is tested.  Nothing is written for an id
  that is already illegal, and nothing happens there.
\<close>

fun stated_char_walk ::
  "real \<Rightarrow> (int \<Rightarrow> char_state) \<Rightarrow> int \<Rightarrow> int \<Rightarrow> int list \<Rightarrow> bool" where
  "stated_char_walk max_illegal st illegal_count char_count [] = False"
| "stated_char_walk max_illegal st illegal_count char_count (k # ks) =
     (case st k of
        unseen \<Rightarrow> stated_char_walk max_illegal (st(k := seen)) illegal_count char_count ks
      | seen \<Rightarrow>
          (if of_int (illegal_count + 1) / of_int (char_count - 1) > max_illegal then True
           else stated_char_walk max_illegal (st(k := illegal))
                  (illegal_count + 1) (char_count - 1) ks)
      | illegal \<Rightarrow> stated_char_walk max_illegal st illegal_count char_count ks)"

text \<open>
  The other reading of "a sample whose id was already seen": every repeated sample,
  also one whose id is already illegal, marks, counts up, counts down and tests.
\<close>

fun stated_char_walk_repeats ::
  "real \<Rightarrow> (int \<Rightarrow> char_state) \<Rightarrow> int \<Rightarrow> int \<Rightarrow> int list \<Rightarrow> bool" where
  "stated_char_walk_repeats max_illegal st illegal_count char_count [] = False"
| "stated_char_walk_repeats max_illegal st illegal_count char_count (k # ks) =
     (case st k of
        unseen \<Rightarrow>
          stated_char_walk_repeats max_illegal (st(k := seen)) illegal_count char_count ks
      | _ \<Rightarrow>
          (if of_int (illegal_count + 1) / of_int (char_count - 1) > max_illegal then True
           else stated_char_walk_repeats max_illegal (st(k := illegal))
                  (illegal_count + 1) (char_count - 1) ks))"

text \<open>
  The walk the code performs: a sample whose id is already illegal leaves
  \<open>illegal_count\<close> as it is, but still takes one off \<open>char_count\<close> and tests the ratio.
  The ratio is the \<open>f32\<close> quotient of the two counts.
\<close>

definition percent_illegal :: "int \<Rightarrow> int \<Rightarrow> real" where
  "percent_illegal illegal_count char_count =
     f32 (f32 (of_int illegal_count) / f32 (of_int char_count))"

fun char_walk ::
  "real \<Rightarrow> (int \<Rightarrow> char_state) \<Rightarrow> int \<Rightarrow> int \<Rightarrow> int list \<Rightarrow> bool" where
  "char_walk max_illegal st illegal_count char_count [] = False"
| "char_walk max_illegal st illegal_count char_count (k # ks) =
     (case st k of
        unseen \<Rightarrow> char_walk max_illegal (st(k := seen)) illegal_count char_count ks
      | seen \<Rightarrow>
          (if percent_illegal (illegal_count + 1) (char_count - 1) > max_illegal then True
           else char_walk max_illegal (st(k := illegal))
                  (illegal_count + 1) (char_count - 1) ks)
      | illegal \<Rightarrow>
          (if percent_illegal illegal_count (char_count - 1) > max_illegal then True
           else char_walk max_illegal st illegal_count (char_count - 1) ks))"

text \<open>Clusters of samples that share character ids, used as concrete inputs below.\<close>

definition id_sample :: "int \<Rightarrow> CLUSTER" where
  "id_sample k = LeafCluster True False 1 k [0]"

definition id_cluster :: "int \<Rightarrow> CLUSTER \<Rightarrow> CLUSTER \<Rightarrow> CLUSTER" where
  "id_cluster n l r = InnerCluster True False n (- 1) [0] l r"

definition triple_cluster :: CLUSTER where
  "triple_cluster = id_cluster 3 (id_cluster 2 (id_sample 0) (id_sample 0)) (id_sample 0)"

definition ten_cluster :: CLUSTER where
  "ten_cluster =
     id_cluster 10
       (id_cluster 3 (id_cluster 2 (id_sample 0) (id_sample 0)) (id_sample 0))
       (id_cluster 7 (id_sample 1)
         (id_cluster 6 (id_sample 2)
           (id_cluster 5 (id_sample 3)
             (id_cluster 4 (id_sample 4)
               (id_cluster 3 (id_sample 5)
                 (id_cluster 2 (id_sample 6) (id_sample 7)))))))"

text \<open>
  Eleven samples: the characters 0 to 5, and the characters 0 to 4 once more.
\<close>

definition eleven_cluster :: CLUSTER where
  "eleven_cluster =
     id_cluster 11
       (id_cluster 6 (id_sample 0)
         (id_cluster 5 (id_sample 1)
           (id_cluster 4 (id_sample 2)
             (id_cluster 3 (id_sample 3)
               (id_cluster 2 (id_sample 4) (id_sample 5))))))
       (id_cluster 5 (id_sample 0)
         (id_cluster 4 (id_sample 1)
           (id_cluster 3 (id_sample 2)
             (id_cluster 2 (id_sample 3) (id_sample 4)))))"

definition id_clusterer :: "int \<Rightarrow> CLUSTER \<Rightarrow> CLUSTERER" where
  "id_clusterer n c =
     \<lparr>SampleSize = 1,
      ParamDesc = [\<lparr>Circular = False, NonEssential = False, Min_pd = 0, Max_pd = 1,
                    Range_pd = 1, HalfRange = 1 / 2, MidRange = 1 / 2\<rparr>],
      NumberOfSamples = SampleCount c, KDTree = None, Root = Some c, ProtoList = [],
      NumChar = n\<rparr>"

text \<open>
  A mixed prototype of \<open>N\<close> dimensions as \<open>MakeMixedProto\<close> holds it while it works: the
  distributions, the means, the variances and the magnitudes are arrays of \<open>N\<close> entries,
  and the prototype points to its cluster.
\<close>

definition mixed_proto :: "nat \<Rightarrow> PROTOTYPE \<Rightarrow> bool" where
  "mixed_proto N P \<longleftrightarrow>
     Style P = mixed \<and> Cluster P \<noteq> None \<and> length (Mean_p P) = N \<and>
     (case Distrib P of None \<Rightarrow> False | Some ds \<Rightarrow> length ds = N) \<and>
     (case Variance P of Spherical v \<Rightarrow> False | Elliptical vs \<Rightarrow> length vs = N) \<and>
     (case Magnitude P of Spherical m \<Rightarrow> False | Elliptical ms \<Rightarrow> length ms = N)"

text \<open>
  A mixed prototype of one dimension with the given distribution and stored variance,
  and a cluster of the two samples 0 and 8 of one dimension with its statistics (mean
  4, variance 32, distances from -4 to 4), used as concrete inputs below.
\<close>

definition one_dim_proto :: "DISTRIBUTION \<Rightarrow> real \<Rightarrow> PROTOTYPE" where
  "one_dim_proto d v =
     \<lparr>Significant = True, Style = mixed, NumSamples = 1, Cluster = None,
      Distrib = Some [d], Mean_p = [0], TotalMagnitude = 1, LogMagnitude = 0,
      Variance = Elliptical [v], Magnitude = Elliptical [1], Weight = Elliptical [1]\<rparr>"

definition wide_pair :: CLUSTER where
  "wide_pair =
     InnerCluster False False 2 (- 1) [4]
       (LeafCluster True False 1 0 [0]) (LeafCluster True False 1 1 [8])"

definition wide_stats :: STATISTICS where
  "wide_stats = \<lparr>AvgVariance = 32, CoVariance = [32], Min_st = [- 4], Max_st = [4]\<rparr>"

text \<open>
  A cluster of the two samples 0 and 2 in one dimension that is not circular, and that
  dimension's descriptor, used as concrete inputs below.
\<close>

definition line_desc :: PARAM_DESC where
  "line_desc = \<lparr>Circular = False, NonEssential = False, Min_pd = 0, Max_pd = 4,
                 Range_pd = 4, HalfRange = 2, MidRange = 2\<rparr>"

definition pair_cluster :: CLUSTER where
  "pair_cluster =
     InnerCluster False False 2 (- 1) [1]
       (LeafCluster True False 1 0 [0]) (LeafCluster True False 1 1 [2])"

text \<open>
  What the claims about buckets need of a bucket structure: a table of
  \<open>BUCKETTABLESIZE\<close> entries that are all cells of the histogram, and a count for each
  of the cells.
\<close>

definition buckets_in_range :: "BUCKETS \<Rightarrow> bool" where
  "buckets_in_range b \<longleftrightarrow>
     0 < NumberOfBuckets b \<and> NumberOfBuckets b \<le> MAXBUCKETS \<and>
     length (Bucket b) = BUCKETTABLESIZE \<and>
     length (Count b) = NumberOfBuckets b \<and>
     (\<forall>t < BUCKETTABLESIZE. Bucket b ! t < NumberOfBuckets b)"

text \<open>
  A static state in which the chi-squared value for two degrees of freedom and
  \<open>Alpha = 1/20\<close> has been computed before: the state of a concrete call below.
\<close>

definition chi_cached :: GLOBALS where
  "chi_cached =
     \<lparr>OldBuckets = (\<lambda>d. []),
      ChiWith = (\<lambda>n. if n = 2
                      then [\<lparr>DegreesOfFreedom_chi = 2, Alpha = 1 / 20, ChiSquared = 599 / 100\<rparr>]
                      else []),
      NumFlags = 0\<rparr>"

text \<open>The invariant of the loop of \<open>MakeBuckets\<close> over the upper half of the table.\<close>

definition table_invariant :: "nat \<Rightarrow> MAKEBUCKETS_LOCALS \<Rightarrow> bool" where
  "table_invariant n v \<longleftrightarrow>
     CurrentBucket v < n \<and> length (Bucket_l v) = BUCKETTABLESIZE \<and>
     length (ExpectedCount_l v) = n \<and>
     (\<forall>t < BUCKETTABLESIZE. Bucket_l v ! t < n)"

text \<open>
  A cluster of six samples in two dimensions: in the first dimension the values are
  1, 0, 2, 0, 2, 1 (in the order the sample search finds them) with mean 1, in the
  second dimension every sample has the value 3.  The buckets are those \<open>MakeBuckets\<close>
  makes for six samples.  Both are used as concrete inputs below.
\<close>

definition value_sample :: "int \<Rightarrow> real \<Rightarrow> CLUSTER" where
  "value_sample k x = LeafCluster True False 1 k [x, 3]"

definition spread_cluster :: CLUSTER where
  "spread_cluster =
     InnerCluster False False 6 (- 1) [1, 3]
       (InnerCluster True False 3 (- 1) [1, 3]
          (value_sample 0 1)
          (InnerCluster True False 2 (- 1) [1, 3] (value_sample 1 0) (value_sample 2 2)))
       (InnerCluster True False 3 (- 1) [1, 3]
          (InnerCluster True False 2 (- 1) [1, 3] (value_sample 3 0) (value_sample 4 2))
          (value_sample 5 1))"

definition six_sample_buckets :: BUCKETS where
  "six_sample_buckets =
     \<lparr>Distribution = normal, SampleCount_b = 6, Confidence_b = 1 / 20,
      ChiSquared_b = 599 / 100, NumberOfBuckets = 5,
      Bucket = fst (MakeBuckets_fill normal 5 6),
      Count = replicate 5 0,
      ExpectedCount = snd (MakeBuckets_fill normal 5 6)\<rparr>"

text \<open>
  The static state of a program that has not clustered yet, a configuration whose
  \<open>MinSamples\<close> is twice the number of characters, a sample on its own, and a cluster
  of the two samples (0, 0) and (2, 2), used as concrete inputs below.
\<close>

definition initial_globals :: GLOBALS where
  "initial_globals = \<lparr>OldBuckets = (\<lambda>d. []), ChiWith = (\<lambda>n. []), NumFlags = 0\<rparr>"

definition small_config :: "PROTOSTYLE \<Rightarrow> real \<Rightarrow> CLUSTERCONFIG" where
  "small_config s mx =
     \<lparr>ProtoStyle = s, MinSamples = 2, MaxIllegal = mx, Independence = 1 / 2,
      Confidence = 1 / 20\<rparr>"

definition lone_sample :: CLUSTER where
  "lone_sample = LeafCluster False False 1 0 [3]"

definition diagonal_cluster :: CLUSTER where
  "diagonal_cluster =
     InnerCluster False False 2 (- 1) [1, 1]
       (LeafCluster True False 1 0 [0, 0]) (LeafCluster True False 1 1 [2, 2])"

definition plane_clusterer :: "CLUSTER \<Rightarrow> CLUSTERER" where
  "plane_clusterer c =
     \<lparr>SampleSize = 2, ParamDesc = [line_desc, line_desc],
      NumberOfSamples = SampleCount c, KDTree = None, Root = Some c, ProtoList = [],
      NumChar = 2\<rparr>"

text \<open>A configuration whose \<open>MinSamples\<close> is half the number of characters.\<close>

definition guard_config :: "real \<Rightarrow> CLUSTERCONFIG" where
  "guard_config mx =
     \<lparr>ProtoStyle = spherical, MinSamples = 1 / 2, MaxIllegal = mx, Independence = 1 / 2,
      Confidence = 1 / 20\<rparr>"



text \<open>
  A clusterer for two characters over one dimension that is not essential, holding the
  given cluster.
\<close>

definition free_desc :: PARAM_DESC where
  "free_desc = \<lparr>Circular = False, NonEssential = True, Min_pd = 0, Max_pd = 4,
                 Range_pd = 4, HalfRange = 2, MidRange = 2\<rparr>"

definition free_clusterer :: "CLUSTER \<Rightarrow> CLUSTERER" where
  "free_clusterer c =
     \<lparr>SampleSize = 1, ParamDesc = [free_desc],
      NumberOfSamples = SampleCount c, KDTree = None, Root = Some c, ProtoList = [],
      NumChar = 2\<rparr>"

text \<open>
  A covariance matrix of two dimensions with the variances 1 and the covariance
  \<open>2\<^sup>-\<^sup>7\<^sup>7\<close>.
\<close>

definition faint_covariance :: "real list" where
  "faint_covariance =
     [1, 1 / 151115727451828646838272, 1 / 151115727451828646838272, 1]"

subsection \<open>The statistics as the specification states them\<close>

text \<open>
  The deviation of a sample from the mean in one dimension, with the wrap correction of
  section 4.6 in a circular dimension: the range is subtracted from a difference above
  half the range, and added to one below minus half the range.  The sample, the mean
  and the differences are \<open>f32\<close> values.
\<close>

definition wrap_corrected :: "PARAM_DESC \<Rightarrow> real \<Rightarrow> real" where
  "wrap_corrected pd d =
     (let d1 = (if d > HalfRange pd then f32 (d - Range_pd pd) else d)
      in if d1 < - HalfRange pd then f32 (d1 + Range_pd pd) else d1)"

definition deviation :: "PARAM_DESC \<Rightarrow> real \<Rightarrow> real \<Rightarrow> real" where
  "deviation pd x m =
     (if Circular pd then wrap_corrected pd (f32 (x - m)) else f32 (x - m))"

text \<open>
  A sum and a product accumulated in an \<open>f32\<close> variable that starts at 0 and at 1: the
  terms are taken from left to right, and the variable is rounded after each of them.
\<close>

definition f32_sum :: "real list \<Rightarrow> real" where
  "f32_sum xs = fold (\<lambda>x a. f32 (a + x)) xs 0"

definition f32_product :: "real list \<Rightarrow> real" where
  "f32_product xs = fold (\<lambda>x a. f32 (a * x)) xs 1"

text \<open>
  Entry \<open>(i, j)\<close> of the covariance matrix of section 4.6: the accumulated sum of the
  products of the deviations in the dimensions \<open>i\<close> and \<open>j\<close>, divided by
  \<open>max 1 (count - 1)\<close>; the product and the quotient are \<open>f32\<close> values.
\<close>

definition covariance_entry :: "PARAM_DESC list \<Rightarrow> CLUSTER \<Rightarrow> nat \<Rightarrow> nat \<Rightarrow> real" where
  "covariance_entry pds C i j =
     f32 (f32_sum (map (\<lambda>s. f32 (deviation (pds ! i) (Mean s ! i) (Mean C ! i) *
                                  deviation (pds ! j) (Mean s ! j) (Mean C ! j)))
                     (samples_of C)) /
          f32 (of_int (max 1 (SampleCount C - 1))))"



subsection \<open>Histories of calls on a clusterer\<close>

text \<open>
  A caller adds samples and asks for prototypes.  \<open>calls\<close> runs a history of such calls
  from a state of the module and a clusterer; a \<open>MakeSample\<close> that ends with an error
  leaves the caller with the clusterer as the call left it, and a \<open>ClusterSamples\<close>
  without a result ends the history without a result.
\<close>

datatype call = AddSample "FLOAT32 list" int | DoCluster CLUSTERCONFIG

fun is_DoCluster :: "call \<Rightarrow> bool" where
  "is_DoCluster (AddSample f k) = False"
| "is_DoCluster (DoCluster cfg) = True"

fun calls :: "GLOBALS \<times> CLUSTERER \<Rightarrow> call list \<Rightarrow> (GLOBALS \<times> CLUSTERER) option" where
  "calls s [] = Some s"
| "calls (g, c) (AddSample f k # cs) = calls (g, snd (MakeSample c f k)) cs"
| "calls (g, c) (DoCluster cfg # cs) =
     (case ClusterSamples g c cfg of
        None \<Rightarrow> None
      | Some (pl, c1, g1) \<Rightarrow> calls (g1, c1) cs)"

section \<open>Properties\<close>

subsection \<open>Rounding to binary32\<close>

text \<open>
  A value in the binade of \<open>2^k\<close> rounds to a multiple of \<open>2^(k - 23)\<close>, and a value that
  binary32 represents is left as it is: an integer multiple of a power of two
  with less than 24 bits, in the range of the exponents.
\<close>

lemma round_even_of_int [simp]: "round_even (of_int z) = z"
  by (simp add: round_even_def)

lemma find_exponent_range: "- 126 \<le> find_exponent n a \<and> find_exponent n a \<le> int n - 126"
  by (induction n) auto

lemma find_exponent_found:
  "find_exponent n a \<noteq> - 126 \<Longrightarrow> 2 powi (find_exponent n a) \<le> a"
  by (induction n) (auto split: if_splits)

lemma find_exponent_eq:
  assumes "2 powi k \<le> a" "a < 2 powi (k + 1)" "- 126 \<le> k" "k \<le> int n - 126"
  shows "find_exponent n a = k"
  using assms
proof (induction n)
  case 0
  then show ?case by simp
next
  case (Suc n)
  show ?case
  proof (cases "2 powi (int n - 125) \<le> a")
    case True
    with Suc.prems(2) have "(2::real) powi (int n - 125) < 2 powi (k + 1)" by simp
    note this
    have "int n - 125 < k + 1"
    proof (rule ccontr)
      assume "\<not> int n - 125 < k + 1"
      then have "(2::real) powi (k + 1) \<le> 2 powi (int n - 125)"
        by (intro power_int_increasing) simp_all
      with \<open>(2::real) powi (int n - 125) < 2 powi (k + 1)\<close> show False by simp
    qed
    with Suc.prems(4) have "k = int n - 125" by simp
    with True show ?thesis by simp
  next
    case False
    with Suc.prems(1) have "k \<noteq> int n - 125" by auto
    with Suc.prems(4) have "k \<le> int n - 126" by simp
    with Suc.IH [OF Suc.prems(1) Suc.prems(2) Suc.prems(3)] False show ?thesis by simp
  qed
qed

lemma find_exponent_small:
  "a < 2 powi (- 126) \<Longrightarrow> find_exponent n a = - 126"
proof (induction n)
  case 0
  show ?case by simp
next
  case (Suc n)
  have "(2::real) powi (- 126) \<le> 2 powi (int n - 125)"
    by (rule power_int_increasing) simp_all
  with Suc show ?case by simp
qed

lemma f32_exponent_eq:
  assumes "2 powi k \<le> \<bar>x\<bar>" "\<bar>x\<bar> < 2 powi (k + 1)" "- 126 \<le> k" "k \<le> 127"
  shows "f32_exponent x = k"
  unfolding f32_exponent_def using assms by (intro find_exponent_eq) simp_all

lemma f32_exponent_small: "\<bar>x\<bar> < 2 powi (- 126) \<Longrightarrow> f32_exponent x = - 126"
  unfolding f32_exponent_def by (rule find_exponent_small)

lemma f32_eval:
  assumes "2 powi k \<le> \<bar>x\<bar>" "\<bar>x\<bar> < 2 powi (k + 1)" "- 126 \<le> k" "k \<le> 127"
    and "\<bar>of_int (round_even (x / 2 powi (k - 23))) * 2 powi (k - 23)\<bar> < (2::real) powi 128"
  shows "f32 x = of_int (round_even (x / 2 powi (k - 23))) * 2 powi (k - 23)"
  using assms(5) by (simp add: f32_def f32_exponent_eq [OF assms(1-4)] Let_def)

lemma f32_exact:
  assumes x: "x = of_int m * 2 powi e" and m: "\<bar>m\<bar> < 16777216" and e: "- 149 \<le> e" "e \<le> 104"
  shows "f32 x = x"
proof -
  define k where "k = f32_exponent x"
  have range: "- 126 \<le> k" "k \<le> 127"
    using find_exponent_range [of 253 "\<bar>x\<bar>"] by (simp_all add: k_def f32_exponent_def)
  have found: "k = - 126 \<or> 2 powi k \<le> \<bar>x\<bar>"
    using find_exponent_found [of 253 "\<bar>x\<bar>"] by (auto simp: k_def f32_exponent_def)
  have ke: "k - 23 \<le> e"
  proof (cases "k = - 126")
    case True
    with e show ?thesis by simp
  next
    case False
    with found have "2 powi k \<le> \<bar>x\<bar>" by simp
    also have "\<bar>x\<bar> = of_int \<bar>m\<bar> * 2 powi e"
      by (simp add: x abs_mult)
    also have "\<dots> < 16777216 * 2 powi e"
      using m by (intro mult_strict_right_mono) simp_all
    also have "\<dots> = 2 powi (24 + e)"
      by (simp add: power_int_add)
    finally have "(2::real) powi k < 2 powi (24 + e)" .
    have "k < 24 + e"
    proof (rule ccontr)
      assume "\<not> k < 24 + e"
      then have "(2::real) powi (24 + e) \<le> 2 powi k"
        by (intro power_int_increasing) simp_all
      with \<open>(2::real) powi k < 2 powi (24 + e)\<close> show False by simp
    qed
    then show ?thesis by simp
  qed
  define d where "d = nat (e - (k - 23))"
  have "e = (k - 23) + int d"
    using ke by (simp add: d_def)
  then have xq: "x = of_int (m * 2 ^ d) * 2 powi (k - 23)"
    by (simp add: x power_int_add)
  then have q: "x / 2 powi (k - 23) = of_int (m * 2 ^ d)"
    by simp
  have "\<bar>x\<bar> = of_int \<bar>m\<bar> * 2 powi e"
    by (simp add: x abs_mult)
  also have "\<dots> < 16777216 * 2 powi e"
    using m by (intro mult_strict_right_mono) simp_all
  also have "\<dots> = 2 powi (24 + e)"
    by (simp add: power_int_add)
  also have "\<dots> \<le> 2 powi 128"
    using e by (intro power_int_increasing) simp_all
  finally have small: "\<bar>x\<bar> < 2 powi 128" .
  have "of_int (round_even (x / 2 powi (k - 23))) * 2 powi (k - 23) = x"
    unfolding q round_even_of_int using xq by simp
  with small show ?thesis
    unfolding f32_def k_def [symmetric] Let_def by simp
qed

lemma f32_of_int: "\<bar>m\<bar> < 16777216 \<Longrightarrow> f32 (of_int m) = of_int m"
  using f32_exact [of "of_int m" m 0] by simp

lemma f32_0 [simp]: "f32 0 = 0"
  using f32_of_int [of 0] by simp

lemma f32_1 [simp]: "f32 1 = 1"
  using f32_of_int [of 1] by simp

lemma f32_numeral: "numeral w < (16777216::int) \<Longrightarrow> f32 (numeral w) = numeral w"
  using f32_of_int [of "numeral w"] by simp

lemma f32_half [simp]: "f32 (1 / 2) = 1 / 2"
  by (rule f32_exact [of _ 1 "- 1"]) simp_all

lemma f32_underflow:
  assumes "\<bar>x\<bar> < 2 powi (- 150)"
  shows "f32 x = 0"
proof -
  have s: "(2::real) powi (- 150) \<le> 2 powi (- 126)"
    by (rule power_int_increasing) simp_all
  with assms have e: "f32_exponent x = - 126"
    by (intro f32_exponent_small) simp
  have q: "\<bar>x / 2 powi (- 149)\<bar> < 1 / 2"
  proof -
    have "\<bar>x / 2 powi (- 149)\<bar> = \<bar>x\<bar> * 2 powi 149"
      by (simp add: abs_divide power_int_minus field_simps)
    also have "\<dots> < 2 powi (- 150) * 2 powi 149"
      using assms by (intro mult_strict_right_mono) simp_all
    also have "\<dots> = 1 / 2"
      by (simp add: power_int_add [symmetric])
    finally show ?thesis .
  qed
  have "round_even (x / 2 powi (- 149)) = 0"
  proof -
    define y where "y = x / 2 powi (- 149)"
    from q have y: "- (1 / 2) < y" "y < 1 / 2" by (simp_all add: y_def abs_less_iff)
    have "\<lfloor>y\<rfloor> = 0 \<or> \<lfloor>y\<rfloor> = - 1"
      using y by (cases "0 \<le> y") (auto simp: floor_eq_iff)
    then show ?thesis
      unfolding y_def [symmetric] using y by (auto simp: round_even_def Let_def)
  qed
  then show ?thesis
    by (simp add: f32_def e Let_def)
qed

subsection \<open>The sample walk\<close>

lemma SampleList_Nil [simp]: "SampleList [] = []"
  by (subst SampleList.simps) (simp add: NextSample_def)

lemma SampleList_Cons: "SampleList (c # st) = samples_of c @ SampleList st"
proof (induction c arbitrary: st)
  case (LeafCluster c p n k m)
  show ?case
    by (subst SampleList.simps) (simp add: NextSample_def)
next
  case (InnerCluster c p n k m l r)
  have "SampleList (InnerCluster c p n k m l r # st) = SampleList (l # r # st)"
    by (subst SampleList.simps, subst (2) SampleList.simps) (simp add: NextSample_def)
  then show ?case
    by (simp add: InnerCluster.IH)
qed

lemma SampleList_InitSampleSearch: "SampleList (InitSampleSearch c) = samples_of c"
  by (simp add: InitSampleSearch_def SampleList_Cons)

subsection \<open>Merging\<close>

lemma set_Clustered_fields [simp]:
  "SampleCount (set_Clustered b c) = SampleCount c"
  "Mean (set_Clustered b c) = Mean c"
  "CharID (set_Clustered b c) = CharID c"
  "set_Clustered b (set_Clustered b' c) = set_Clustered b c"
  by (cases c; simp)+

lemma MakeNewCluster_cell:
  assumes "l < length (Cells t)" "r < length (Cells t)"
  shows "Cells (snd (MakeNewCluster Clusterer t l r)) ! fst (MakeNewCluster Clusterer t l r) =
     InnerCluster False False
       (SampleCount (Cells t ! l) + SampleCount (Cells t ! r)) (- 1)
       (map (\<lambda>i. MergeMean (ParamDesc Clusterer ! i)
                   (SampleCount (Cells t ! l)) (SampleCount (Cells t ! r))
                   (Mean (Cells t ! l) ! i) (Mean (Cells t ! r) ! i))
            [0..<SampleSize Clusterer])
       (set_Clustered True (Cells t ! l)) (set_Clustered True (Cells t ! r))"
  using assms
  by (simp add: MakeNewCluster_def MergeClusters_def Emalloc_cluster_def KDStore_def
      KDDelete_def Let_def nth_list_update nth_append)

lemma f32_sample: "f32 (11796479 / 32768) = 11796479 / 32768"
  by (rule f32_exact [of _ 11796479 "- 15"]) simp_all

lemma f32_neg_ulp: "f32 (- (1 / 32768)) = - (1 / 32768)"
  by (rule f32_exact [of _ "- 1" "- 15"]) simp_all

lemma f32_neg_half_ulp: "f32 (- (1 / 65536)) = - (1 / 65536)"
  by (rule f32_exact [of _ "- 1" "- 16"]) simp_all

lemma f32_neg_quarter_ulp: "f32 (- (1 / 131072)) = - (1 / 131072)"
  by (rule f32_exact [of _ "- 1" "- 17"]) simp_all

lemma f32_below_Max_tie: "f32 (23592959 / 65536) = 360"
  by (subst f32_eval [of 8]) (simp_all add: round_even_def)

lemma f32_below_Max: "f32 (47185919 / 131072) = 360"
  by (subst f32_eval [of 8]) (simp_all add: round_even_def)

lemma MergeMean_two: "MergeMean (DeriveParamDesc angle_desc) 1 1 0 (11796479 / 32768) = 360"
  by (simp add: MergeMean_def MergeAverage_def DeriveParamDesc_def angle_desc_def Let_def
      f32_sample f32_neg_ulp f32_neg_half_ulp f32_below_Max_tie f32_numeral)

lemma MergeMean_four: "MergeMean (DeriveParamDesc angle_desc) 3 1 0 (11796479 / 32768) = 360"
  by (simp add: MergeMean_def MergeAverage_def DeriveParamDesc_def angle_desc_def Let_def
      f32_sample f32_neg_ulp f32_neg_quarter_ulp f32_below_Max f32_numeral)

lemma angle_fields:
  "Circular (DeriveParamDesc angle_desc)"
  "Min_pd (DeriveParamDesc angle_desc) = 0"
  "Max_pd (DeriveParamDesc angle_desc) = 360"
  "Range_pd (DeriveParamDesc angle_desc) = 360"
  "HalfRange (DeriveParamDesc angle_desc) = 180"
  by (simp_all add: DeriveParamDesc_def angle_desc_def)

lemma two_sample_tree:
  "CreateClusterTree (angle_clusterer 0 (11796479 / 32768)) =
     Some ((angle_clusterer 0 (11796479 / 32768))
             \<lparr>Root := Some (InnerCluster False False 2 (- 1) [360]
                 (LeafCluster True False 1 0 [0])
                 (LeafCluster True False 1 1 [11796479 / 32768])),
              KDTree := None\<rparr>)"
  apply (simp add: CreateClusterTree_def angle_clusterer_def angle_index_def Let_def
      MakePotentialClusters_def FindNearestNeighbor_def HeapStore_def
      KDNearestNeighborSearch_def kd_distance_def kd_dim_distance_def MAX_FLOAT32_def
      angle_fields power2_eq_square)
  apply (subst CreateClusterTree_loop.simps)
  apply (simp add: GetTopOfHeap_def Let_def MakeNewCluster_def MergeClusters_def
      Emalloc_cluster_def KDStore_def KDDelete_def FindNearestNeighbor_def
      KDNearestNeighborSearch_def kd_distance_def kd_dim_distance_def MAX_FLOAT32_def
      HeapStore_def angle_fields MergeMean_two power2_eq_square)
  apply (subst CreateClusterTree_loop.simps)
  apply (simp add: GetTopOfHeap_def Let_def)
  apply (subst CreateClusterTree_loop.simps)
  apply (simp add: GetTopOfHeap_def RootOf_def)
  done

text \<open>
  C1 does not hold of the code.  The new cluster has the two counts added and holds the
  two old clusters (\<open>MakeNewCluster_cell\<close>), but its mean in a circular dimension can be
  the maximum of the dimension, where the comment in \<open>MergeClusters\<close> says that the mean
  is normalized back into the accepted range.  Two samples of one circular dimension
  \<open>[0, 360)\<close>, 0 and the largest \<open>FLOAT32\<close> below 360: the means are more than half a
  range apart, the mean with the upper one shifted down is \<open>-2\<^sup>-\<^sup>1\<^sup>6\<close>, and adding the range
  to it rounds to 360.  The same happens when a cluster of three samples with the mean 0
  is merged with that sample.
\<close>

theorem CreateClusterTree_mean_at_Max:
  "MakeSample (snd (MakeSample (MakeClusterer 1 [angle_desc]) [0] 0)) [11796479 / 32768] 1 =
     (Inr (LeafCluster False False 1 1 [11796479 / 32768]),
      angle_clusterer 0 (11796479 / 32768)) \<and>
   f32 (11796479 / 32768) = 11796479 / 32768 \<and>
   Circular (ParamDesc (angle_clusterer 0 (11796479 / 32768)) ! 0) \<and>
   Max_pd (ParamDesc (angle_clusterer 0 (11796479 / 32768)) ! 0) = 360 \<and>
   mean_in_range (ParamDesc (angle_clusterer 0 (11796479 / 32768)) ! 0) 0 \<and>
   mean_in_range (ParamDesc (angle_clusterer 0 (11796479 / 32768)) ! 0) (11796479 / 32768) \<and>
   map_option Root (CreateClusterTree (angle_clusterer 0 (11796479 / 32768))) =
     Some (Some (InnerCluster False False 2 (- 1) [360]
                   (LeafCluster True False 1 0 [0])
                   (LeafCluster True False 1 1 [11796479 / 32768]))) \<and>
   Mean (Cells (snd (MakeNewCluster (angle_clusterer 0 (11796479 / 32768))
                       (angle_index 0 (11796479 / 32768)) 0 1)) !
           fst (MakeNewCluster (angle_clusterer 0 (11796479 / 32768))
                  (angle_index 0 (11796479 / 32768)) 0 1)) ! 0 = 360 \<and>
   \<not> mean_in_range (ParamDesc (angle_clusterer 0 (11796479 / 32768)) ! 0) 360 \<and>
   MergeClusters 1 [DeriveParamDesc angle_desc] 3 1 [0] [11796479 / 32768] = (4, [360])"
proof -
  have l: "0 < length (Cells (angle_index 0 (11796479 / 32768)))"
    and r': "1 < length (Cells (angle_index 0 (11796479 / 32768)))"
    by (simp_all add: angle_index_def)
  have c: "Mean (Cells (snd (MakeNewCluster (angle_clusterer 0 (11796479 / 32768))
                       (angle_index 0 (11796479 / 32768)) 0 1)) !
           fst (MakeNewCluster (angle_clusterer 0 (11796479 / 32768))
                  (angle_index 0 (11796479 / 32768)) 0 1)) ! 0 = 360"
    unfolding MakeNewCluster_cell [OF l r']
    by (simp add: angle_clusterer_def angle_index_def MergeMean_two)
  have s: "MakeSample (snd (MakeSample (MakeClusterer 1 [angle_desc]) [0] 0))
      [11796479 / 32768] 1 =
     (Inr (LeafCluster False False 1 1 [11796479 / 32768]),
      angle_clusterer 0 (11796479 / 32768))"
    by (simp add: angle_clusterer_def MakeSample_def MakeClusterer_def MakeKDTree_def
        Emalloc_cluster_def KDStore_def Let_def angle_index_def)
  have r: "mean_in_range (ParamDesc (angle_clusterer 0 (11796479 / 32768)) ! 0) 0"
    "mean_in_range (ParamDesc (angle_clusterer 0 (11796479 / 32768)) ! 0) (11796479 / 32768)"
    "\<not> mean_in_range (ParamDesc (angle_clusterer 0 (11796479 / 32768)) ! 0) 360"
    "Circular (ParamDesc (angle_clusterer 0 (11796479 / 32768)) ! 0)"
    "Max_pd (ParamDesc (angle_clusterer 0 (11796479 / 32768)) ! 0) = 360"
    by (simp_all add: angle_clusterer_def mean_in_range_def angle_fields)
  have m: "MergeClusters 1 [DeriveParamDesc angle_desc] 3 1 [0] [11796479 / 32768] = (4, [360])"
    by (simp add: MergeClusters_def MergeMean_four)
  from s r m c show ?thesis
    by (simp add: two_sample_tree f32_sample)
qed

subsection \<open>The multi-character filter\<close>

lemma MultipleCharSamples_loop_walk:
  assumes "\<forall>s \<in> set ss. 0 \<le> CharID s \<and> CharID s < int (length flags)"
    and "\<forall>k < length flags. st (int k) = flag_state (flags ! k)"
    and "int (length ss) \<le> cc"
    and "(\<exists>k < length flags. flags ! k \<noteq> FALSE) \<longrightarrow> int (length ss) < cc"
  shows "MultipleCharSamples_loop mx flags cc ni ss =
           Some (char_walk mx st ni cc (map CharID ss))"
  using assms
proof (induction ss arbitrary: flags st cc ni)
  case Nil
  show ?case by simp
next
  case (Cons s rest)
  define k where "k = nat (CharID s)"
  from Cons.prems(1) have k: "k < length flags" and ck: "CharID s = int k"
    by (auto simp: k_def)
  have stk: "st (CharID s) = flag_state (flags ! k)"
    using Cons.prems(2) k ck by simp
  have ids: "\<forall>s \<in> set rest. 0 \<le> CharID s \<and> CharID s < int (length flags)"
    using Cons.prems(1) by simp
  consider (u) "flags ! k = 0" | (s) "flags ! k = Suc 0" | (i) n where "flags ! k = Suc (Suc n)"
    by (metis flag_state.cases)
  then show ?case
  proof cases
    case u
    have rel: "\<forall>j < length (flags[k := TRUE]). (st(CharID s := seen)) (int j) =
        flag_state ((flags[k := TRUE]) ! j)"
      using Cons.prems(2) ck by (simp add: nth_list_update TRUE_def)
    have inv: "int (length rest) \<le> cc" "(\<exists>j < length (flags[k := TRUE]).
        (flags[k := TRUE]) ! j \<noteq> FALSE) \<longrightarrow> int (length rest) < cc"
      using Cons.prems(3) by simp_all
    have "MultipleCharSamples_loop mx (flags[k := TRUE]) cc ni rest =
        Some (char_walk mx (st(CharID s := seen)) ni cc (map CharID rest))"
    proof (rule Cons.IH [OF _ rel inv])
      show "\<forall>s \<in> set rest. 0 \<le> CharID s \<and> CharID s < int (length (flags[k := TRUE]))"
        using ids by simp
    qed
    then show ?thesis
      using u stk k Cons.prems(1) by (simp add: k_def [symmetric] FALSE_def Let_def)
  next
    case s
    have lt: "int (length (s # rest)) < cc"
      using Cons.prems(4) k s by (auto simp: FALSE_def)
    then have nz: "cc - 1 \<noteq> 0" by simp
    have rel: "\<forall>j < length (flags[k := ILLEGAL_CHAR]). (st(CharID s := illegal)) (int j) =
        flag_state ((flags[k := ILLEGAL_CHAR]) ! j)"
      using Cons.prems(2) ck by (simp add: nth_list_update ILLEGAL_CHAR_def numeral_2_eq_2)
    have inv: "int (length rest) \<le> cc - 1" "(\<exists>j < length (flags[k := ILLEGAL_CHAR]).
        (flags[k := ILLEGAL_CHAR]) ! j \<noteq> FALSE) \<longrightarrow> int (length rest) < cc - 1"
      using lt by simp_all
    have "MultipleCharSamples_loop mx (flags[k := ILLEGAL_CHAR]) (cc - 1) (ni + 1) rest =
        Some (char_walk mx (st(CharID s := illegal)) (ni + 1) (cc - 1) (map CharID rest))"
    proof (rule Cons.IH [OF _ rel inv])
      show "\<forall>s \<in> set rest. 0 \<le> CharID s \<and> CharID s < int (length (flags[k := ILLEGAL_CHAR]))"
        using ids by simp
    qed
    then show ?thesis
      using s stk k nz Cons.prems(1)
      by (simp add: k_def [symmetric] FALSE_def TRUE_def Let_def percent_illegal_def)
  next
    case i
    have lt: "int (length (s # rest)) < cc"
      using Cons.prems(4) k i by (auto simp: FALSE_def)
    then have nz: "cc - 1 \<noteq> 0" by simp
    have inv: "int (length rest) \<le> cc - 1" "(\<exists>j < length flags.
        flags ! j \<noteq> FALSE) \<longrightarrow> int (length rest) < cc - 1"
      using lt by simp_all
    have "MultipleCharSamples_loop mx flags (cc - 1) ni rest =
        Some (char_walk mx st ni (cc - 1) (map CharID rest))"
      by (rule Cons.IH [OF ids Cons.prems(2) inv])
    then show ?thesis
      using i stk k nz Cons.prems(1)
      by (simp add: k_def [symmetric] FALSE_def TRUE_def Let_def percent_illegal_def)
  qed
qed

text \<open>
  C6 (amended).  For a cluster whose count is the number of its samples and whose
  character ids lie inside the flag array, \<open>MultipleCharSamples\<close> is the walk over
  the ids of its samples from left to right with a tri-state per id and the running
  denominator starting at the cluster's count: an unseen id becomes seen; a seen id
  becomes illegal, \<open>illegal_count\<close> goes up, \<open>char_count\<close> goes down and the ratio is
  tested; an id that is already illegal leaves \<open>illegal_count\<close> alone, but
  \<open>char_count\<close> still goes down and the ratio is tested.  The ratio is the quotient of
  the two counts in \<open>FLOAT32\<close>, rounded.  The result is true at the first test that
  exceeds \<open>max_illegal\<close> and false when the walk ends.
\<close>

theorem MultipleCharSamples_is_char_walk:
  assumes ids: "\<forall>s \<in> set (samples_of C). 0 \<le> CharID s \<and> CharID s < max NumFlags' (NumChar Clusterer)"
    and count: "SampleCount C = int (length (samples_of C))"
  shows "MultipleCharSamples NumFlags' Clusterer C max_illegal =
           Some (char_walk max_illegal (\<lambda>k. unseen) 0 (SampleCount C)
                   (map CharID (samples_of C)),
                 max NumFlags' (NumChar Clusterer))"
proof -
  define n where "n = max NumFlags' (NumChar Clusterer)"
  have n: "(if NumChar Clusterer > NumFlags' then NumChar Clusterer else NumFlags') = n"
    by (simp add: n_def max_def)
  have "MultipleCharSamples_loop max_illegal (replicate (nat n) FALSE) (SampleCount C) 0
          (samples_of C) =
        Some (char_walk max_illegal (\<lambda>k. unseen) 0 (SampleCount C) (map CharID (samples_of C)))"
  proof (rule MultipleCharSamples_loop_walk)
    show "\<forall>s \<in> set (samples_of C). 0 \<le> CharID s \<and> CharID s < int (length (replicate (nat n) FALSE))"
      using ids by (auto simp: n_def)
    show "\<forall>k < length (replicate (nat n) FALSE). unseen = flag_state (replicate (nat n) FALSE ! k)"
      by (simp add: FALSE_def)
    show "int (length (samples_of C)) \<le> SampleCount C" using count by simp
    show "(\<exists>k < length (replicate (nat n) FALSE). replicate (nat n) FALSE ! k \<noteq> FALSE) \<longrightarrow>
        int (length (samples_of C)) < SampleCount C"
      by auto
  qed
  then show ?thesis
    by (simp add: MultipleCharSamples_def n SampleList_InitSampleSearch Let_def n_def [symmetric])
qed

theorem MultipleCharSamples_is_char_walk_witness:
  "MultipleCharSamples 0 (id_clusterer 1 triple_cluster) triple_cluster (3 / 4) = Some (True, 1)"
proof -
  have ids: "\<forall>s \<in> set (samples_of triple_cluster).
      0 \<le> CharID s \<and> CharID s < max 0 (NumChar (id_clusterer 1 triple_cluster))"
    by (simp add: triple_cluster_def id_cluster_def id_sample_def id_clusterer_def)
  have count: "SampleCount triple_cluster = int (length (samples_of triple_cluster))"
    by (simp add: triple_cluster_def id_cluster_def id_sample_def)
  show ?thesis
    unfolding MultipleCharSamples_is_char_walk [OF ids count]
    by (simp add: triple_cluster_def id_cluster_def id_sample_def id_clusterer_def
        percent_illegal_def f32_numeral)
qed

lemma f32_quotients:
  "f32 (1 / 10) = 13421773 / 134217728"
  "f32 (2 / 9) = 14913081 / 67108864"
  "f32 (3 / 8) = 3 / 8"
  "f32 (4 / 7) = 9586981 / 16777216"
  "f32 (5 / 6) = 13981013 / 16777216"
proof -
  show "f32 (1 / 10) = 13421773 / 134217728"
    by (subst f32_eval [of "- 4"]) (simp_all add: round_even_def)
  show "f32 (2 / 9) = 14913081 / 67108864"
    by (subst f32_eval [of "- 3"]) (simp_all add: round_even_def)
  show "f32 (3 / 8) = 3 / 8"
    by (rule f32_exact [of _ 3 "- 3"]) simp_all
  show "f32 (4 / 7) = 9586981 / 16777216"
    by (subst f32_eval [of "- 1"]) (simp_all add: round_even_def)
  show "f32 (5 / 6) = 13981013 / 16777216"
    by (subst f32_eval [of "- 1"]) (simp_all add: round_even_def)
qed

text \<open>
  C6 as stated fails.  Three samples of one character with \<open>max_illegal = 3/4\<close>: the
  code answers true at the third sample (1 illegal character over a denominator of 1),
  the walk as written never tests there and answers false.  Ten samples, three of them
  of one character, with \<open>max_illegal = 3/16\<close>: the code answers false, a walk that
  counts every repeated sample as a new illegal one answers true (2 over 8).  Eleven
  samples, five characters with two samples each, and for \<open>max_illegal\<close> the \<open>FLOAT32\<close>
  nearest to 5/6, which is below 5/6: the quotient of 5 and 6 is rounded to that value,
  and the code answers false where a ratio of 5/6 exceeds \<open>max_illegal\<close>.
\<close>

theorem MultipleCharSamples_stated_counterexample:
  "MultipleCharSamples 0 (id_clusterer 1 triple_cluster) triple_cluster (3 / 4) = Some (True, 1) \<and>
   stated_char_walk (3 / 4) (\<lambda>k. unseen) 0 (SampleCount triple_cluster)
     (map CharID (samples_of triple_cluster)) = False \<and>
   MultipleCharSamples 0 (id_clusterer 8 ten_cluster) ten_cluster (3 / 16) = Some (False, 8) \<and>
   stated_char_walk_repeats (3 / 16) (\<lambda>k. unseen) 0 (SampleCount ten_cluster)
     (map CharID (samples_of ten_cluster)) = True \<and>
   f32 (5 / 6) = 13981013 / 16777216 \<and>
   MultipleCharSamples 0 (id_clusterer 6 eleven_cluster) eleven_cluster (13981013 / 16777216) =
     Some (False, 6) \<and>
   stated_char_walk (13981013 / 16777216) (\<lambda>k. unseen) 0 (SampleCount eleven_cluster)
     (map CharID (samples_of eleven_cluster)) = True \<and>
   stated_char_walk_repeats (13981013 / 16777216) (\<lambda>k. unseen) 0 (SampleCount eleven_cluster)
     (map CharID (samples_of eleven_cluster)) = True"
proof -
  have a: "MultipleCharSamples 0 (id_clusterer 1 triple_cluster) triple_cluster (3 / 4) =
      Some (True, 1)"
    by (simp add: MultipleCharSamples_def SampleList_InitSampleSearch Let_def
        triple_cluster_def id_cluster_def id_sample_def id_clusterer_def
        FALSE_def TRUE_def ILLEGAL_CHAR_def f32_numeral)
  have b: "stated_char_walk (3 / 4) (\<lambda>k. unseen) 0 (SampleCount triple_cluster)
     (map CharID (samples_of triple_cluster)) = False"
    by (simp add: triple_cluster_def id_cluster_def id_sample_def)
  have f: "f32 (1 / 9) = 14913081 / 134217728" "f32 (1 / 8) = 1 / 8"
  proof -
    show "f32 (1 / 9) = 14913081 / 134217728"
      by (subst f32_eval [of "- 4"]) (simp_all add: round_even_def)
    show "f32 (1 / 8) = 1 / 8"
      by (rule f32_exact [of _ 1 "- 3"]) simp_all
  qed
  have c: "MultipleCharSamples 0 (id_clusterer 8 ten_cluster) ten_cluster (3 / 16) =
      Some (False, 8)"
    by (simp add: MultipleCharSamples_def SampleList_InitSampleSearch Let_def
        ten_cluster_def id_cluster_def id_sample_def id_clusterer_def
        FALSE_def TRUE_def ILLEGAL_CHAR_def f32_numeral f)
  have d: "stated_char_walk_repeats (3 / 16) (\<lambda>k. unseen) 0 (SampleCount ten_cluster)
     (map CharID (samples_of ten_cluster)) = True"
    by (simp add: ten_cluster_def id_cluster_def id_sample_def)
  have e: "MultipleCharSamples 0 (id_clusterer 6 eleven_cluster) eleven_cluster
      (13981013 / 16777216) = Some (False, 6)"
    by (simp add: MultipleCharSamples_def SampleList_InitSampleSearch Let_def
        eleven_cluster_def id_cluster_def id_sample_def id_clusterer_def
        FALSE_def TRUE_def ILLEGAL_CHAR_def f32_numeral f32_quotients)
  have g: "stated_char_walk (13981013 / 16777216) (\<lambda>k. unseen) 0 (SampleCount eleven_cluster)
     (map CharID (samples_of eleven_cluster)) = True"
    by (simp add: eleven_cluster_def id_cluster_def id_sample_def)
  have h: "stated_char_walk_repeats (13981013 / 16777216) (\<lambda>k. unseen) 0
     (SampleCount eleven_cluster) (map CharID (samples_of eleven_cluster)) = True"
    by (simp add: eleven_cluster_def id_cluster_def id_sample_def)
  from a b c d e g h f32_quotients(5) show ?thesis
    by (intro conjI)
qed
subsection \<open>Standard deviation of a prototype\<close>

lemma mixed_proto_NewMixedProto: "mixed_proto N (NewMixedProto N C st)"
  by (simp add: mixed_proto_def NewMixedProto_def NewEllipticalProto_def NewSimpleProto_def
      Let_def)

lemma MakeDimRandom_mixed_proto:
  assumes "mixed_proto N P" "d < N"
  shows "\<exists>P1. MakeDimRandom d P pd = Some P1 \<and> mixed_proto N P1 \<and>
           StandardDeviation P1 d = Some (HalfRange pd)"
  using assms
  by (auto simp: mixed_proto_def MakeDimRandom_def StandardDeviation_def Elliptical_nth_def
      Elliptical_update_def Let_def split: option.splits FLOATUNION.splits)

lemma MakeDimUniform_mixed_proto:
  assumes "mixed_proto N P" "d < N"
  shows "\<exists>P2. MakeDimUniform d P st = Some P2 \<and> mixed_proto N P2 \<and>
           StandardDeviation P2 d =
             Some (let half = f32 (f32 (Max_st st ! d - Min_st st ! d) / 2)
                   in if half < MINVARIANCE then f32 MINVARIANCE else half)"
  using assms
  by (auto simp: mixed_proto_def MakeDimUniform_def StandardDeviation_def Elliptical_nth_def
      Elliptical_update_def Let_def split: option.splits FLOATUNION.splits)

text \<open>
  C9.  For a mixed prototype, \<open>StandardDeviation\<close> in a dimension whose distribution
  is uniform or random is the stored per-dimension variance itself; in a normal
  dimension of a mixed prototype, for an elliptical prototype and for a spherical
  prototype it is the square root of the stored variance, as a \<open>FLOAT32\<close>.  On a mixed
  prototype as \<open>NewMixedProto\<close> makes it and as these two routines leave it,
  \<open>MakeDimRandom\<close> stores the half range of the dimension, and \<open>MakeDimUniform\<close> stores
  half the extent of the samples, floored at \<open>MINVARIANCE\<close>; that is what
  \<open>StandardDeviation\<close> returns for the dimension afterwards.
\<close>

theorem StandardDeviation_by_distribution:
  "(Style P = mixed \<and> Distrib P = Some ds \<and> d < length ds \<and>
      Variance P = Elliptical vs \<and> d < length vs \<longrightarrow>
      StandardDeviation P d =
        Some (if ds ! d = uniform \<or> ds ! d = D_random then vs ! d
              else f32 (sqrt (vs ! d)))) \<and>
   (Style P = elliptical \<and> Variance P = Elliptical vs \<and> d < length vs \<longrightarrow>
      StandardDeviation P d = Some (f32 (sqrt (vs ! d)))) \<and>
   (Style P = spherical \<and> Variance P = Spherical v \<longrightarrow>
      StandardDeviation P d = Some (f32 (sqrt v))) \<and>
   mixed_proto N (NewMixedProto N C st) \<and>
   (mixed_proto N P \<and> d < N \<longrightarrow>
      (\<exists>P1. MakeDimRandom d P pd = Some P1 \<and> mixed_proto N P1 \<and>
         StandardDeviation P1 d = Some (HalfRange pd))) \<and>
   (mixed_proto N P \<and> d < N \<longrightarrow>
      (\<exists>P2. MakeDimUniform d P st = Some P2 \<and> mixed_proto N P2 \<and>
         StandardDeviation P2 d =
           Some (let half = f32 (f32 (Max_st st ! d - Min_st st ! d) / 2)
                 in if half < MINVARIANCE then f32 MINVARIANCE else half)))"
proof (intro conjI impI)
  assume "Style P = mixed \<and> Distrib P = Some ds \<and> d < length ds \<and>
      Variance P = Elliptical vs \<and> d < length vs"
  then show "StandardDeviation P d =
      Some (if ds ! d = uniform \<or> ds ! d = D_random then vs ! d else f32 (sqrt (vs ! d)))"
    by (cases "ds ! d") (simp_all add: StandardDeviation_def Elliptical_nth_def)
next
  assume "Style P = elliptical \<and> Variance P = Elliptical vs \<and> d < length vs"
  then show "StandardDeviation P d = Some (f32 (sqrt (vs ! d)))"
    by (simp add: StandardDeviation_def Elliptical_nth_def)
next
  assume "Style P = spherical \<and> Variance P = Spherical v"
  then show "StandardDeviation P d = Some (f32 (sqrt v))"
    by (simp add: StandardDeviation_def)
next
  show "mixed_proto N (NewMixedProto N C st)"
    by (rule mixed_proto_NewMixedProto)
next
  assume "mixed_proto N P \<and> d < N"
  then show "\<exists>P1. MakeDimRandom d P pd = Some P1 \<and> mixed_proto N P1 \<and>
      StandardDeviation P1 d = Some (HalfRange pd)"
    by (intro MakeDimRandom_mixed_proto) simp_all
next
  assume "mixed_proto N P \<and> d < N"
  then show "\<exists>P2. MakeDimUniform d P st = Some P2 \<and> mixed_proto N P2 \<and>
      StandardDeviation P2 d =
        Some (let half = f32 (f32 (Max_st st ! d - Min_st st ! d) / 2)
              in if half < MINVARIANCE then f32 MINVARIANCE else half)"
    by (intro MakeDimUniform_mixed_proto) simp_all
qed

theorem StandardDeviation_by_distribution_witness:
  "StandardDeviation (one_dim_proto D_random (1 / 2)) 0 = Some (1 / 2) \<and>
   StandardDeviation (one_dim_proto uniform 4) 0 = Some 4 \<and>
   StandardDeviation (one_dim_proto normal 4) 0 = Some 2 \<and>
   (\<exists>P1 P2.
      MakeDimRandom 0 (NewMixedProto 1 wide_pair wide_stats) line_desc = Some P1 \<and>
      StandardDeviation P1 0 = Some 2 \<and>
      MakeDimUniform 0 P1 wide_stats = Some P2 \<and>
      StandardDeviation P2 0 = Some 4)"
proof -
  note t = StandardDeviation_by_distribution
  have a: "Style (one_dim_proto D_random (1 / 2)) = mixed \<and>
      Distrib (one_dim_proto D_random (1 / 2)) = Some [D_random] \<and> 0 < length [D_random] \<and>
      Variance (one_dim_proto D_random (1 / 2)) = Elliptical [1 / 2] \<and> 0 < length [1 / 2 :: real]"
    by (simp add: one_dim_proto_def)
  have u: "Style (one_dim_proto uniform 4) = mixed \<and>
      Distrib (one_dim_proto uniform 4) = Some [uniform] \<and> 0 < length [uniform] \<and>
      Variance (one_dim_proto uniform 4) = Elliptical [4] \<and> 0 < length [4 :: real]"
    by (simp add: one_dim_proto_def)
  have b: "Style (one_dim_proto normal 4) = mixed \<and>
      Distrib (one_dim_proto normal 4) = Some [normal] \<and> 0 < length [normal] \<and>
      Variance (one_dim_proto normal 4) = Elliptical [4] \<and> 0 < length [4 :: real]"
    by (simp add: one_dim_proto_def)
  have r: "StandardDeviation (one_dim_proto D_random (1 / 2)) 0 = Some (1 / 2)"
    using t [of "one_dim_proto D_random (1 / 2)" "[D_random]" 0 "[1 / 2]"] a by simp
  have un: "StandardDeviation (one_dim_proto uniform 4) 0 = Some 4"
    using t [of "one_dim_proto uniform 4" "[uniform]" 0 "[4]"] u by simp
  have "sqrt 4 = (2::real)"
    using real_sqrt_abs [of 2] by simp
  then have n: "StandardDeviation (one_dim_proto normal 4) 0 = Some 2"
    using t [of "one_dim_proto normal 4" "[normal]" 0 "[4]"] b by (simp add: f32_numeral)
  note mk = t [THEN conjunct2, THEN conjunct2, THEN conjunct2, THEN conjunct1]
  note rd = t [THEN conjunct2, THEN conjunct2, THEN conjunct2, THEN conjunct2,
      THEN conjunct1, rule_format]
  note ud = t [THEN conjunct2, THEN conjunct2, THEN conjunct2, THEN conjunct2,
      THEN conjunct2, rule_format]
  have m: "mixed_proto 1 (NewMixedProto 1 wide_pair wide_stats)"
    by (rule mk)
  obtain P1 where p1: "MakeDimRandom 0 (NewMixedProto 1 wide_pair wide_stats) line_desc = Some P1"
    "mixed_proto 1 P1" "StandardDeviation P1 0 = Some (HalfRange line_desc)"
    using rd [where N = 1 and P = "NewMixedProto 1 wide_pair wide_stats" and d = 0
        and pd = line_desc] m by auto
  obtain P2 where p2: "MakeDimUniform 0 P1 wide_stats = Some P2"
    "StandardDeviation P2 0 =
       Some (let half = f32 (f32 (Max_st wide_stats ! 0 - Min_st wide_stats ! 0) / 2)
             in if half < MINVARIANCE then f32 MINVARIANCE else half)"
    using ud [where N = 1 and P = P1 and d = 0 and st = wide_stats] p1(2) by auto
  have h: "HalfRange line_desc = 2" by (simp add: line_desc_def)
  have e: "(let half = f32 (f32 (Max_st wide_stats ! 0 - Min_st wide_stats ! 0) / 2)
            in if half < MINVARIANCE then f32 MINVARIANCE else half) = 4"
    by (simp add: wide_stats_def f32_numeral MINVARIANCE_def)
  from r un n p1 p2 h e show ?thesis by auto
qed
subsection \<open>Statistics\<close>

lemma ComputeStatistics_step_fields:
  "AvgVariance (ComputeStatistics_step N d st) = AvgVariance st"
  "length (CoVariance (ComputeStatistics_step N d st)) = N * N"
  "k < N * N \<Longrightarrow> CoVariance (ComputeStatistics_step N d st) ! k =
     f32 (CoVariance st ! k + f32 (d ! (k div N) * d ! (k mod N)))"
  by (simp_all add: ComputeStatistics_step_def)

lemma fold_ComputeStatistics_step:
  "AvgVariance (fold (\<lambda>s. ComputeStatistics_step N (D s)) ss st) = AvgVariance st"
  "length (CoVariance st) = N * N \<Longrightarrow>
     length (CoVariance (fold (\<lambda>s. ComputeStatistics_step N (D s)) ss st)) = N * N"
  "k < N * N \<Longrightarrow>
     CoVariance (fold (\<lambda>s. ComputeStatistics_step N (D s)) ss st) ! k =
       fold (\<lambda>s a. f32 (a + f32 (D s ! (k div N) * D s ! (k mod N)))) ss (CoVariance st ! k)"
  by (induction ss arbitrary: st) (simp_all add: ComputeStatistics_step_fields)

lemma flat_index:
  assumes "j < (N::nat)"
  shows "(i * N + j) div N = i" "(i * N + j) mod N = j"
  using assms by simp_all

lemma flat_index_less:
  assumes "i < (N::nat)" "j < N"
  shows "i * N + j < N * N"
proof -
  have "i * N + j < i * N + N" using assms by simp
  also have "\<dots> = (i + 1) * N" by simp
  also have "\<dots> \<le> N * N" using assms by (intro mult_le_mono1) simp
  finally show ?thesis .
qed

lemma f32_sum_map: "f32_sum (map f xs) = fold (\<lambda>s a. f32 (a + f s)) xs 0"
  by (simp add: f32_sum_def fold_map comp_def)

lemma f32_product_map: "f32_product (map f xs) = fold (\<lambda>i a. f32 (a * f i)) xs 1"
  by (simp add: f32_product_def fold_map comp_def)

lemma SampleDistance_deviation: "SampleDistance pd x m = deviation pd x m"
  by (simp add: SampleDistance_def deviation_def wrap_corrected_def Let_def)

lemma CoVariance_ComputeStatistics:
  assumes "i < N" "j < N"
  shows "CoVariance (ComputeStatistics N pds C) ! (i * N + j) = covariance_entry pds C i j"
proof -
  have k: "i * N + j < N * N" using assms by (rule flat_index_less)
  have adj: "(if SampleCount C > 1 then SampleCount C - 1 else 1) = max 1 (SampleCount C - 1)"
    by (simp add: max_def)
  have d: "Distance_of N pds C s ! i * Distance_of N pds C s ! j =
      deviation (pds ! i) (Mean s ! i) (Mean C ! i) *
      deviation (pds ! j) (Mean s ! j) (Mean C ! j)" for s
    using assms by (simp add: Distance_of_def SampleDistance_deviation)
  show ?thesis
    using k assms
    by (simp add: ComputeStatistics_def Let_def SampleList_InitSampleSearch adj
        fold_ComputeStatistics_step flat_index d covariance_entry_def f32_sum_map)
qed

lemma AvgVariance_ComputeStatistics:
  "AvgVariance (ComputeStatistics N pds C) =
     f32 (f32_product (map (\<lambda>i. CoVariance (ComputeStatistics N pds C) ! (i * N + i)) [0..<N])
            powr (1 / of_nat N))"
  by (simp add: ComputeStatistics_def Let_def fold_ComputeStatistics_step f32_product_map
      pow_def)


lemma f32_minus_1 [simp]: "f32 (- 1) = - 1"
  using f32_of_int [of "- 1"] by simp






subsection \<open>The number of buckets\<close>

lemma OptimumNumberOfBuckets_bounds:
  "MINBUCKETS \<le> OptimumNumberOfBuckets n \<and> OptimumNumberOfBuckets n \<le> MAXBUCKETS"
proof -
  have upt: "[0..<LOOKUPTABLESIZE - 1] = [0, 1, 2, 3, 4, 5, 6]"
    by (simp add: LOOKUPTABLESIZE_def upt_rec)
  show ?thesis
    unfolding OptimumNumberOfBuckets_def upt
    by (simp add: CountTable_def BucketsTable_def MINSAMPLES_def MINBUCKETS_def
        MINSAMPLESPERBUCKET_def MAXBUCKETS_def LOOKUPTABLESIZE_def Let_def
        le_nat_iff nat_le_iff le_floor_iff floor_le_iff)
qed

subsection \<open>The mapping table\<close>

lemma to_UINT16_small: "0 \<le> x \<Longrightarrow> x < 65536 \<Longrightarrow> to_UINT16 x = nat x"
  by (simp add: to_UINT16_def)

lemma list_update_bounded:
  assumes "\<forall>t < length xs. xs ! t < (n::nat)" "y < n" "t < length xs"
  shows "xs[i := y] ! t < n"
  using assms by (cases "i < length xs") (simp_all add: nth_list_update)

lemma MakeBuckets_step_invariant:
  assumes "table_invariant n v"
  shows "table_invariant n (MakeBuckets_step d n k p i v)"
proof -
  define c where "c = (if Probability v + Integral (LastProbDensity v)
        (DensityFunction d (int i + 1)) 1 > NextBucketBoundary v \<and>
        int (CurrentBucket v) < int n - 1
      then CurrentBucket v + 1 else CurrentBucket v)"
  have c: "c < n"
    using assms by (auto simp: c_def table_invariant_def)
  have "\<forall>t < BUCKETTABLESIZE. (Bucket_l v)[i := c] ! t < n"
    using assms c list_update_bounded [of "Bucket_l v" n c _ i]
    by (simp add: table_invariant_def)
  then show ?thesis
    using assms c
    by (simp add: table_invariant_def MakeBuckets_step_def Let_def c_def [symmetric])
qed

lemma MakeBuckets_fold_invariant:
  assumes "table_invariant n v"
  shows "table_invariant n (fold (MakeBuckets_step d n k p) is v)"
  using assms
  by (induction "is" arbitrary: v) (simp_all add: MakeBuckets_step_invariant)

lemma MakeBuckets_fill_table:
  assumes n: "0 < n" "n \<le> MAXBUCKETS"
  shows "length (fst (MakeBuckets_fill d n k)) = BUCKETTABLESIZE"
    and "length (snd (MakeBuckets_fill d n k)) = n"
    and "t < BUCKETTABLESIZE \<Longrightarrow> fst (MakeBuckets_fill d n k) ! t < n"
proof -
  define init where "init =
     \<lparr>Probability = 0,
      NextBucketBoundary = (if odd n then 1 / real n / 2 else 1 / real n),
      CurrentBucket = n div 2,
      LastProbDensity = DensityFunction d (int (BUCKETTABLESIZE div 2)),
      Bucket_l = replicate BUCKETTABLESIZE 0,
      ExpectedCount_l = replicate n (0::real)\<rparr>"
  define v where "v = fold (MakeBuckets_step d n k (1 / real n))
      [BUCKETTABLESIZE div 2..<BUCKETTABLESIZE] init"
  have "table_invariant n init"
    using n by (simp add: table_invariant_def init_def)
  then have inv: "table_invariant n v"
    unfolding v_def by (rule MakeBuckets_fold_invariant)
  have fst_eq: "fst (MakeBuckets_fill d n k) =
      map (\<lambda>i. if 2 * i < BUCKETTABLESIZE - 1
                then to_UINT16 (Mirror (Bucket_l v ! (BUCKETTABLESIZE - 1 - i)) n)
                else Bucket_l v ! i) [0..<BUCKETTABLESIZE]"
    by (simp add: MakeBuckets_fill_def Let_def v_def init_def)
  show "length (fst (MakeBuckets_fill d n k)) = BUCKETTABLESIZE"
    by (simp add: fst_eq)
  show "length (snd (MakeBuckets_fill d n k)) = n"
    by (simp add: MakeBuckets_fill_def Let_def)
  show "fst (MakeBuckets_fill d n k) ! t < n" if t: "t < BUCKETTABLESIZE"
  proof (cases "2 * t < BUCKETTABLESIZE - 1")
    case True
    define b where "b = Bucket_l v ! (BUCKETTABLESIZE - 1 - t)"
    have b: "b < n"
      using inv t by (simp add: table_invariant_def b_def)
    have "Mirror b n = int (n - 1 - b)"
      using b by (simp add: Mirror_def)
    moreover have "int (n - 1 - b) < 65536"
      using n by (simp add: MAXBUCKETS_def)
    ultimately have "to_UINT16 (Mirror b n) = n - 1 - b"
      by (simp add: to_UINT16_small)
    then show ?thesis
      using True t b by (simp add: fst_eq b_def)
  next
    case False
    then show ?thesis
      using inv t by (simp add: fst_eq table_invariant_def)
  qed
qed

lemma MakeBuckets_in_range:
  assumes "MakeBuckets g d n conf = Some (b, g')"
  shows "buckets_in_range b"
proof -
  let ?n = "OptimumNumberOfBuckets n"
  have n: "0 < ?n" "?n \<le> MAXBUCKETS"
    using OptimumNumberOfBuckets_bounds [of n] by (simp_all add: MINBUCKETS_def)
  from assms obtain chi where b: "b =
      \<lparr>Distribution = d, SampleCount_b = n, Confidence_b = conf, ChiSquared_b = chi,
       NumberOfBuckets = ?n, Bucket = fst (MakeBuckets_fill d ?n n),
       Count = replicate ?n 0, ExpectedCount = snd (MakeBuckets_fill d ?n n)\<rparr>"
    by (auto simp: MakeBuckets_def Let_def split: option.splits)
  show ?thesis
    using n MakeBuckets_fill_table [OF n, where d = d and k = n]
    by (simp add: buckets_in_range_def b)
qed

subsection \<open>Filling the buckets\<close>

lemma clipped_index_less:
  "(if X < 0 then 0
    else if X > real (BUCKETTABLESIZE - 1) then BUCKETTABLESIZE - 1
    else nat \<lfloor>X\<rfloor>) < BUCKETTABLESIZE"
proof -
  have "nat \<lfloor>X\<rfloor> < 1024" if "\<not> X < 0" "\<not> X > 1023"
  proof -
    from that have "X < 1024" by simp
    then have "\<lfloor>X\<rfloor> < 1024" by (simp only: floor_less_iff of_int_numeral)
    then show ?thesis by arith
  qed
  then show ?thesis
    by (simp add: BUCKETTABLESIZE_def)
qed

lemma NormalBucket_less: "NormalBucket pd x m s < BUCKETTABLESIZE"
  unfolding NormalBucket_def Let_def by (rule clipped_index_less)

lemma UniformBucket_less: "UniformBucket pd x m s < BUCKETTABLESIZE"
  unfolding UniformBucket_def Let_def by (rule clipped_index_less)

lemma FillBuckets_pseudo_Some:
  assumes "length cs = n" "i < n" "n \<le> MAXBUCKETS"
  shows "\<exists>cs1. FillBuckets_pseudo n Dim m cs i ss = Some cs1 \<and> length cs1 = n"
  using assms
proof (induction ss arbitrary: cs i)
  case Nil
  then show ?case by simp
next
  case (Cons s rest)
  have last: "to_UINT16 (int n - 1) < n"
    using Cons.prems by (simp add: to_UINT16_def MAXBUCKETS_def)
  define b where "b = (if Mean s ! Dim > m then to_UINT16 (int n - 1)
      else if Mean s ! Dim < m then 0 else i)"
  have b: "b < length cs"
    using Cons.prems last by (simp add: b_def)
  have next_i: "(if i + 1 \<ge> n then 0 else i + 1) < n"
    using Cons.prems by simp
  have "\<exists>cs1. FillBuckets_pseudo n Dim m (cs[b := cs ! b + 1])
      (if i + 1 \<ge> n then 0 else i + 1) rest = Some cs1 \<and> length cs1 = n"
    by (rule Cons.IH) (use Cons.prems next_i in simp_all)
  then show ?case
    using b by (simp add: Count_increment_def b_def [symmetric] Let_def)
qed

lemma FillBuckets_loop_Some:
  assumes "buckets_in_range b" "length cs = NumberOfBuckets b"
  shows "\<exists>cs1. FillBuckets_loop b Dim pd m sd cs ss = Some cs1 \<and>
           length cs1 = NumberOfBuckets b"
  using assms(2)
proof (induction ss arbitrary: cs)
  case Nil
  then show ?case by simp
next
  case (Cons s rest)
  define t where "t = (case Distribution b of
       normal \<Rightarrow> NormalBucket pd (Mean s ! Dim) m sd
     | D_random \<Rightarrow> UniformBucket pd (Mean s ! Dim) m sd
     | uniform \<Rightarrow> UniformBucket pd (Mean s ! Dim) m sd)"
  have t: "t < BUCKETTABLESIZE"
    by (cases "Distribution b") (simp_all add: t_def NormalBucket_less UniformBucket_less)
  then have tl: "t < length (Bucket b)" and c: "Bucket b ! t < length cs"
    using assms(1) Cons.prems by (simp_all add: buckets_in_range_def)
  have "\<exists>cs1. FillBuckets_loop b Dim pd m sd (cs[Bucket b ! t := cs ! (Bucket b ! t) + 1]) rest =
      Some cs1 \<and> length cs1 = NumberOfBuckets b"
    by (rule Cons.IH) (use Cons.prems in simp)
  then show ?case
    using tl c by (simp add: Count_increment_def t_def [symmetric] Let_def)
qed

lemma FillBuckets_in_range:
  assumes "buckets_in_range b"
  shows "\<exists>b1. FillBuckets b C Dim pd m sd = Some b1 \<and> buckets_in_range b1 \<and>
           b1 = b\<lparr>Count := Count b1\<rparr>"
proof -
  let ?n = "NumberOfBuckets b"
  let ?cs = "zero_counts ?n (Count b)"
  have len: "length ?cs = ?n"
    using assms by (simp add: zero_counts_def buckets_in_range_def)
  have n: "0 < ?n" "?n \<le> MAXBUCKETS"
    using assms by (simp_all add: buckets_in_range_def)
  obtain cs1 where cs1: "(if sd = 0
      then FillBuckets_pseudo ?n Dim m ?cs 0 (SampleList (InitSampleSearch C))
      else FillBuckets_loop b Dim pd m sd ?cs (SampleList (InitSampleSearch C))) = Some cs1"
    and l1: "length cs1 = ?n"
    using FillBuckets_pseudo_Some [OF len n(1) n(2)] FillBuckets_loop_Some [OF assms len]
    by (cases "sd = 0") (simp, blast, simp, blast)
  have "FillBuckets b C Dim pd m sd = Some (b\<lparr>Count := cs1\<rparr>)"
    using cs1 by (simp add: FillBuckets_def Let_def)
  moreover have "buckets_in_range (b\<lparr>Count := cs1\<rparr>)"
    using assms l1 by (simp add: buckets_in_range_def)
  ultimately show ?thesis by simp
qed

text \<open>
  C10.  In a bucket structure that \<open>MakeBuckets\<close> produces, every entry of the mapping
  table is a cell of the histogram; \<open>NormalBucket\<close> and \<open>UniformBucket\<close> return an index
  into the table; so \<open>FillBuckets\<close> never counts outside the cells: it has a result,
  for every cluster, dimension, mean and standard deviation.
\<close>

theorem MakeBuckets_table_in_range:
  assumes "MakeBuckets g d n conf = Some (b, g')"
  shows "(\<forall>t < BUCKETTABLESIZE. Bucket b ! t < NumberOfBuckets b) \<and>
         length (Bucket b) = BUCKETTABLESIZE \<and>
         length (Count b) = NumberOfBuckets b \<and>
         NormalBucket pd x m sd < BUCKETTABLESIZE \<and>
         UniformBucket pd x m sd < BUCKETTABLESIZE \<and>
         FillBuckets b C Dim pd m sd \<noteq> None"
proof -
  have r: "buckets_in_range b"
    using assms by (rule MakeBuckets_in_range)
  then have "FillBuckets b C Dim pd m sd \<noteq> None"
    using FillBuckets_in_range [OF r, of C Dim pd m sd] by auto
  with r show ?thesis
    by (simp add: buckets_in_range_def NormalBucket_less UniformBucket_less)
qed

theorem MakeBuckets_table_in_range_witness:
  "\<exists>b. MakeBuckets chi_cached normal 10 (1 / 20) = Some (b, chi_cached) \<and>
       NumberOfBuckets b = 5 \<and>
       Bucket b ! 700 < 5 \<and>
       FillBuckets b pair_cluster 0 line_desc 1 1 \<noteq> None"
proof -
  have n: "OptimumNumberOfBuckets 10 = 5"
    by (simp add: OptimumNumberOfBuckets_def CountTable_def BucketsTable_def MINSAMPLES_def
        MINBUCKETS_def MINSAMPLESPERBUCKET_def)
  have dof: "DegreesOfFreedom normal 5 = 2"
    by (simp add: DegreesOfFreedom_def DegreeOffsets_def)
  have chi: "ComputeChiSquared (ChiWith chi_cached) 2 (1 / 20) = Some (599 / 100, ChiWith chi_cached)"
    by (simp add: ComputeChiSquared_def chi_cached_def MINALPHA_def MAXDEGREESOFFREEDOM_def
        MAXBUCKETS_def Let_def)
  obtain b where b: "MakeBuckets chi_cached normal 10 (1 / 20) = Some (b, chi_cached)"
    and nb: "NumberOfBuckets b = 5"
    by (simp add: MakeBuckets_def n dof chi Let_def)
  have t: "(700::nat) < BUCKETTABLESIZE" by (simp add: BUCKETTABLESIZE_def)
  from MakeBuckets_table_in_range [OF b, of line_desc 0 1 1 pair_cluster 0] t nb
  have "Bucket b ! 700 < 5 \<and> FillBuckets b pair_cluster 0 line_desc 1 1 \<noteq> None"
    by auto
  with b nb show ?thesis by blast
qed

subsection \<open>Filling buckets with a standard deviation of zero\<close>

text \<open>
  C8 does not hold of the code.  The counter that numbers the bucket of a sample on
  the mean is advanced after every sample, also after one that is off the mean.  Six
  samples with the values 1, 0, 2, 0, 2, 1 in the first dimension and one value in the
  second: the average variance is zero, so \<open>MakeSphericalProto\<close> fills the buckets of
  the first dimension with the mean 1 and a standard deviation of zero.  The two samples
  on the mean are the first and the sixth of the walk, and both are counted in bucket
  0 of the five, where a round-robin over the samples on the mean counts the second
  of them in bucket 1 (counts 3, 1, 0, 0, 2).
\<close>

theorem FillBuckets_zero_stddev_example:
  "MakeBuckets chi_cached normal 6 (1 / 20) = Some (six_sample_buckets, chi_cached) \<and>
   map (\<lambda>s. Mean s ! 0) (SampleList (InitSampleSearch spread_cluster)) = [1, 0, 2, 0, 2, 1] \<and>
   Mean spread_cluster ! 0 = 1 \<and>
   sqrt (AvgVariance (ComputeStatistics 2 [line_desc, line_desc] spread_cluster)) = 0 \<and>
   FillBuckets six_sample_buckets spread_cluster 0 line_desc (Mean spread_cluster ! 0)
       (sqrt (AvgVariance (ComputeStatistics 2 [line_desc, line_desc] spread_cluster))) =
     Some (six_sample_buckets\<lparr>Count := [4, 0, 0, 0, 2]\<rparr>)"
proof -
  have n: "OptimumNumberOfBuckets 6 = 5"
    by (simp add: OptimumNumberOfBuckets_def CountTable_def BucketsTable_def MINSAMPLES_def
        MINBUCKETS_def MINSAMPLESPERBUCKET_def)
  have dof: "DegreesOfFreedom normal 5 = 2"
    by (simp add: DegreesOfFreedom_def DegreeOffsets_def)
  have chi: "ComputeChiSquared (ChiWith chi_cached) 2 (1 / 20) = Some (599 / 100, ChiWith chi_cached)"
    by (simp add: ComputeChiSquared_def chi_cached_def MINALPHA_def MAXDEGREESOFFREEDOM_def
        MAXBUCKETS_def Let_def)
  have mk: "MakeBuckets chi_cached normal 6 (1 / 20) = Some (six_sample_buckets, chi_cached)"
    by (simp add: MakeBuckets_def n dof chi Let_def six_sample_buckets_def)
  have walk: "SampleList (InitSampleSearch spread_cluster) =
      [value_sample 0 1, value_sample 1 0, value_sample 2 2, value_sample 3 0,
       value_sample 4 2, value_sample 5 1]"
    by (simp add: SampleList_InitSampleSearch spread_cluster_def value_sample_def)
  have mean: "Mean spread_cluster ! 0 = 1"
    by (simp add: spread_cluster_def)
  have "CoVariance (ComputeStatistics 2 [line_desc, line_desc] spread_cluster) ! (1 * 2 + 1) = 0"
    using CoVariance_ComputeStatistics
      [where i = 1 and j = 1 and N = 2 and pds = "[line_desc, line_desc]" and C = spread_cluster]
    by (simp add: covariance_entry_def spread_cluster_def value_sample_def deviation_def
        line_desc_def f32_sum_def)
  then have "f32_product
      (map (\<lambda>i. CoVariance (ComputeStatistics 2 [line_desc, line_desc] spread_cluster) !
                  (i * 2 + i)) [0..<2]) = 0"
    by (simp add: f32_product_def upt_rec numeral_eq_Suc)
  then have avg: "AvgVariance (ComputeStatistics 2 [line_desc, line_desc] spread_cluster) = 0"
    by (simp only: AvgVariance_ComputeStatistics) simp
  have fill: "FillBuckets six_sample_buckets spread_cluster 0 line_desc 1 0 =
      Some (six_sample_buckets\<lparr>Count := [4, 0, 0, 0, 2]\<rparr>)"
    unfolding FillBuckets_def walk
    by (simp add: six_sample_buckets_def zero_counts_def value_sample_def Count_increment_def
        to_UINT16_def upt_rec numeral_eq_Suc)
  show ?thesis
    using mk fill by (simp add: walk value_sample_def mean avg)
qed

subsection \<open>The guards of MakePrototype\<close>

lemma to_INT32_range:
  assumes "- 2147483649 < p" "p < 2147483648"
  shows "\<exists>t. to_INT32 p = Some t \<and> max 1 t = max 1 \<lfloor>p\<rfloor>"
proof (cases "p < 0")
  case True
  have "\<lceil>p\<rceil> \<le> 0" using True by (simp add: ceiling_le_iff)
  moreover have "- 2147483649 < \<lceil>p\<rceil>" using assms(1) by (simp add: less_ceiling_iff)
  moreover have "\<lfloor>p\<rfloor> \<le> \<lceil>p\<rceil>" by (rule floor_le_ceiling)
  ultimately show ?thesis using True by (simp add: to_INT32_def Let_def max_def)
next
  case False
  have "\<lfloor>p\<rfloor> < 2147483648" using assms(2) by (simp add: floor_less_iff)
  moreover have "0 \<le> \<lfloor>p\<rfloor>" using False by simp
  ultimately show ?thesis using False by (simp add: to_INT32_def Let_def)
qed

lemma MakeDegenerateProto_None:
  "MakeDegenerateProto N C st s t = None \<longleftrightarrow> max 1 t \<le> SampleCount C"
  by (auto simp: MakeDegenerateProto_def MINSAMPLESNEEDED_def Let_def max_def split: if_splits)

lemma MakeDegenerateProto_Some:
  assumes "SampleCount C < max 1 t"
  shows "MakeDegenerateProto N C st s t =
     Some ((case s of
              spherical \<Rightarrow> NewSphericalProto N C st
            | elliptical \<Rightarrow> NewEllipticalProto N C st
            | automatic \<Rightarrow> NewEllipticalProto N C st
            | mixed \<Rightarrow> NewMixedProto N C st)\<lparr>Significant := False\<rparr>)"
  using assms
  by (auto simp: MakeDegenerateProto_def MINSAMPLESNEEDED_def Let_def max_def split: if_splits)

lemma New_proto_fields:
  "Significant (NewSphericalProto N C st)"
  "Significant (NewEllipticalProto N C st)"
  "Significant (NewMixedProto N C st)"
  "Style (NewSphericalProto N C st) = spherical"
  "Style (NewEllipticalProto N C st) = elliptical"
  "Style (NewMixedProto N C st) = mixed"
  "Mean_p (NewSphericalProto N C st) = map (\<lambda>i. Mean C ! i) [0..<N]"
  "Mean_p (NewEllipticalProto N C st) = map (\<lambda>i. Mean C ! i) [0..<N]"
  "Mean_p (NewMixedProto N C st) = map (\<lambda>i. Mean C ! i) [0..<N]"
  "Variance (NewSphericalProto N C st) =
     Spherical (if AvgVariance st < MINVARIANCE then f32 MINVARIANCE else AvgVariance st)"
  "Variance (NewEllipticalProto N C st) =
     Elliptical (map (\<lambda>i. if CoVariance st ! (i * (N + 1)) < MINVARIANCE then f32 MINVARIANCE
                          else CoVariance st ! (i * (N + 1))) [0..<N])"
  "Variance (NewMixedProto N C st) =
     Elliptical (map (\<lambda>i. if CoVariance st ! (i * (N + 1)) < MINVARIANCE then f32 MINVARIANCE
                          else CoVariance st ! (i * (N + 1))) [0..<N])"
  by (simp_all add: NewSphericalProto_def NewEllipticalProto_def NewMixedProto_def
      NewSimpleProto_def EllipticalVariance_def Let_def)

lemma MakeDim_Significant:
  "MakeDimRandom i P pd = Some P1 \<Longrightarrow> Significant P1 = Significant P"
  "MakeDimUniform i P st = Some P2 \<Longrightarrow> Significant P2 = Significant P"
  by (auto simp: MakeDimRandom_def MakeDimUniform_def Let_def
      split: option.splits if_splits)

lemma MakeMixedProto_dim_Significant:
  assumes "MakeMixedProto_dim Clusterer C st conf i v = Some (ok, v1)"
  shows "Significant (Proto_m v1) = Significant (Proto_m v)"
  using assms
  by (auto simp: MakeMixedProto_dim_def Let_def bind_eq_Some_conv MakeDim_Significant
      split: if_splits option.splits)

lemma MakeMixedProto_loop_Significant:
  assumes "MakeMixedProto_loop Clusterer C st conf is v = Some (ok, v1)"
  shows "Significant (Proto_m v1) = Significant (Proto_m v)"
  using assms
proof (induction "is" arbitrary: v)
  case Nil
  then show ?case by simp
next
  case (Cons i rest)
  show ?case
  proof (cases "NonEssential (ParamDesc Clusterer ! i)")
    case True
    with Cons show ?thesis by simp
  next
    case False
    with Cons.prems obtain ok2 v2 where
      d: "MakeMixedProto_dim Clusterer C st conf i v = Some (ok2, v2)"
      by (auto split: option.splits)
    show ?thesis
    proof (cases ok2)
      case True
      with Cons.prems False d
      have "MakeMixedProto_loop Clusterer C st conf rest v2 = Some (ok, v1)" by simp
      then show ?thesis
        using Cons.IH MakeMixedProto_dim_Significant [OF d] by simp
    next
      case False
      with Cons.prems \<open>\<not> NonEssential (ParamDesc Clusterer ! i)\<close> d
      have "v1 = v2" by simp
      then show ?thesis
        using MakeMixedProto_dim_Significant [OF d] by simp
    qed
  qed
qed

lemma MakePrototype_fit_Significant:
  assumes "MakePrototype_fit g Clusterer Config C st b = Some (Some P, b1, g1)"
  shows "Significant P"
proof -
  have sph: "Significant Q"
    if "MakeSphericalProto Clusterer C st b0 = Some (Some Q, b2)" for Q b0 b2
    using that by (auto simp: MakeSphericalProto_def New_proto_fields split: if_splits)
  have ell: "Significant Q"
    if "MakeEllipticalProto Clusterer C st b0 = Some (Some Q, b2)" for Q b0 b2
    using that by (auto simp: MakeEllipticalProto_def New_proto_fields split: if_splits)
  have mix: "Significant Q"
    if "MakeMixedProto g0 Clusterer C st b0 conf = Some (Some Q, b2, g2)" for Q g0 b0 b2 g2 conf
    using that
    by (auto simp: MakeMixedProto_def bind_eq_Some_conv Let_def New_proto_fields
        dest!: MakeMixedProto_loop_Significant split: if_splits)
  show ?thesis
  proof (cases "ProtoStyle Config")
    case spherical
    with assms show ?thesis
      by (auto simp: MakePrototype_fit_def dest: sph)
  next
    case elliptical
    with assms show ?thesis
      by (auto simp: MakePrototype_fit_def dest: ell)
  next
    case mixed
    with assms show ?thesis
      by (auto simp: MakePrototype_fit_def dest: mix)
  next
    case automatic
    with assms show ?thesis
      by (auto simp: MakePrototype_fit_def bind_eq_Some_conv
          dest: sph ell mix split: if_splits)
  qed
qed

lemma MakePrototype_rejected:
  assumes "MultipleCharSamples (NumFlags g) Clusterer C (MaxIllegal Config) = Some (True, flags)"
  shows "MakePrototype g Clusterer Config C = Some (None, g\<lparr>NumFlags := flags\<rparr>)"
  using assms by (simp add: MakePrototype_def)

lemma MakePrototype_degenerate_eq:
  assumes "MultipleCharSamples (NumFlags g) Clusterer C (MaxIllegal Config) = Some (False, flags)"
    and "to_INT32 (f32 (MinSamples Config * f32 (of_int (NumChar Clusterer)))) = Some t"
    and "SampleCount C < max 1 t"
  shows "MakePrototype g Clusterer Config C =
     Some (Some ((case ProtoStyle Config of
                    spherical \<Rightarrow> NewSphericalProto (SampleSize Clusterer) C
                      (ComputeStatistics (SampleSize Clusterer) (ParamDesc Clusterer) C)
                  | elliptical \<Rightarrow> NewEllipticalProto (SampleSize Clusterer) C
                      (ComputeStatistics (SampleSize Clusterer) (ParamDesc Clusterer) C)
                  | automatic \<Rightarrow> NewEllipticalProto (SampleSize Clusterer) C
                      (ComputeStatistics (SampleSize Clusterer) (ParamDesc Clusterer) C)
                  | mixed \<Rightarrow> NewMixedProto (SampleSize Clusterer) C
                      (ComputeStatistics (SampleSize Clusterer) (ParamDesc Clusterer) C))
                 \<lparr>Significant := False\<rparr>),
           g\<lparr>NumFlags := flags\<rparr>)"
  using assms by (simp add: MakePrototype_def MakeDegenerateProto_Some Let_def)

lemma MakePrototype_dependent:
  assumes "MultipleCharSamples (NumFlags g) Clusterer C (MaxIllegal Config) = Some (False, flags)"
    and "to_INT32 (f32 (MinSamples Config * f32 (of_int (NumChar Clusterer)))) = Some t"
    and "max 1 t \<le> SampleCount C"
    and "\<not> Independent (ParamDesc Clusterer) (SampleSize Clusterer)
           (CoVariance (ComputeStatistics (SampleSize Clusterer) (ParamDesc Clusterer) C))
           (Independence Config)"
  shows "MakePrototype g Clusterer Config C = Some (None, g\<lparr>NumFlags := flags\<rparr>)"
proof -
  have "MakeDegenerateProto (SampleSize Clusterer) C
      (ComputeStatistics (SampleSize Clusterer) (ParamDesc Clusterer) C) (ProtoStyle Config) t =
      None"
    using assms(3) by (simp add: MakeDegenerateProto_None)
  then show ?thesis
    using assms(1,2,4) by (simp add: MakePrototype_def Let_def)
qed

lemma MakePrototype_significant:
  assumes "to_INT32 (f32 (MinSamples Config * f32 (of_int (NumChar Clusterer)))) = Some t"
    and "max 1 t \<le> SampleCount C"
    and "MakePrototype g Clusterer Config C = Some (Some P, g1)"
  shows "Significant P"
proof -
  have none: "MakeDegenerateProto (SampleSize Clusterer) C
      (ComputeStatistics (SampleSize Clusterer) (ParamDesc Clusterer) C) (ProtoStyle Config) t =
      None"
    using assms(2) by (simp add: MakeDegenerateProto_None)
  from assms(3) obtain b g2 b1 g3 where
    "MakePrototype_fit g2 Clusterer Config C
       (ComputeStatistics (SampleSize Clusterer) (ParamDesc Clusterer) C) b = Some (Some P, b1, g3)"
    by (auto simp: MakePrototype_def assms(1) none Let_def bind_eq_Some_conv split: if_splits)
  then show ?thesis by (rule MakePrototype_fit_Significant)
qed

subsection \<open>The independence test as a property of the covariance matrix\<close>

lemma Independent_inner_iff:
  "Independent_inner pds N cov ind i js \<longleftrightarrow>
     (\<forall>j \<in> set js. \<not> NonEssential (pds ! j) \<longrightarrow> CorrelationCoeff N cov i j \<le> ind)"
  by (induction js) (auto simp: not_less)

lemma Independent_outer_iff:
  "Independent_outer pds N cov ind is \<longleftrightarrow>
     (\<forall>i \<in> set is. \<not> NonEssential (pds ! i) \<longrightarrow>
        Independent_inner pds N cov ind i [i + 1..<N])"
  by (induction "is") auto

lemma Independent_iff:
  "Independent pds N cov ind \<longleftrightarrow>
     (\<forall>i < N. \<forall>j < N. i < j \<and> \<not> NonEssential (pds ! i) \<and> \<not> NonEssential (pds ! j) \<longrightarrow>
        CorrelationCoeff N cov i j \<le> ind)"
  by (auto simp: Independent_def Independent_outer_iff Independent_inner_iff)

lemma CorrelationCoeff_zero:
  assumes "cov ! (i * N + i) = 0 \<or> cov ! (j * N + j) = 0"
  shows "CorrelationCoeff N cov i j = 0"
proof -
  have d: "i * (N + 1) = i * N + i" "j * (N + 1) = j * N + j" by simp_all
  show ?thesis
    using assms unfolding CorrelationCoeff_def Let_def d by auto
qed

lemma CorrelationCoeff_formula:
  assumes "cov ! (i * N + i) \<noteq> 0" "cov ! (j * N + j) \<noteq> 0"
    and "f32 (cov ! (i * N + i) * cov ! (j * N + j)) \<noteq> 0"
  shows "CorrelationCoeff N cov i j =
     f32 (sqrt (sqrt (f32 (f32 ((cov ! (i * N + j))\<^sup>2) /
                           f32 (cov ! (i * N + i) * cov ! (j * N + j))))))"
proof -
  have d: "i * (N + 1) = i * N + i" "j * (N + 1) = j * N + j" by simp_all
  show ?thesis
    using assms unfolding CorrelationCoeff_def Let_def d power2_eq_square by simp
qed




lemma small_threshold:
  "to_INT32 (f32 (2 * f32 (of_int 1))) = Some 2"
  "to_INT32 (f32 (2 * f32 (of_int 2))) = Some 4"
  "to_INT32 (f32 (1 / 2 * f32 (of_int 2))) = Some 1"
  by (simp_all add: to_INT32_def f32_numeral)


lemma free_clusterer_fields:
  "SampleSize (free_clusterer c) = 1"
  "ParamDesc (free_clusterer c) = [free_desc]"
  "NumChar (free_clusterer c) = 2"
  by (simp_all add: free_clusterer_def)

lemma guard_config_fields:
  "ProtoStyle (guard_config mx) = spherical"
  "MinSamples (guard_config mx) = 1 / 2"
  "MaxIllegal (guard_config mx) = mx"
  "Independence (guard_config mx) = 1 / 2"
  "Confidence (guard_config mx) = 1 / 20"
  by (simp_all add: guard_config_def)

lemma free_pair_filter:
  "MultipleCharSamples (NumFlags chi_cached) (free_clusterer pair_cluster) pair_cluster
      (MaxIllegal (guard_config 1)) = Some (False, 2)"
  by (simp add: MultipleCharSamples_def SampleList_InitSampleSearch pair_cluster_def
      free_clusterer_def chi_cached_def guard_config_def FALSE_def TRUE_def)

lemma free_pair_prototype:
  "\<exists>P g1. MakePrototype chi_cached (free_clusterer pair_cluster) (guard_config 1) pair_cluster =
      Some (Some P, g1)"
proof -
  define g where "g = chi_cached\<lparr>NumFlags := 2\<rparr>"
  have n: "OptimumNumberOfBuckets 2 = 5"
    by (simp add: OptimumNumberOfBuckets_def CountTable_def BucketsTable_def MINSAMPLES_def
        MINBUCKETS_def MINSAMPLESPERBUCKET_def)
  have dof: "DegreesOfFreedom normal 5 = 2"
    by (simp add: DegreesOfFreedom_def DegreeOffsets_def)
  have chi: "ComputeChiSquared (ChiWith g) 2 (1 / 20) = Some (599 / 100, ChiWith g)"
    by (simp add: ComputeChiSquared_def g_def chi_cached_def MINALPHA_def
        MAXDEGREESOFFREEDOM_def MAXBUCKETS_def Let_def)
  have old: "OldBuckets g normal = []"
    by (simp add: g_def chi_cached_def)
  note f = free_pair_filter
  have t: "to_INT32 (f32 (MinSamples (guard_config 1) *
      f32 (of_int (NumChar (free_clusterer pair_cluster))))) = Some 1"
    using small_threshold(3) by (simp add: guard_config_fields free_clusterer_fields)
  have many: "max 1 (1 :: int) \<le> SampleCount pair_cluster"
    by (simp add: pair_cluster_def)
  have d: "MakeDegenerateProto N pair_cluster st s 1 = None" for N st s
    using many by (simp add: MakeDegenerateProto_None)
  have i: "Independent (ParamDesc (free_clusterer pair_cluster))
      (SampleSize (free_clusterer pair_cluster)) cov ind" for cov ind
    by (simp add: Independent_def free_clusterer_fields free_desc_def)
  have c: "to_UINT32 (SampleCount pair_cluster) = 2"
    by (simp add: to_UINT32_def pair_cluster_def)
  obtain B where b: "GetBuckets g normal 2 (1 / 20) = Some (B, g)"
    by (simp add: GetBuckets_def MakeBuckets_def n dof chi old Let_def)
  have s: "MakePrototype_fit g (free_clusterer pair_cluster) (guard_config 1) pair_cluster st B =
      Some (Some (NewSphericalProto 1 pair_cluster st), B, g)" for st
    by (simp add: MakePrototype_fit_def MakeSphericalProto_def guard_config_fields
        free_clusterer_fields free_desc_def)
  show ?thesis
    by (simp add: MakePrototype_def f t d i c b s g_def [symmetric] guard_config_fields(5)
        Let_def)
qed

lemma free_pair_significant:
  assumes "MakePrototype chi_cached (free_clusterer pair_cluster) (guard_config 1) pair_cluster =
      Some (Some Q, g1)"
  shows "Significant Q"
proof -
  have t: "to_INT32 (f32 (MinSamples (guard_config 1) *
      f32 (of_int (NumChar (free_clusterer pair_cluster))))) = Some 1"
    using small_threshold(3) by (simp add: guard_config_fields free_clusterer_fields)
  have many: "max 1 (1 :: int) \<le> SampleCount pair_cluster"
    by (simp add: pair_cluster_def)
  from t many assms show ?thesis by (rule MakePrototype_significant)
qed





lemma MakePrototype_significant_independent:
  assumes "MakePrototype g Clusterer Config C = Some (Some P, g1)" and "Significant P"
  shows "Independent (ParamDesc Clusterer) (SampleSize Clusterer)
           (CoVariance (ComputeStatistics (SampleSize Clusterer) (ParamDesc Clusterer) C))
           (Independence Config)"
proof (rule ccontr)
  assume dep: "\<not> ?thesis"
  from assms(1) obtain flags where
    f: "MultipleCharSamples (NumFlags g) Clusterer C (MaxIllegal Config) = Some (False, flags)"
    by (auto simp: MakePrototype_def bind_eq_Some_conv Let_def split: if_splits)
  from assms(1) f obtain t where
    t: "to_INT32 (f32 (MinSamples Config * f32 (of_int (NumChar Clusterer)))) = Some t"
    by (auto simp: MakePrototype_def bind_eq_Some_conv Let_def split: if_splits)
  show False
  proof (cases "SampleCount C < max 1 t")
    case True
    from assms show ?thesis
      unfolding MakePrototype_degenerate_eq [OF f t True] by auto
  next
    case False
    then have "max 1 t \<le> SampleCount C"
      by (simp only: not_less)
    from MakePrototype_dependent [OF f t this dep] assms(1) show ?thesis by simp
  qed
qed

lemma diagonal_cluster_covariance:
  "CoVariance (ComputeStatistics 2 [line_desc, line_desc] diagonal_cluster) ! 0 = 2"
  "CoVariance (ComputeStatistics 2 [line_desc, line_desc] diagonal_cluster) ! Suc 0 = 2"
  "CoVariance (ComputeStatistics 2 [line_desc, line_desc] diagonal_cluster) ! 3 = 2"
  using CoVariance_ComputeStatistics
      [where i = 0 and j = 0 and N = 2 and pds = "[line_desc, line_desc]" and C = diagonal_cluster]
    CoVariance_ComputeStatistics
      [where i = 0 and j = 1 and N = 2 and pds = "[line_desc, line_desc]" and C = diagonal_cluster]
    CoVariance_ComputeStatistics
      [where i = 1 and j = 1 and N = 2 and pds = "[line_desc, line_desc]" and C = diagonal_cluster]
  by (simp_all add: covariance_entry_def diagonal_cluster_def deviation_def line_desc_def
      f32_sum_def f32_numeral)

lemma diagonal_cluster_correlation:
  "CorrelationCoeff 2 (CoVariance (ComputeStatistics 2 [line_desc, line_desc] diagonal_cluster))
     0 1 = 1"
  by (simp add: CorrelationCoeff_def Let_def diagonal_cluster_covariance f32_numeral)

lemma diagonal_cluster_filter:
  "MultipleCharSamples 0 (plane_clusterer diagonal_cluster) diagonal_cluster mx = Some (False, 2)"
  by (simp add: MultipleCharSamples_def SampleList_InitSampleSearch diagonal_cluster_def
      plane_clusterer_def FALSE_def TRUE_def)

text \<open>
  C5 (amended).  \<open>Independent\<close> looks at the pairs \<open>i < j\<close> of essential dimensions only
  and fails exactly when the correlation of one of these pairs exceeds the independence
  threshold.  The correlation of \<open>i\<close> and \<open>j\<close> is 0 when a diagonal entry is 0; else it is
  the double square root of \<open>cov_ij^2 / (cov_ii * cov_jj)\<close> with the square, the product
  and the quotient computed in \<open>FLOAT32\<close> and the result rounded to \<open>FLOAT32\<close>, as long as
  the product does not underflow to zero.  Let \<open>p\<close> be the product of \<open>MinSamples\<close> and
  \<open>NumChar\<close> in \<open>FLOAT32\<close>, in the range of \<open>INT32\<close>, and \<open>min_samples = max 1 (floor p)\<close>.
  For a cluster that passed the multi-character filter and has at least \<open>min_samples\<close>
  samples, \<open>MakePrototype\<close> returns no prototype when the test fails; and every
  significant prototype that \<open>MakePrototype\<close> returns comes from a cluster that passed the
  test.
\<close>

theorem Independent_guard:
  "(Independent pds N cov ind \<longleftrightarrow>
      (\<forall>i < N. \<forall>j < N. i < j \<and> \<not> NonEssential (pds ! i) \<and> \<not> NonEssential (pds ! j) \<longrightarrow>
         CorrelationCoeff N cov i j \<le> ind)) \<and>
   (cov ! (i * N + i) = 0 \<or> cov ! (j * N + j) = 0 \<longrightarrow> CorrelationCoeff N cov i j = 0) \<and>
   (cov ! (i * N + i) \<noteq> 0 \<and> cov ! (j * N + j) \<noteq> 0 \<and>
    f32 (cov ! (i * N + i) * cov ! (j * N + j)) \<noteq> 0 \<longrightarrow>
      CorrelationCoeff N cov i j =
        f32 (sqrt (sqrt (f32 (f32 ((cov ! (i * N + j))\<^sup>2) /
                              f32 (cov ! (i * N + i) * cov ! (j * N + j))))))) \<and>
   (MultipleCharSamples (NumFlags g) Clusterer C (MaxIllegal Config) = Some (False, flags) \<and>
    f32 (MinSamples Config * f32 (of_int (NumChar Clusterer))) = p \<and>
    - 2147483649 < p \<and> p < 2147483648 \<and>
    max 1 \<lfloor>p\<rfloor> \<le> SampleCount C \<and>
    \<not> Independent (ParamDesc Clusterer) (SampleSize Clusterer)
         (CoVariance (ComputeStatistics (SampleSize Clusterer) (ParamDesc Clusterer) C))
         (Independence Config) \<longrightarrow>
    MakePrototype g Clusterer Config C = Some (None, g\<lparr>NumFlags := flags\<rparr>)) \<and>
   (MakePrototype g Clusterer Config C = Some (Some P, g1) \<and> Significant P \<longrightarrow>
    Independent (ParamDesc Clusterer) (SampleSize Clusterer)
      (CoVariance (ComputeStatistics (SampleSize Clusterer) (ParamDesc Clusterer) C))
      (Independence Config))"
proof (intro conjI impI)
  show "Independent pds N cov ind \<longleftrightarrow>
      (\<forall>i < N. \<forall>j < N. i < j \<and> \<not> NonEssential (pds ! i) \<and> \<not> NonEssential (pds ! j) \<longrightarrow>
         CorrelationCoeff N cov i j \<le> ind)"
    by (rule Independent_iff)
next
  assume "cov ! (i * N + i) = 0 \<or> cov ! (j * N + j) = 0"
  then show "CorrelationCoeff N cov i j = 0"
    by (rule CorrelationCoeff_zero)
next
  assume "cov ! (i * N + i) \<noteq> 0 \<and> cov ! (j * N + j) \<noteq> 0 \<and>
    f32 (cov ! (i * N + i) * cov ! (j * N + j)) \<noteq> 0"
  then show "CorrelationCoeff N cov i j =
      f32 (sqrt (sqrt (f32 (f32 ((cov ! (i * N + j))\<^sup>2) /
                            f32 (cov ! (i * N + i) * cov ! (j * N + j))))))"
    by (intro CorrelationCoeff_formula) simp_all
next
  assume h: "MultipleCharSamples (NumFlags g) Clusterer C (MaxIllegal Config) =
      Some (False, flags) \<and>
    f32 (MinSamples Config * f32 (of_int (NumChar Clusterer))) = p \<and>
    - 2147483649 < p \<and> p < 2147483648 \<and>
    max 1 \<lfloor>p\<rfloor> \<le> SampleCount C \<and>
    \<not> Independent (ParamDesc Clusterer) (SampleSize Clusterer)
         (CoVariance (ComputeStatistics (SampleSize Clusterer) (ParamDesc Clusterer) C))
         (Independence Config)"
  then obtain t where
    t: "to_INT32 (f32 (MinSamples Config * f32 (of_int (NumChar Clusterer)))) = Some t"
    and m: "max 1 t = max 1 \<lfloor>p\<rfloor>"
    using to_INT32_range [of p] by auto
  from h m have "max 1 t \<le> SampleCount C" by simp
  with h t show "MakePrototype g Clusterer Config C = Some (None, g\<lparr>NumFlags := flags\<rparr>)"
    by (intro MakePrototype_dependent) simp_all
next
  assume "MakePrototype g Clusterer Config C = Some (Some P, g1) \<and> Significant P"
  then show "Independent (ParamDesc Clusterer) (SampleSize Clusterer)
      (CoVariance (ComputeStatistics (SampleSize Clusterer) (ParamDesc Clusterer) C))
      (Independence Config)"
    using MakePrototype_significant_independent by blast
qed

lemma spread_cluster_constant:
  "CoVariance (ComputeStatistics 2 [line_desc, line_desc] spread_cluster) ! (1 * 2 + 1) = 0"
  using CoVariance_ComputeStatistics
    [where i = 1 and j = 1 and N = 2 and pds = "[line_desc, line_desc]" and C = spread_cluster]
  by (simp add: covariance_entry_def spread_cluster_def value_sample_def deviation_def
      line_desc_def f32_sum_def)

theorem Independent_guard_witness:
  "CorrelationCoeff 2 (CoVariance (ComputeStatistics 2 [line_desc, line_desc] diagonal_cluster))
     0 1 = 1 \<and>
   \<not> Independent [line_desc, line_desc] 2
       (CoVariance (ComputeStatistics 2 [line_desc, line_desc] diagonal_cluster)) (1 / 2) \<and>
   MakePrototype initial_globals (plane_clusterer diagonal_cluster) (guard_config 1)
     diagonal_cluster = Some (None, initial_globals\<lparr>NumFlags := 2\<rparr>) \<and>
   CorrelationCoeff 2 (CoVariance (ComputeStatistics 2 [line_desc, line_desc] spread_cluster))
     0 1 = 0 \<and>
   (\<exists>Q g1. MakePrototype chi_cached (free_clusterer pair_cluster) (guard_config 1)
              pair_cluster = Some (Some Q, g1) \<and>
      Independent (ParamDesc (free_clusterer pair_cluster))
        (SampleSize (free_clusterer pair_cluster))
        (CoVariance (ComputeStatistics (SampleSize (free_clusterer pair_cluster))
           (ParamDesc (free_clusterer pair_cluster)) pair_cluster))
        (Independence (guard_config 1)))"
proof -
  note t = Independent_guard
      [where g = initial_globals and Clusterer = "plane_clusterer diagonal_cluster"
         and C = diagonal_cluster and Config = "guard_config 1" and flags = 2 and p = 1
         and N = 2 and i = 0 and j = 1 and pds = "[line_desc, line_desc]" and ind = "1 / 2"
         and cov = "CoVariance (ComputeStatistics 2 [line_desc, line_desc] diagonal_cluster)"]
  have f: "MultipleCharSamples (NumFlags initial_globals) (plane_clusterer diagonal_cluster)
      diagonal_cluster (MaxIllegal (guard_config 1)) = Some (False, 2)"
    by (simp add: initial_globals_def diagonal_cluster_filter)
  have p: "f32 (MinSamples (guard_config 1) *
      f32 (of_int (NumChar (plane_clusterer diagonal_cluster)))) = 1"
    by (simp add: guard_config_def plane_clusterer_def f32_numeral)
  have many: "max 1 \<lfloor>1 :: real\<rfloor> \<le> SampleCount diagonal_cluster"
    by (simp add: diagonal_cluster_def)
  have c: "CorrelationCoeff 2
      (CoVariance (ComputeStatistics 2 [line_desc, line_desc] diagonal_cluster)) 0 1 = 1"
    using t by (simp add: diagonal_cluster_covariance f32_numeral)
  have e: "\<not> NonEssential ([line_desc, line_desc] ! 0)" "\<not> NonEssential ([line_desc, line_desc] ! 1)"
    by (simp_all add: line_desc_def)
  have dep0: "\<not> Independent [line_desc, line_desc] 2
      (CoVariance (ComputeStatistics 2 [line_desc, line_desc] diagonal_cluster)) (1 / 2)"
  proof
    assume "Independent [line_desc, line_desc] 2
      (CoVariance (ComputeStatistics 2 [line_desc, line_desc] diagonal_cluster)) (1 / 2)"
    with t have "\<forall>i < 2. \<forall>j < 2.
        i < j \<and> \<not> NonEssential ([line_desc, line_desc] ! i) \<and>
        \<not> NonEssential ([line_desc, line_desc] ! j) \<longrightarrow>
        CorrelationCoeff 2
          (CoVariance (ComputeStatistics 2 [line_desc, line_desc] diagonal_cluster)) i j
          \<le> 1 / 2"
      by blast
    then have "CorrelationCoeff 2
        (CoVariance (ComputeStatistics 2 [line_desc, line_desc] diagonal_cluster)) 0 1 \<le> 1 / 2"
      using e by - (drule spec [of _ 0], drule mp, simp, drule spec [of _ 1], simp)
    with c show False by simp
  qed
  then have dep: "\<not> Independent (ParamDesc (plane_clusterer diagonal_cluster))
      (SampleSize (plane_clusterer diagonal_cluster))
      (CoVariance (ComputeStatistics (SampleSize (plane_clusterer diagonal_cluster))
         (ParamDesc (plane_clusterer diagonal_cluster)) diagonal_cluster))
      (Independence (guard_config 1))"
    by (simp add: plane_clusterer_def guard_config_def)
  have r: "MakePrototype initial_globals (plane_clusterer diagonal_cluster) (guard_config 1)
      diagonal_cluster = Some (None, initial_globals\<lparr>NumFlags := 2\<rparr>)"
    using t f p many dep by simp
  have z: "CorrelationCoeff 2
      (CoVariance (ComputeStatistics 2 [line_desc, line_desc] spread_cluster)) 0 1 = 0"
    using Independent_guard
      [where N = 2 and i = 0 and j = 1
         and cov = "CoVariance (ComputeStatistics 2 [line_desc, line_desc] spread_cluster)"]
      spread_cluster_constant
    by blast
  from free_pair_prototype obtain Q g1 where
    q: "MakePrototype chi_cached (free_clusterer pair_cluster) (guard_config 1) pair_cluster =
      Some (Some Q, g1)"
    by blast
  have sq: "Significant Q"
    using q by (rule free_pair_significant)
  have "Independent (ParamDesc (free_clusterer pair_cluster))
      (SampleSize (free_clusterer pair_cluster))
      (CoVariance (ComputeStatistics (SampleSize (free_clusterer pair_cluster))
         (ParamDesc (free_clusterer pair_cluster)) pair_cluster))
      (Independence (guard_config 1))"
    using Independent_guard
      [where g = chi_cached and Clusterer = "free_clusterer pair_cluster"
         and C = pair_cluster and Config = "guard_config 1" and P = Q and ?g1.0 = g1]
      q sq
    by blast
  with q have i: "\<exists>Q g1. MakePrototype chi_cached (free_clusterer pair_cluster) (guard_config 1)
              pair_cluster = Some (Some Q, g1) \<and>
      Independent (ParamDesc (free_clusterer pair_cluster))
        (SampleSize (free_clusterer pair_cluster))
        (CoVariance (ComputeStatistics (SampleSize (free_clusterer pair_cluster))
           (ParamDesc (free_clusterer pair_cluster)) pair_cluster))
        (Independence (guard_config 1))"
    by blast
  from c dep0 r z i show ?thesis
    by (intro conjI)
qed

lemma faint_correlation: "CorrelationCoeff 2 faint_covariance 0 1 = 0"
proof -
  have "f32 (1 / 22835963083295358096932575511191922182123945984) = 0"
    by (rule f32_underflow) simp
  then show ?thesis
    by (simp add: CorrelationCoeff_def Let_def faint_covariance_def)
qed

text \<open>
  C5 as stated fails.  A cluster of three samples of one character is turned down by
  the multi-character filter, and \<open>MakePrototype\<close> returns no prototype, although its
  one dimension has no off-diagonal correlation at all.  The cluster of (0, 0) and
  (2, 2) has a correlation of 1, above the threshold 1/2, and with a \<open>min_samples\<close> of 4
  \<open>MakePrototype\<close> still returns a (degenerate) prototype.  And for the variances 1 and
  a covariance of \<open>2\<^sup>-\<^sup>7\<^sup>7\<close> the square of the covariance underflows in \<open>FLOAT32\<close>: the
  correlation computed is 0, where the double square root of the quotient is not.
\<close>

theorem MakePrototype_independence_counterexample:
  "map_option fst (MakePrototype initial_globals (id_clusterer 1 triple_cluster)
      (guard_config (3 / 4)) triple_cluster) = Some None \<and>
   Independent (ParamDesc (id_clusterer 1 triple_cluster))
     (SampleSize (id_clusterer 1 triple_cluster))
     (CoVariance (ComputeStatistics (SampleSize (id_clusterer 1 triple_cluster))
        (ParamDesc (id_clusterer 1 triple_cluster)) triple_cluster))
     (Independence (guard_config (3 / 4))) \<and>
   map_option (\<lambda>r. fst r = None) (MakePrototype initial_globals (plane_clusterer diagonal_cluster)
      (small_config spherical 1) diagonal_cluster) = Some False \<and>
   Independence (small_config spherical 1) <
     CorrelationCoeff 2
       (CoVariance (ComputeStatistics (SampleSize (plane_clusterer diagonal_cluster))
          (ParamDesc (plane_clusterer diagonal_cluster)) diagonal_cluster)) 0 1 \<and>
   CorrelationCoeff 2 faint_covariance 0 1 = 0 \<and>
   0 < sqrt (sqrt ((faint_covariance ! (0 * 2 + 1))\<^sup>2 /
                   (faint_covariance ! (0 * 2 + 0) * faint_covariance ! (1 * 2 + 1))))"
proof -
  have t: "MultipleCharSamples (NumFlags initial_globals) (id_clusterer 1 triple_cluster)
      triple_cluster (MaxIllegal (guard_config (3 / 4))) = Some (True, 1)"
    by (simp add: MultipleCharSamples_def SampleList_InitSampleSearch Let_def
        triple_cluster_def id_cluster_def id_sample_def id_clusterer_def initial_globals_def
        guard_config_def FALSE_def TRUE_def ILLEGAL_CHAR_def f32_numeral)
  have a: "map_option fst (MakePrototype initial_globals (id_clusterer 1 triple_cluster)
      (guard_config (3 / 4)) triple_cluster) = Some None"
    by (simp add: MakePrototype_rejected [OF t])
  have b: "Independent (ParamDesc (id_clusterer 1 triple_cluster))
     (SampleSize (id_clusterer 1 triple_cluster))
     (CoVariance (ComputeStatistics (SampleSize (id_clusterer 1 triple_cluster))
        (ParamDesc (id_clusterer 1 triple_cluster)) triple_cluster))
     (Independence (guard_config (3 / 4)))"
    by (simp add: Independent_iff id_clusterer_def)
  have f: "MultipleCharSamples (NumFlags initial_globals) (plane_clusterer diagonal_cluster)
      diagonal_cluster (MaxIllegal (small_config spherical 1)) = Some (False, 2)"
    by (simp add: initial_globals_def diagonal_cluster_filter)
  have th: "to_INT32 (f32 (MinSamples (small_config spherical 1) *
      f32 (of_int (NumChar (plane_clusterer diagonal_cluster))))) = Some 4"
    using small_threshold(2) by (simp add: small_config_def plane_clusterer_def)
  have few: "SampleCount diagonal_cluster < max 1 (4 :: int)"
    by (simp add: diagonal_cluster_def)
  have c: "map_option (\<lambda>r. fst r = None) (MakePrototype initial_globals
      (plane_clusterer diagonal_cluster) (small_config spherical 1) diagonal_cluster) = Some False"
    by (simp add: MakePrototype_degenerate_eq [OF f th few])
  have d: "Independence (small_config spherical 1) <
     CorrelationCoeff 2
       (CoVariance (ComputeStatistics (SampleSize (plane_clusterer diagonal_cluster))
          (ParamDesc (plane_clusterer diagonal_cluster)) diagonal_cluster)) 0 1"
    using diagonal_cluster_correlation by (simp add: plane_clusterer_def small_config_def)
  have e: "0 < sqrt (sqrt ((faint_covariance ! (0 * 2 + 1))\<^sup>2 /
                   (faint_covariance ! (0 * 2 + 0) * faint_covariance ! (1 * 2 + 1))))"
    by (simp add: faint_covariance_def)
  from a b c d faint_correlation e show ?thesis
    by (intro conjI)
qed
subsection \<open>Samples are refused once the tree exists\<close>

lemma MakeSample_clustered:
  "Root c \<noteq> None \<Longrightarrow> MakeSample c f k = (Inl ALREADYCLUSTERED, c)"
  by (simp add: MakeSample_def)

lemma MakeSample_collecting:
  assumes "Root c = None" and "KDTree c = Some t"
  shows "MakeSample c f k =
           (Inr (LeafCluster False False 1 k (map (\<lambda>i. f ! i) [0..<SampleSize c])),
            c\<lparr>NumberOfSamples := NumberOfSamples c + 1,
              KDTree := Some (t\<lparr>Cells := Cells t @
                   [LeafCluster False False 1 k (map (\<lambda>i. f ! i) [0..<SampleSize c])],
                 Nodes := Nodes t @ [length (Cells t)]\<rparr>),
              NumChar := (if k \<ge> NumChar c then k + 1 else NumChar c)\<rparr>)"
  using assms by (simp add: MakeSample_def Emalloc_cluster_def KDStore_def Let_def)

lemma CreateClusterTree_Root:
  "CreateClusterTree c = Some c1 \<Longrightarrow> Root c1 \<noteq> None"
  by (auto simp: CreateClusterTree_def Let_def split: option.splits)

lemma ClusterSamples_Root:
  assumes "ClusterSamples g c cfg = Some (pl, c1, g1)"
  shows "Root c1 \<noteq> None"
proof -
  from assms obtain c0 where
    c0: "(if Root c = None then CreateClusterTree c else Some c) = Some c0"
    and c1: "c1 = c0\<lparr>ProtoList := pl\<rparr>"
    by (auto simp: ClusterSamples_def bind_eq_Some_conv Let_def)
  from c0 have "Root c0 \<noteq> None"
    by (auto dest: CreateClusterTree_Root split: if_splits)
  with c1 show ?thesis by simp
qed

lemma calls_clustered:
  "calls (g, c) cs = Some (g', c') \<Longrightarrow> Root c \<noteq> None \<Longrightarrow> Root c' \<noteq> None"
proof (induction cs arbitrary: g c)
  case Nil
  then show ?case by simp
next
  case (Cons a cs)
  show ?case
  proof (cases a)
    case (AddSample f k)
    with Cons.prems have "calls (g, c) cs = Some (g', c')"
      by (simp add: MakeSample_clustered)
    from Cons.IH [OF this Cons.prems(2)] show ?thesis .
  next
    case (DoCluster cfg)
    with Cons.prems obtain pl c1 g1 where
      r: "ClusterSamples g c cfg = Some (pl, c1, g1)" and rest: "calls (g1, c1) cs = Some (g', c')"
      by (auto split: option.splits)
    from Cons.IH [OF rest ClusterSamples_Root [OF r]] show ?thesis .
  qed
qed

lemma calls_collecting:
  "calls (g, c) cs = Some (g', c') \<Longrightarrow> Root c = None \<Longrightarrow> KDTree c \<noteq> None \<Longrightarrow>
     (if list_ex is_DoCluster cs then Root c' \<noteq> None
      else Root c' = None \<and> KDTree c' \<noteq> None \<and> SampleSize c' = SampleSize c)"
proof (induction cs arbitrary: g c)
  case Nil
  then show ?case by simp
next
  case (Cons a cs)
  show ?case
  proof (cases a)
    case (AddSample f k)
    from Cons.prems(3) obtain t where t: "KDTree c = Some t" by auto
    let ?c = "snd (MakeSample c f k)"
    from AddSample Cons.prems have rest: "calls (g, ?c) cs = Some (g', c')" by simp
    have inv: "Root ?c = None" "KDTree ?c \<noteq> None" "SampleSize ?c = SampleSize c"
      using Cons.prems(2) by (simp_all add: MakeSample_collecting [OF Cons.prems(2) t])
    from Cons.IH [OF rest inv(1) inv(2)] AddSample inv(3) show ?thesis by simp
  next
    case (DoCluster cfg)
    with Cons.prems obtain pl c1 g1 where
      r: "ClusterSamples g c cfg = Some (pl, c1, g1)" and rest: "calls (g1, c1) cs = Some (g', c')"
      by (auto split: option.splits)
    from calls_clustered [OF rest ClusterSamples_Root [OF r]] DoCluster show ?thesis by simp
  qed
qed

lemma MakeClusterer_collecting:
  "Root (MakeClusterer n pds) = None" "KDTree (MakeClusterer n pds) \<noteq> None"
  "SampleSize (MakeClusterer n pds) = n"
  by (simp_all add: MakeClusterer_def)

lemma one_sample_tree:
  "CreateClusterTree (snd (MakeSample (MakeClusterer 1 [line_desc]) [3] 0)) =
     Some (snd (MakeSample (MakeClusterer 1 [line_desc]) [3] 0)
             \<lparr>Root := Some lone_sample, KDTree := None\<rparr>)"
  apply (simp add: CreateClusterTree_def MakeSample_def MakeClusterer_def MakeKDTree_def
      Emalloc_cluster_def KDStore_def Let_def MakePotentialClusters_def FindNearestNeighbor_def
      KDNearestNeighborSearch_def kd_distance_def kd_dim_distance_def MAX_FLOAT32_def
      line_desc_def DeriveParamDesc_def)
  apply (subst CreateClusterTree_loop.simps)
  apply (simp add: GetTopOfHeap_def RootOf_def lone_sample_def)
  done

lemma one_sample_ClusterSamples:
  "ClusterSamples initial_globals (snd (MakeSample (MakeClusterer 1 [line_desc]) [3] 0))
     (small_config spherical 1) \<noteq> None"
proof -
  define c where "c = snd (MakeSample (MakeClusterer 1 [line_desc]) [3] 0)"
  define c2 where "c2 = c\<lparr>Root := Some lone_sample, KDTree := None, ProtoList := []\<rparr>"
  have root: "Root c = None"
    by (simp add: c_def MakeSample_def MakeClusterer_def Emalloc_cluster_def KDStore_def Let_def)
  have tree: "CreateClusterTree c = Some (c\<lparr>Root := Some lone_sample, KDTree := None\<rparr>)"
    unfolding c_def by (rule one_sample_tree)
  have num: "NumChar c2 = 1" and r2: "Root c2 = Some lone_sample" and p2: "ProtoList c2 = []"
    by (simp_all add: c2_def c_def MakeSample_def MakeClusterer_def Emalloc_cluster_def
        KDStore_def Let_def)
  have f: "MultipleCharSamples (NumFlags initial_globals) c2 lone_sample
      (MaxIllegal (small_config spherical 1)) = Some (False, 1)"
    unfolding MultipleCharSamples_def num
    by (simp add: SampleList_InitSampleSearch lone_sample_def FALSE_def initial_globals_def)
  have th: "to_INT32 (f32 (MinSamples (small_config spherical 1) * f32 (of_int (NumChar c2)))) =
      Some 2"
    unfolding num using small_threshold(1) by (simp add: small_config_def)
  have few: "SampleCount lone_sample < max 1 (2 :: int)"
    by (simp add: lone_sample_def)
  have "ComputePrototypes initial_globals c2 (small_config spherical 1) \<noteq> None"
    by (simp add: ComputePrototypes_def r2 p2 MakePrototype_degenerate_eq [OF f th few])
  then have "ClusterSamples initial_globals c (small_config spherical 1) \<noteq> None"
    by (auto simp: ClusterSamples_def root tree c2_def)
  then show ?thesis unfolding c_def .
qed

text \<open>
  C2.  Take any history of \<open>MakeSample\<close> and \<open>ClusterSamples\<close> calls on a new clusterer
  whose \<open>ClusterSamples\<close> calls all returned.  If \<open>ClusterSamples\<close> is not among them,
  \<open>MakeSample\<close> returns a new sample: a leaf with no sub-clusters, a count of 1, not
  clustered, holding the character and the features given, and the clusterer counts one
  more sample.  If \<open>ClusterSamples\<close> is among them, \<open>MakeSample\<close> ends with the error
  \<open>ALREADYCLUSTERED\<close> and the clusterer is as it was before the call.
\<close>

theorem MakeSample_before_and_after_clustering:
  assumes "calls (g0, MakeClusterer n pds) cs = Some (g, c)"
  shows "if list_ex is_DoCluster cs
         then MakeSample c f k = (Inl ALREADYCLUSTERED, c)
         else \<exists>c'. MakeSample c f k =
                  (Inr (LeafCluster False False 1 k (map (\<lambda>i. f ! i) [0..<n])), c') \<and>
                NumberOfSamples c' = NumberOfSamples c + 1 \<and> Root c' = None"
proof (cases "list_ex is_DoCluster cs")
  case True
  with calls_collecting [OF assms MakeClusterer_collecting(1) MakeClusterer_collecting(2)]
  have "Root c \<noteq> None" by simp
  with True show ?thesis by (simp add: MakeSample_clustered)
next
  case False
  with calls_collecting [OF assms MakeClusterer_collecting(1) MakeClusterer_collecting(2)]
  have inv: "Root c = None" "KDTree c \<noteq> None" "SampleSize c = n"
    by (simp_all add: MakeClusterer_collecting(3))
  from inv(2) obtain t where t: "KDTree c = Some t" by auto
  from False inv(1) inv(3) show ?thesis
    by (simp add: MakeSample_collecting [OF inv(1) t])
qed

theorem MakeSample_before_and_after_clustering_witness:
  "(\<exists>g c. calls (initial_globals, MakeClusterer 1 [line_desc])
             [AddSample [3] 0, DoCluster (small_config spherical 1)] = Some (g, c) \<and>
           MakeSample c [1] 1 = (Inl ALREADYCLUSTERED, c)) \<and>
   (\<exists>c'. MakeSample (snd (MakeSample (MakeClusterer 1 [line_desc]) [3] 0)) [1] 1 =
            (Inr (LeafCluster False False 1 1 [1]), c') \<and>
          NumberOfSamples c' = 2 \<and> Root c' = None)"
proof
  from one_sample_ClusterSamples obtain pl c g where
    r: "ClusterSamples initial_globals (snd (MakeSample (MakeClusterer 1 [line_desc]) [3] 0))
          (small_config spherical 1) = Some (pl, c, g)"
    by auto
  then have h: "calls (initial_globals, MakeClusterer 1 [line_desc])
      [AddSample [3] 0, DoCluster (small_config spherical 1)] = Some (g, c)"
    by simp
  from MakeSample_before_and_after_clustering [OF h, of "[1]" 1]
  have "MakeSample c [1] 1 = (Inl ALREADYCLUSTERED, c)" by simp
  with h show "\<exists>g c. calls (initial_globals, MakeClusterer 1 [line_desc])
             [AddSample [3] 0, DoCluster (small_config spherical 1)] = Some (g, c) \<and>
           MakeSample c [1] 1 = (Inl ALREADYCLUSTERED, c)"
    by blast
next
  have h: "calls (initial_globals, MakeClusterer 1 [line_desc]) [AddSample [3] 0] =
      Some (initial_globals, snd (MakeSample (MakeClusterer 1 [line_desc]) [3] 0))"
    by simp
  have n: "NumberOfSamples (snd (MakeSample (MakeClusterer 1 [line_desc]) [3] 0)) = 1"
    by (simp add: MakeSample_def MakeClusterer_def Emalloc_cluster_def KDStore_def Let_def)
  from MakeSample_before_and_after_clustering [OF h, of "[1]" 1] n
  show "\<exists>c'. MakeSample (snd (MakeSample (MakeClusterer 1 [line_desc]) [3] 0)) [1] 1 =
            (Inr (LeafCluster False False 1 1 [1]), c') \<and>
          NumberOfSamples c' = 2 \<and> Root c' = None"
    by simp
qed


end
